theory Spec2Isabelle
  imports Main "HOL-Library.Sublist" "HOL-Library.List_Lexorder" "HOL-Library.AList"
begin

section \<open>Python strings and the library functions the scripts call\<close>

text \<open>
  A Python \<open>str\<close> is a sequence of Unicode code points, so it is modelled as a list of
  natural numbers.  \<open>py\<close> embeds an ASCII literal; a literal of the source with letters
  outside ASCII is written as the list of its code points.
\<close>

type_synonym pystr = "nat list"

definition py :: "string \<Rightarrow> pystr" where
  "py s = map of_char s"

text \<open>\<open>needle in hay\<close> on two strings: \<open>needle\<close> occurs as a contiguous substring.\<close>

definition str_contains :: "pystr \<Rightarrow> pystr \<Rightarrow> bool" where
  "str_contains needle hay = sublist needle hay"

text \<open>\<open>any(w in hay for w in words)\<close>\<close>

definition any_in :: "pystr list \<Rightarrow> pystr \<Rightarrow> bool" where
  "any_in words hay = list_ex (\<lambda>w. str_contains w hay) words"

text \<open>
  The functions of the Python runtime and standard library whose results depend on
  Unicode tables, on the regular-expression engine, on the hash seed of the process or
  on a cryptographic hash are parameters of the model:
  \<^item> \<open>tolower_full\<close>, \<open>toupper_full\<close>: the full case mapping of one code point;
  \<open>final_sigma s i\<close>: whether position \<open>i\<close> of \<open>s\<close> is in final-sigma context;
  \<^item> \<open>unicode_decimal\<close>: the class \<open>\d\<close> of \<open>re\<close> on \<open>str\<close> patterns;
  \<^item> \<open>re_findall pattern text\<close>: \<open>re.findall\<close>;
  \<^item> \<open>set_order xs\<close>: the order in which a \<open>set\<close> built by adding \<open>xs\<close> in turn is
  iterated;
  \<^item> \<open>sha256_hexdigest\<close>: \<open>hashlib.sha256(s.encode()).hexdigest()\<close>.
\<close>

record pylib =
  tolower_full :: "nat \<Rightarrow> pystr"
  final_sigma :: "pystr \<Rightarrow> nat \<Rightarrow> bool"
  toupper_full :: "nat \<Rightarrow> pystr"
  unicode_decimal :: "nat \<Rightarrow> bool"
  re_findall :: "pystr \<Rightarrow> pystr \<Rightarrow> pystr list"
  set_order :: "pystr list \<Rightarrow> pystr list"
  sha256_hexdigest :: "pystr \<Rightarrow> pystr"

text \<open>
  \<open>str.lower()\<close> maps every code point by its full lower-case mapping, except capital
  sigma (U+03A3), which becomes final sigma (U+03C2) or small sigma (U+03C3) according
  to its context in the whole string.
\<close>

fun lower_from :: "pylib \<Rightarrow> pystr \<Rightarrow> nat \<Rightarrow> pystr \<Rightarrow> pystr" where
  "lower_from L whole i [] = []"
| "lower_from L whole i (c # cs) =
     (if c = 931 then [if final_sigma L whole i then 962 else 963] else tolower_full L c)
       @ lower_from L whole (Suc i) cs"

definition lower :: "pylib \<Rightarrow> pystr \<Rightarrow> pystr" where
  "lower L s = lower_from L s 0 s"

definition upper :: "pylib \<Rightarrow> pystr \<Rightarrow> pystr" where
  "upper L s = concat (map (toupper_full L) s)"

text \<open>\<open>str(n)\<close> for an integer: decimal digits, with a minus sign when negative.\<close>

function str_nat :: "nat \<Rightarrow> pystr" where
  "str_nat n = (if n < 10 then [48 + n] else str_nat (n div 10) @ [48 + n mod 10])"
  by pat_completeness auto
termination
  by (relation "measure (\<lambda>n. n)") auto

declare str_nat.simps [simp del]

definition str_int :: "int \<Rightarrow> pystr" where
  "str_int i = (if i < 0 then 45 # str_nat (nat (- i)) else str_nat (nat i))"

text \<open>An exception of the interpreter, and the sequencing of computations that may
  raise one: \<open>Inl\<close> is the exception raised, \<open>Inr\<close> the value returned.\<close>

datatype py_error = TypeError | AttributeError | KeyError

definition bind :: "'e + 'a \<Rightarrow> ('a \<Rightarrow> 'e + 'b) \<Rightarrow> 'e + 'b" where
  "bind m f = (case m of Inl e \<Rightarrow> Inl e | Inr x \<Rightarrow> f x)"

section \<open>The message classifier of the @Niemci/DE4RU collector\<close>

text \<open>\<open>telegram_niemci_de4ru_osint.py\<close>: the keyword tables and \<open>classify_message\<close>.\<close>

definition RED_FLAG_KEYWORDS :: "pystr list" where
  "RED_FLAG_KEYWORDS =
    [py ''lichterfelde'', py ''ostpreu'' @ [223] @ py ''endamm'', py ''hindenburgdamm'',
     py ''teltowkanal'', py ''b'' @ [228] @ py ''kestra'' @ [223] @ py ''e'', py ''goerzallee'',
     py ''heizkraftwerk'', py ''kraftwerk'', py ''stromnetz'', py ''110kv'', py ''hochspannung'',
     py ''kabelbr'' @ [252] @ py ''cke'', py ''cable bridge'', py ''umspannwerk'',
     [1101, 1083, 1077, 1082, 1090, 1088, 1086, 1089, 1077, 1090, 1100],
     [1082, 1072, 1073, 1077, 1083, 1100, 1085, 1099, 1081] @ py '' '' @ [1084, 1086, 1089, 1090],
     py ''pfalzburger'', py ''jpg recruitment'', py ''itaar'', py ''+44 77'', py ''+44 78'',
     py ''+44 73'', py ''anastasia'', py ''anatoliy'', py ''elmira'',
     [1073, 1077, 1079] @ py '' '' @ [1076, 1086, 1082, 1091, 1084, 1077, 1085, 1090, 1086, 1074],
     [1073, 1077, 1079] @ py '' '' @ [1086, 1087, 1099, 1090, 1072],
     [1078, 1080, 1083, 1100, 1077] @ py '' '' @ [1087, 1088, 1077, 1076, 1086, 1089, 1090, 1072, 1074, 1083, 1103, 1077, 1090, 1089, 1103],
     py ''housing provided'', py ''no german required'',
     [1073, 1077, 1079] @ py '' '' @ [1085, 1077, 1084, 1077, 1094, 1082, 1086, 1075, 1086],
     py ''strabag'', py ''stratieka'', py ''boran'', py ''planmann'']"

text \<open>The word lists that \<open>classify_message\<close> writes in line, in the order of the source.\<close>

definition russian_words :: "pystr list" where
  "russian_words =
    [[1088, 1072, 1073, 1086, 1090, 1072], [1074, 1072, 1082, 1072, 1085, 1089, 1080, 1103],
     [1090, 1088, 1077, 1073, 1091, 1077, 1090, 1089, 1103],
     [1079, 1072, 1088, 1087, 1083, 1072, 1090, 1072], [1086, 1087, 1099, 1090]]"

definition ukrainian_words :: "pystr list" where
  "ukrainian_words =
    [[1088, 1086, 1073, 1086, 1090, 1072], [1074, 1072, 1082, 1072, 1085, 1089, 1110, 1103],
     [1079, 1072, 1088, 1087, 1083, 1072, 1090, 1085, 1103]]"

definition polish_words :: "pystr list" where
  "polish_words =
    [py ''praca'', py ''wynagrodzenie'', py ''zatrudnienie'']"

definition german_words :: "pystr list" where
  "german_words =
    [py ''arbeit'', py ''gesucht'', py ''baustelle'', py ''gehalt'']"

definition staffing_agency_words :: "pystr list" where
  "staffing_agency_words =
    [py ''zeitarbeit'', py ''personalvermittlung'', py ''staffing'', py ''recruitment'',
     py ''agency'']"

definition subcontractor_words :: "pystr list" where
  "subcontractor_words =
    [py ''subunternehmer'', py ''nachunternehmer'',
     [1087, 1086, 1076, 1088, 1103, 1076, 1095, 1080, 1082]]"

definition direct_hire_words :: "pystr list" where
  "direct_hire_words =
    [py ''direkt'', py ''einstellung'',
     [1087, 1088, 1103, 1084, 1086, 1081] @ py '' '' @ [1085, 1072, 1105, 1084], py ''direct'']"

definition helper_role_words :: "pystr list" where
  "helper_role_words =
    [py ''helfer'', [1087, 1086, 1076, 1089, 1086, 1073, 1085, 1080, 1082], py ''helper'',
     py ''pomoc'']"

definition housing_words :: "pystr list" where
  "housing_words =
    [[1078, 1080, 1083, 1100, 1077],
     [1087, 1088, 1086, 1078, 1080, 1074, 1072, 1085, 1080, 1077], py ''unterkunft'',
     py ''housing'', py ''wohnung'', py ''zakwaterowanie'']"

definition no_language_words :: "pystr list" where
  "no_language_words =
    [[1073, 1077, 1079] @ py '' '' @ [1085, 1077, 1084, 1077, 1094, 1082, 1086, 1075, 1086],
     py ''ohne deutsch'', py ''no german'',
     [1073, 1077, 1079] @ py '' '' @ [1103, 1079, 1099, 1082, 1072],
     py ''bez j'' @ [281] @ py ''zyka'']"

record classification =
  language :: pystr
  recruitment_type :: pystr
  red_flags :: "pystr list"
  red_flag_score :: int
  contains_phone_number :: bool
  mentions_housing :: bool
  mentions_no_language_required :: bool

text \<open>
  \<open>text\<close> may be \<open>None\<close>: \<open>text.lower() if text else ""\<close> maps \<open>None\<close> and the empty
  string to the empty string, and nothing else in the function reads \<open>text\<close>.
\<close>

definition classify_message :: "pylib \<Rightarrow> pystr option \<Rightarrow> classification" where
  "classify_message L text =
     (let text_lower = (case text of None \<Rightarrow> [] | Some t \<Rightarrow> if t = [] then [] else lower L t);
          lang = (if any_in russian_words text_lower then py ''russian''
                  else if any_in ukrainian_words text_lower then py ''ukrainian''
                  else if any_in polish_words text_lower then py ''polish''
                  else if any_in german_words text_lower then py ''german''
                  else py ''other'');
          rtype = (if any_in staffing_agency_words text_lower then py ''staffing_agency''
                   else if any_in subcontractor_words text_lower then py ''subcontractor''
                   else if any_in direct_hire_words text_lower then py ''direct_hire''
                   else if any_in helper_role_words text_lower then py ''helper_role''
                   else py ''general'');
          red_flags_found = filter (\<lambda>kw. str_contains kw text_lower) RED_FLAG_KEYWORDS;
          contains_phone =
            (list_ex (\<lambda>c. (48 \<le> c \<and> c \<le> 57) \<and> count_list text_lower c > 5) (py ''0123456789'')
             \<or> str_contains (py ''+'') text_lower)
      in \<lparr> language = lang,
           recruitment_type = rtype,
           red_flags = red_flags_found,
           red_flag_score = min (int (length red_flags_found)) 10,
           contains_phone_number = contains_phone,
           mentions_housing = any_in housing_words text_lower,
           mentions_no_language_required = any_in no_language_words text_lower \<rparr>)"

section \<open>The Telegram client as seen by the collectors\<close>

text \<open>
  An exception raised by the client is modelled by the text \<open>str(e)\<close> and, for a flood
  wait, the number of seconds the server asks the caller to wait.
\<close>

datatype exn = Exn (exn_str: pystr) (exn_seconds: "nat option")

text \<open>
  A message as returned by the client.  \<open>msg_text\<close> is \<open>msg.message\<close>, which is \<open>None\<close>
  or empty for a post without text; \<open>msg_date\<close> is the message's time stamp in seconds
  since the epoch (UTC).
\<close>

record message =
  msg_id :: int
  msg_text :: "pystr option"
  msg_date :: int
  msg_views :: "int option"
  msg_forwards :: "int option"
  msg_reply_to :: "int option"

record entity =
  ent_id :: int
  ent_title :: "pystr option"
  ent_participants_count :: "nat option"

text \<open>
  The server: what it answers to the \<open>n\<close>-th request of the run.  The answers may depend
  on \<open>n\<close>, so the same request may be answered differently when it is repeated.
\<close>

record telegram =
  get_entity :: "nat \<Rightarrow> pystr \<Rightarrow> exn + entity"
  search_request :: "nat \<Rightarrow> int \<Rightarrow> pystr \<Rightarrow> exn + message list"
  get_history_request :: "nat \<Rightarrow> int \<Rightarrow> int \<Rightarrow> exn + message list"

text \<open>
  What a run does, in order: the requests it sends, the times it sleeps (in
  milliseconds) and the messages it classifies.
\<close>

datatype event =
    Resolve pystr
  | SearchReq pystr pystr
  | HistoryReq pystr int
  | Sleep nat
  | Classify pystr int

text \<open>An optional attribute read with a default, as \<open>getattr(x, name, default)\<close>.\<close>

definition or_default :: "'a \<Rightarrow> 'a option \<Rightarrow> 'a" where
  "or_default d x = (case x of None \<Rightarrow> d | Some v \<Rightarrow> v)"

text \<open>Python truthiness of \<open>msg.message\<close>.\<close>

definition truthy :: "pystr option \<Rightarrow> bool" where
  "truthy t = (case t of None \<Rightarrow> False | Some s \<Rightarrow> s \<noteq> [])"

section \<open>The @Niemci/DE4RU collector\<close>

text \<open>\<open>telegram_niemci_de4ru_osint.py\<close>. The investigation window, as time stamps:
  2025-10-01 and 2026-01-10, 00:00 UTC.\<close>

definition SEARCH_START :: int where
  "SEARCH_START = 1759276800"

definition SEARCH_END :: int where
  "SEARCH_END = 1768003200"

definition TARGET_CHANNELS :: "pystr list" where
  "TARGET_CHANNELS =
    [py ''@Niemci'', py ''@de4ru'', py ''@de4ru_jobs'', py ''@de4ru_rabota'',
     py ''@rabota_v_germanii'', py ''@rabotavgermanii'', py ''@germany_ua'',
     py ''@ukraine_germany'', py ''@ukr_de'', py ''@praca_niemcy'', py ''@rabota_berlin'',
     py ''@berlin_rabota'', py ''@bau_arbeit'', py ''@montage_germany'',
     py ''@stroyka_germaniya'', py ''@job_germany_ru'', py ''@niemcy_praca'']"

definition LOCATION_QUERIES :: "pystr list" where
  "LOCATION_QUERIES =
    [py ''Lichterfelde'', py ''Steglitz'', py ''Zehlendorf'', py ''S'' @ [252] @ py ''d Berlin'',
     py ''Tempelhof'', py ''Hindenburgdamm'', py ''Ostpreu'' @ [223] @ py ''endamm'',
     [1051, 1080, 1093, 1090, 1077, 1088, 1092, 1077, 1083, 1100, 1076, 1077],
     [1102, 1075] @ py '' '' @ [1041, 1077, 1088, 1083, 1080, 1085, 1072],
     [1064, 1090, 1077, 1075, 1083, 1080, 1094]]"

definition INFRASTRUCTURE_QUERIES :: "pystr list" where
  "INFRASTRUCTURE_QUERIES =
    [py ''Stromnetz'', py ''Kabelverlegung'', py ''Elektriker Berlin'', py ''Monteur Berlin'',
     [1101, 1083, 1077, 1082, 1090, 1088, 1080, 1082] @ py '' '' @ [1041, 1077, 1088, 1083, 1080, 1085],
     [1084, 1086, 1085, 1090, 1072, 1078, 1085, 1080, 1082] @ py '' '' @ [1041, 1077, 1088, 1083, 1080, 1085],
     [1082, 1072, 1073, 1077, 1083, 1100, 1097, 1080, 1082],
     [1082, 1072, 1073, 1077, 1083, 1100, 1085, 1099, 1077] @ py '' '' @ [1088, 1072, 1073, 1086, 1090, 1099],
     [1101, 1083, 1077, 1082, 1090, 1088, 1086, 1084, 1086, 1085, 1090, 1072, 1078],
     py ''Tiefbau Berlin'',
     [1074, 1099, 1089, 1086, 1082, 1086, 1074, 1086, 1083, 1100, 1090, 1085, 1099, 1081],
     [1087, 1086, 1076, 1089, 1090, 1072, 1085, 1094, 1080, 1103],
     py ''Fernw'' @ [228] @ py ''rme'']"

definition CONSTRUCTION_QUERIES :: "pystr list" where
  "CONSTRUCTION_QUERIES =
    [py ''Bauhelfer Berlin'', py ''Bauarbeiter Berlin'',
     py ''Ger'' @ [252] @ py ''stbauer Berlin'',
     [1087, 1086, 1076, 1089, 1086, 1073, 1085, 1080, 1082] @ py '' '' @ [1041, 1077, 1088, 1083, 1080, 1085],
     [1089, 1090, 1088, 1086, 1080, 1090, 1077, 1083, 1100] @ py '' '' @ [1041, 1077, 1088, 1083, 1080, 1085],
     [1073, 1077, 1079] @ py '' '' @ [1085, 1077, 1084, 1077, 1094, 1082, 1086, 1075, 1086] @ py '' '' @ [1041, 1077, 1088, 1083, 1080, 1085],
     [1087, 1088, 1086, 1078, 1080, 1074, 1072, 1085, 1080, 1077] @ py '' '' @ [1041, 1077, 1088, 1083, 1080, 1085],
     [1078, 1080, 1083, 1100, 1077] @ py '' '' @ [1087, 1088, 1077, 1076, 1086, 1089, 1090, 1072, 1074, 1083, 1103, 1077, 1090, 1089, 1103],
     py ''scaffolder Berlin'', py ''installer Berlin'', py ''Helfer Berlin'']"

definition AGENCY_QUERIES :: "pystr list" where
  "AGENCY_QUERIES =
    [py ''JPG Recruitment'', py ''ITAAR'', py ''Sol-Tech'', py ''Zeitarbeit Berlin'',
     py ''staffing Berlin'', py ''BauProfi'', py ''MetallWeld'', py ''Bonava Berlin'',
     py ''Anastasia'', py ''Anatoliy'', py ''+44 7777'', py ''+44 7881'', py ''+44 7944'',
     py ''+44 7365'', py ''recruitment Berlin'']"

definition SUBCONTRACTOR_QUERIES :: "pystr list" where
  "SUBCONTRACTOR_QUERIES =
    [py ''STRABAG Berlin'', py ''Stratieka'', py ''Boran GmbH'', py ''Planmann'',
     py ''BEW Berlin'', py ''Vattenfall Berlin'', py ''Groth Gruppe'']"

definition ALL_QUERIES :: "pystr list" where
  "ALL_QUERIES =
     LOCATION_QUERIES @ INFRASTRUCTURE_QUERIES @ CONSTRUCTION_QUERIES @ AGENCY_QUERIES
       @ SUBCONTRACTOR_QUERIES"

definition compute_doc_id :: "pylib \<Rightarrow> pystr \<Rightarrow> int \<Rightarrow> pystr" where
  "compute_doc_id L channel_name message_id =
     sha256_hexdigest L (channel_name @ py '':'' @ str_int message_id)"

record message_data =
  doc_id :: pystr
  message_id :: int
  date :: int
  message_text :: pystr
  matched_query :: pystr
  views :: "int option"
  forwards :: "int option"
  reply_to :: "int option"
  classified :: classification

record channel_data =
  channel :: pystr
  status :: pystr
  total_messages :: nat
  messages :: "message_data list"
  errors :: "pystr list"
  channel_title :: "pystr option"
  channel_id :: "int option"
  participants_count :: "nat option"

text \<open>The state of one call of \<open>search_channel\<close>, with the trace of the run so far and
  the number of requests sent so far.\<close>

record chan_state =
  data :: channel_data
  seen_ids :: "int set"
  trace :: "event list"
  calls :: nat

definition make_message_data ::
  "pylib \<Rightarrow> pystr \<Rightarrow> pystr \<Rightarrow> message \<Rightarrow> classification \<Rightarrow> message_data" where
  "make_message_data L channel_name query m c =
     \<lparr> doc_id = compute_doc_id L channel_name (msg_id m),
       message_id = msg_id m,
       date = msg_date m,
       message_text = or_default [] (msg_text m),
       matched_query = query,
       views = msg_views m,
       forwards = msg_forwards m,
       reply_to = msg_reply_to m,
       classified = c \<rparr>"

definition append_message :: "message_data \<Rightarrow> chan_state \<Rightarrow> chan_state" where
  "append_message md s = s\<lparr>data := (data s)\<lparr>messages := messages (data s) @ [md]\<rparr>\<rparr>"

definition append_error :: "pystr \<Rightarrow> chan_state \<Rightarrow> chan_state" where
  "append_error e s = s\<lparr>data := (data s)\<lparr>errors := errors (data s) @ [e]\<rparr>\<rparr>"

definition emit :: "event \<Rightarrow> chan_state \<Rightarrow> chan_state" where
  "emit ev s = s\<lparr>trace := trace s @ [ev]\<rparr>"

text \<open>The body of \<open>for msg in search_result.messages\<close> (lines 271--296).\<close>

definition query_message :: "pylib \<Rightarrow> pystr \<Rightarrow> pystr \<Rightarrow> chan_state \<Rightarrow> message \<Rightarrow> chan_state" where
  "query_message L channel_name query s m =
     (if msg_id m \<in> seen_ids s then s
      else if \<not> truthy (msg_text m) then s
      else if msg_date m < SEARCH_START \<or> msg_date m > SEARCH_END then s
      else
        let s1 = s\<lparr>seen_ids := insert (msg_id m) (seen_ids s)\<rparr>;
            s2 = emit (Classify channel_name (msg_id m)) s1;
            c = classify_message L (msg_text m)
        in append_message (make_message_data L channel_name query m c) s2)"

text \<open>The body of \<open>for query in queries\<close> (lines 254--317): one request, then either
  the messages and the pause of half a second, or the handler of the exception.\<close>

definition query_step ::
  "telegram \<Rightarrow> pylib \<Rightarrow> pystr \<Rightarrow> entity \<Rightarrow> chan_state \<Rightarrow> pystr \<Rightarrow> chan_state" where
  "query_step T L channel_name ent s query =
     (let s1 = (emit (SearchReq channel_name query) s)\<lparr>calls := calls s + 1\<rparr> in
      case search_request T (calls s) (ent_id ent) query of
        Inr msgs \<Rightarrow> emit (Sleep 500) (foldl (query_message L channel_name query) s1 msgs)
      | Inl e \<Rightarrow>
          let s2 = append_error (py ''Query '' @ [39] @ query @ [39] @ py '': '' @ exn_str e) s1
          in if str_contains (py ''FLOOD'') (upper L (exn_str e))
             then emit (Sleep 30000) s2 else s2)"

text \<open>The keywords of the relevance filter of the history scan (lines 358--363).\<close>

definition HISTORY_RELEVANT_KEYWORDS :: "pystr list" where
  "HISTORY_RELEVANT_KEYWORDS =
    [py ''bau'', py ''elektr'', py ''montag'', py ''install'', py ''ger'' @ [252] @ py ''st'',
     py ''scaffold'', [1089, 1090, 1088, 1086, 1081], [1101, 1083, 1077, 1082, 1090, 1088],
     [1084, 1086, 1085, 1090, 1072, 1078], [1082, 1072, 1073, 1077, 1083],
     [1087, 1086, 1076, 1089, 1086, 1073], py ''helfer'', py ''arbeiter'',
     [1088, 1072, 1073, 1086, 1090], [1074, 1072, 1082, 1072, 1085], py ''berlin'',
     [1073, 1077, 1088, 1083, 1080, 1085]]"

text \<open>
  The body of \<open>for msg in history.messages\<close> (lines 339--385).  The accumulator holds
  the state, \<open>history_offset_id\<close> and \<open>batch_new\<close>; \<open>break\<close> ends the recursion.
\<close>

fun history_messages ::
  "pylib \<Rightarrow> pystr \<Rightarrow> message list \<Rightarrow> chan_state \<times> int \<times> nat \<Rightarrow> chan_state \<times> int \<times> nat" where
  "history_messages L channel_name [] acc = acc"
| "history_messages L channel_name (m # ms) (s, history_offset_id, batch_new) =
     (if msg_id m \<in> seen_ids s then
        history_messages L channel_name ms (s, history_offset_id, batch_new)
      else if \<not> truthy (msg_text m) then
        history_messages L channel_name ms (s, history_offset_id, batch_new)
      else if msg_date m < SEARCH_START then (s, 0, batch_new)
      else if msg_date m > SEARCH_END then
        history_messages L channel_name ms (s, history_offset_id, batch_new)
      else
        let s1 = s\<lparr>seen_ids := insert (msg_id m) (seen_ids s)\<rparr>;
            s2 = emit (Classify channel_name (msg_id m)) s1;
            c = classify_message L (msg_text m);
            text_lower = lower L (or_default [] (msg_text m));
            is_relevant = (red_flag_score c > 0 \<or> any_in HISTORY_RELEVANT_KEYWORDS text_lower)
        in if is_relevant then
             history_messages L channel_name ms
               (append_message (make_message_data L channel_name (py ''_history_scan'') m c) s2,
                history_offset_id, batch_new + 1)
           else history_messages L channel_name ms (s2, history_offset_id, batch_new))"

text \<open>
  The \<open>while True\<close> loop of the history scan (lines 324--400), inside its \<open>try\<close>: an
  exception of the request ends the scan and is recorded.
\<close>

function history_loop ::
  "telegram \<Rightarrow> pylib \<Rightarrow> pystr \<Rightarrow> entity \<Rightarrow> int \<Rightarrow> nat \<Rightarrow> chan_state \<Rightarrow> chan_state" where
  "history_loop T L channel_name ent history_offset_id history_batch s =
     (let s1 = (emit (HistoryReq channel_name history_offset_id) s)\<lparr>calls := calls s + 1\<rparr> in
      case get_history_request T (calls s) (ent_id ent) history_offset_id of
        Inl e \<Rightarrow> append_error (py ''History scan: '' @ exn_str e) s1
      | Inr msgs \<Rightarrow>
          if msgs = [] then s1
          else
            let r = history_messages L channel_name msgs (s1, history_offset_id, 0);
                s2 = fst r;
                offset2 = fst (snd r)
            in if offset2 = 0 then s2
               else if history_batch + 1 \<ge> 20 then s2
               else history_loop T L channel_name ent (msg_id (last msgs)) (history_batch + 1)
                      (emit (Sleep 300) s2))"
  by pat_completeness auto
termination
  by (relation "measure (\<lambda>(T, L, channel_name, ent, history_offset_id, history_batch, s). 20 - history_batch)")
     auto

declare history_loop.simps [simp del]

text \<open>The results of a run: \<open>results["channels"]\<close>, a dictionary in insertion order, with
  the trace and the number of requests of the run.\<close>

record run =
  channels :: "(pystr \<times> channel_data) list"
  run_trace :: "event list"
  run_calls :: nat

definition search_channel :: "telegram \<Rightarrow> pylib \<Rightarrow> pystr \<Rightarrow> pystr list \<Rightarrow> run \<Rightarrow> run" where
  "search_channel T L channel_name queries results =
     (let channel_data0 =
            \<lparr> channel = channel_name, status = py ''unknown'', total_messages = 0,
              messages = [], errors = [], channel_title = None, channel_id = None,
              participants_count = None \<rparr>;
          trace1 = run_trace results @ [Resolve channel_name];
          calls1 = run_calls results + 1
      in case get_entity T (run_calls results) channel_name of
           Inl e \<Rightarrow>
             results\<lparr>channels :=
                        AList.update channel_name
                          (channel_data0\<lparr>status := py ''inaccessible'',
                             errors := [py ''Cannot access channel: '' @ exn_str e]\<rparr>)
                          (channels results),
                     run_trace := trace1, run_calls := calls1\<rparr>
         | Inr ent \<Rightarrow>
             let s0 = \<lparr> data = channel_data0\<lparr>status := py ''accessible'',
                               channel_title := Some (or_default channel_name (ent_title ent)),
                               channel_id := Some (ent_id ent),
                               participants_count := ent_participants_count ent\<rparr>,
                        seen_ids = {}, trace = trace1, calls = calls1 \<rparr>;
                 s1 = foldl (query_step T L channel_name ent) s0 queries;
                 s2 = history_loop T L channel_name ent 0 0 s1;
                 channel_data1 = (data s2)\<lparr>total_messages := length (messages (data s2))\<rparr>
             in results\<lparr>channels := AList.update channel_name channel_data1 (channels results),
                        run_trace := trace s2, run_calls := calls s2\<rparr>)"

text \<open>The loop of \<open>main\<close> over the channels (lines 456--458), with its pause of one
  second after each channel.\<close>

definition run_channels :: "telegram \<Rightarrow> pylib \<Rightarrow> pystr list \<Rightarrow> run \<Rightarrow> run" where
  "run_channels T L chans results =
     foldl (\<lambda>r c. (search_channel T L c ALL_QUERIES r)\<lparr>run_trace :=
                      run_trace (search_channel T L c ALL_QUERIES r) @ [Sleep 1000]\<rparr>)
       results chans"

text \<open>The lines of the channel status summary that \<open>main\<close> prints (lines 517--522):
  name, status and number of messages of every entry of \<open>results["channels"]\<close>.\<close>

definition channel_status :: "run \<Rightarrow> (pystr \<times> pystr \<times> nat) list" where
  "channel_status results =
     map (\<lambda>(ch_name, ch_data). (ch_name, status ch_data, total_messages ch_data))
       (channels results)"

text \<open>The history requests among the events of a trace.\<close>

definition is_history_req :: "event \<Rightarrow> bool" where
  "is_history_req ev = (case ev of HistoryReq c off \<Rightarrow> True | _ \<Rightarrow> False)"

definition history_requests :: "event list \<Rightarrow> event list" where
  "history_requests tr = filter is_history_req tr"

text \<open>The search requests among the events of a trace.\<close>

definition is_search_req :: "event \<Rightarrow> bool" where
  "is_search_req ev = (case ev of SearchReq c q \<Rightarrow> True | _ \<Rightarrow> False)"

definition search_requests :: "event list \<Rightarrow> event list" where
  "search_requests tr = filter is_search_req tr"

section \<open>The phone-number collector\<close>

text \<open>\<open>telegram_phone_number_search.py\<close>: the tables, \<open>extract_phones\<close>, \<open>score_message\<close>
  and \<open>search_channel_phones\<close>.  Constants whose names the two scripts share carry the
  prefix \<open>PHONE_\<close> or the suffix \<open>_phones\<close> here.\<close>

definition PHONE_TARGET_CHANNELS :: "pystr list" where
  "PHONE_TARGET_CHANNELS =
    [py ''@Niemci'', py ''@rabota_v_germanii'', py ''@rabotavgermanii'', py ''@germany_ua'',
     py ''@ukraine_germany'', py ''@ukr_de'', py ''@rabota_berlin'', py ''@bau_arbeit'',
     py ''@job_germany_ru'', py ''@rabota_za_granicey'', py ''@work_europe_ru'',
     py ''@rabota_europe'', py ''@job_berlin'', py ''@layboard'']"

definition PHONE_QUERIES :: "pystr list" where
  "PHONE_QUERIES =
    [py ''+49 30 88475588'', py ''88475588'', py ''jkbeautyinstitut'', py ''jk_beautyinstitut'',
     py ''contact@jkbeautyinstitut.de'', py ''Pfalzburger'', py ''+44 7881 228865'',
     py ''7881228865'', py ''+44 7777 213139'', py ''7777213139'', py ''+44 7387 793670'',
     py ''7387793670'', py ''+44 7459 878923'', py ''7459878923'', py ''+44 7908 973686'',
     py ''7908973686'', py ''+44 7494 401874'', py ''7494401874'', py ''+46 73 788 40 15'',
     py ''737884015'', py ''+49 1577 7103445'', py ''15777103445'', py ''JPG Recruitment'',
     py ''JPG Recruit'', py ''ITAAR'', py ''ITAAR Recruitment'', py ''Sol-Tech'']"

definition ENTITY_QUERIES :: "pystr list" where
  "ENTITY_QUERIES =
    [py ''Anastasia'', py ''Anatoliy'', py ''Elmira'', py ''Bagratuni'',
     py ''Dimitri Bagratuni'', py ''primaholding'', py ''voxenergie'', py ''nowenergy'',
     py ''primastrom'', py ''primacall'', py ''primasales'', py ''Vukusic'',
     py ''Marijana Fenster'', py ''Mario Kovac'', py ''STRABAG'', py ''Stratieka'',
     py ''Boran GmbH'', py ''Planmann'',
     py ''Gro'' @ [223] @ py ''beerenstra'' @ [223] @ py ''e'',
     py ''Gro'' @ [223] @ py ''beerenstr'']"

definition BERLIN_CONSTRUCTION_QUERIES :: "pystr list" where
  "BERLIN_CONSTRUCTION_QUERIES =
    [py ''Lichterfelde'', py ''Steglitz Berlin'', py ''Stromnetz Berlin'',
     py ''Kabelverlegung Berlin'',
     [1069, 1083, 1077, 1082, 1090, 1088, 1080, 1082] @ py '' '' @ [1041, 1077, 1088, 1083, 1080, 1085],
     [1101, 1083, 1077, 1082, 1090, 1088, 1086, 1084, 1086, 1085, 1090, 1072, 1078] @ py '' '' @ [1041, 1077, 1088, 1083, 1080, 1085],
     [1082, 1072, 1073, 1077, 1083, 1100, 1097, 1080, 1082] @ py '' '' @ [1041, 1077, 1088, 1083, 1080, 1085],
     [1084, 1086, 1085, 1090, 1072, 1078, 1085, 1080, 1082] @ py '' '' @ [1041, 1077, 1088, 1083, 1080, 1085]]"

definition ALL_QUERIES_phones :: "pystr list" where
  "ALL_QUERIES_phones = PHONE_QUERIES @ ENTITY_QUERIES @ BERLIN_CONSTRUCTION_QUERIES"

text \<open>The regular expressions, as the source writes them (code point 92 is the
  backslash, 42 the star).\<close>

definition PHONE_PATTERNS :: "pystr list" where
  "PHONE_PATTERNS =
    [[92] @ py ''+44'' @ [92] @ py ''s'' @ [42] @ py ''7'' @ [92] @ py ''d{3}'' @ [92] @ py ''s'' @ [42, 92] @ py ''d{3}'' @ [92] @ py ''s'' @ [42, 92] @ py ''d{3}'',
     [92] @ py ''+44'' @ [92] @ py ''s'' @ [42] @ py ''7'' @ [92] @ py ''d{9}'',
     [92] @ py ''+46'' @ [92] @ py ''s'' @ [42] @ py ''7'' @ [92] @ py ''d['' @ [92] @ py ''s'' @ [92] @ py ''d]{7,10}'',
     [92] @ py ''+49'' @ [92] @ py ''s'' @ [42] @ py ''1[5-7]'' @ [92] @ py ''d['' @ [92] @ py ''s'' @ [92] @ py ''d]{7,10}'',
     [92] @ py ''+49'' @ [92] @ py ''s'' @ [42] @ py ''30'' @ [92] @ py ''s'' @ [42, 92] @ py ''d{6,9}'',
     py ''7881'' @ [92] @ py ''s'' @ [42] @ py ''228'' @ [92] @ py ''s'' @ [42] @ py ''865'',
     py ''7777'' @ [92] @ py ''s'' @ [42] @ py ''213'' @ [92] @ py ''s'' @ [42] @ py ''139'',
     py ''7387'' @ [92] @ py ''s'' @ [42] @ py ''793'' @ [92] @ py ''s'' @ [42] @ py ''670'',
     py ''7459'' @ [92] @ py ''s'' @ [42] @ py ''878'' @ [92] @ py ''s'' @ [42] @ py ''923'',
     py ''7908'' @ [92] @ py ''s'' @ [42] @ py ''973'' @ [92] @ py ''s'' @ [42] @ py ''686'',
     py ''7494'' @ [92] @ py ''s'' @ [42] @ py ''401'' @ [92] @ py ''s'' @ [42] @ py ''874'',
     py ''1577'' @ [92] @ py ''s'' @ [42] @ py ''710'' @ [92] @ py ''s'' @ [42] @ py ''3445'']"

definition extract_phones :: "pylib \<Rightarrow> pystr \<Rightarrow> pystr list" where
  "extract_phones L txt =
     set_order L (concat (map (\<lambda>pattern. re_findall L pattern txt) PHONE_PATTERNS))"

text \<open>The five tables of \<open>score_message\<close>, in the order of the source.\<close>

definition known_phones :: "pystr list" where
  "known_phones =
    [py ''7881228865'', py ''7777213139'', py ''7387793670'', py ''7459878923'',
     py ''7908973686'', py ''7494401874'', py ''15777103445'', py ''737884015'', py ''88475588'']"

definition high_entities :: "pystr list" where
  "high_entities =
    [py ''jpg recruitment'', py ''itaar'', py ''pfalzburger'', py ''jkbeautyinstitut'',
     py ''jk_beauty'', py ''bagratuni'', py ''primaholding'', py ''voxenergie'', py ''sol-tech'']"

definition person_names :: "pystr list" where
  "person_names =
    [py ''anastasia'', py ''anatoliy'', py ''elmira'', py ''vukusic'', py ''marijana fenster'',
     py ''mario kovac'']"

definition locations :: "pystr list" where
  "locations =
    [py ''lichterfelde'', py ''stromnetz'', py ''steglitz'', py ''110kv'',
     py ''kabelbr'' @ [252] @ py ''cke'', py ''ostpreu'' @ [223] @ py ''endamm'']"

definition construction :: "pystr list" where
  "construction =
    [py ''bauhelfer berlin'',
     [1101, 1083, 1077, 1082, 1090, 1088, 1080, 1082] @ py '' '' @ [1073, 1077, 1088, 1083, 1080, 1085],
     [1084, 1086, 1085, 1090, 1072, 1078, 1085, 1080, 1082] @ py '' '' @ [1073, 1077, 1088, 1083, 1080, 1085],
     [1089, 1090, 1088, 1086, 1080, 1090, 1077, 1083, 1100] @ py '' '' @ [1073, 1077, 1088, 1083, 1080, 1085],
     [1082, 1072, 1073, 1077, 1083, 1100, 1097, 1080, 1082], py ''scaffolder berlin'',
     py ''strabag'', py ''stratieka'', py ''boran'', py ''planmann'']"

record scoring =
  relevance_score :: int
  indicators :: "pystr list"
  phones_extracted :: "pystr list"

text \<open>
  One of the five loops of \<open>score_message\<close>: every entry of the table found in \<open>hay\<close>
  adds \<open>weight\<close> to the score and appends the tagged entry to the indicators.
\<close>

definition score_table ::
  "int \<Rightarrow> pystr \<Rightarrow> pystr \<Rightarrow> pystr list \<Rightarrow> int \<times> pystr list \<Rightarrow> int \<times> pystr list" where
  "score_table weight tag hay table acc =
     foldl (\<lambda>(score, inds) kw.
              if str_contains kw hay then (score + weight, inds @ [tag @ kw]) else (score, inds))
       acc table"

text \<open>\<open>score_message\<close> on a string.  \<open>re.sub(r'\D', '', text)\<close> keeps the decimal digits
  of the text.\<close>

definition score_message :: "pylib \<Rightarrow> pystr \<Rightarrow> scoring" where
  "score_message L txt =
     (let text_lower = (if txt = [] then [] else lower L txt);
          text_digits = filter (unicode_decimal L) txt;
          acc1 = score_table 5 (py ''KNOWN_PHONE:'') text_digits known_phones (0, []);
          acc2 = score_table 3 (py ''ENTITY:'') text_lower high_entities acc1;
          acc3 = score_table 2 (py ''PERSON:'') text_lower person_names acc2;
          acc4 = score_table 2 (py ''LOCATION:'') text_lower locations acc3;
          acc5 = score_table 1 (py ''CONSTRUCTION:'') text_lower construction acc4;
          phones_found = extract_phones L txt
      in \<lparr> relevance_score = min (fst acc5) 20,
           indicators = snd acc5,
           phones_extracted = phones_found \<rparr>)"

text \<open>
  \<open>score_message\<close> on any argument a caller can pass, a string or \<open>None\<close>, with the
  statements that can raise: \<open>text.lower()\<close> raises \<open>AttributeError\<close> on \<open>None\<close>, and is
  evaluated only if \<open>text\<close> is truthy; \<open>re.sub(r'\D', '', text)\<close> and the \<open>re.findall\<close> of
  \<open>extract_phones\<close> raise \<open>TypeError\<close> on \<open>None\<close>.  The tests \<open>in\<close> are between strings.
\<close>

definition str_lower :: "pylib \<Rightarrow> pystr option \<Rightarrow> py_error + pystr" where
  "str_lower L arg = (case arg of None \<Rightarrow> Inl AttributeError | Some s \<Rightarrow> Inr (lower L s))"

definition re_sub_non_digits :: "pylib \<Rightarrow> pystr option \<Rightarrow> py_error + pystr" where
  "re_sub_non_digits L arg =
     (case arg of None \<Rightarrow> Inl TypeError | Some s \<Rightarrow> Inr (filter (unicode_decimal L) s))"

definition extract_phones_call :: "pylib \<Rightarrow> pystr option \<Rightarrow> py_error + pystr list" where
  "extract_phones_call L arg =
     (case arg of None \<Rightarrow> Inl TypeError | Some s \<Rightarrow> Inr (extract_phones L s))"

definition score_message_call :: "pylib \<Rightarrow> pystr option \<Rightarrow> py_error + scoring" where
  "score_message_call L arg =
     bind (if truthy arg then str_lower L arg else Inr []) (\<lambda>text_lower.
     bind (re_sub_non_digits L arg) (\<lambda>text_digits.
     let acc1 = score_table 5 (py ''KNOWN_PHONE:'') text_digits known_phones (0, []);
         acc2 = score_table 3 (py ''ENTITY:'') text_lower high_entities acc1;
         acc3 = score_table 2 (py ''PERSON:'') text_lower person_names acc2;
         acc4 = score_table 2 (py ''LOCATION:'') text_lower locations acc3;
         acc5 = score_table 1 (py ''CONSTRUCTION:'') text_lower construction acc4
     in bind (extract_phones_call L arg) (\<lambda>phones_found.
        Inr \<lparr> relevance_score = min (fst acc5) 20,
              indicators = snd acc5,
              phones_extracted = phones_found \<rparr>)))"

text \<open>
  The five tables as one list of entries, in the order in which \<open>score_message\<close> goes
  through them: the weight, the tag, whether the entry is looked up in the digits of
  the text (or else in the lower-cased text), and the keyword.
\<close>

definition score_entries :: "(int \<times> pystr \<times> bool \<times> pystr) list" where
  "score_entries =
     map (\<lambda>kw. (5, py ''KNOWN_PHONE:'', True, kw)) known_phones
     @ map (\<lambda>kw. (3, py ''ENTITY:'', False, kw)) high_entities
     @ map (\<lambda>kw. (2, py ''PERSON:'', False, kw)) person_names
     @ map (\<lambda>kw. (2, py ''LOCATION:'', False, kw)) locations
     @ map (\<lambda>kw. (1, py ''CONSTRUCTION:'', False, kw)) construction"

fun entry_weight :: "int \<times> pystr \<times> bool \<times> pystr \<Rightarrow> int" where
  "entry_weight (w, tag, on_digits, kw) = w"

fun entry_name :: "int \<times> pystr \<times> bool \<times> pystr \<Rightarrow> pystr" where
  "entry_name (w, tag, on_digits, kw) = tag @ kw"

fun entry_matches :: "pylib \<Rightarrow> pystr \<Rightarrow> int \<times> pystr \<times> bool \<times> pystr \<Rightarrow> bool" where
  "entry_matches L txt (w, tag, on_digits, kw) =
     str_contains kw (if on_digits then filter (unicode_decimal L) txt else lower L txt)"

text \<open>The two code points that \<open>str.lower()\<close> can produce for a capital sigma.\<close>

definition no_sigma :: "pystr \<Rightarrow> bool" where
  "no_sigma kw = (962 \<notin> set kw \<and> 963 \<notin> set kw)"

definition sigma_rel :: "nat \<Rightarrow> nat \<Rightarrow> bool" where
  "sigma_rel a b = (a = b \<or> (a \<in> {962, 963} \<and> b \<in> {962, 963}))"

record phone_message_data =
  pm_doc_id :: pystr
  pm_message_id :: int
  pm_date :: int
  pm_text :: pystr
  pm_matched_query :: pystr
  pm_views :: "int option"
  pm_forwards :: "int option"
  pm_scoring :: scoring

record phone_channel_data =
  pc_channel :: pystr
  pc_status :: pystr
  pc_total_messages :: nat
  pc_messages :: "phone_message_data list"
  pc_channel_title :: "pystr option"
  pc_channel_id :: "int option"

record phone_state =
  pdata :: phone_channel_data
  pseen_ids :: "int set"
  ptrace :: "event list"
  pcalls :: nat

definition pemit :: "event \<Rightarrow> phone_state \<Rightarrow> phone_state" where
  "pemit ev s = s\<lparr>ptrace := ptrace s @ [ev]\<rparr>"

text \<open>The body of \<open>for msg in search_result.messages\<close> (lines 282--303); \<open>msg.message\<close>
  is a non-empty string where \<open>score_message\<close> is called.\<close>

definition phone_message ::
  "pylib \<Rightarrow> pystr \<Rightarrow> pystr \<Rightarrow> phone_state \<Rightarrow> message \<Rightarrow> phone_state" where
  "phone_message L channel_name query s m =
     (if msg_id m \<in> pseen_ids s then s
      else case msg_text m of
        None \<Rightarrow> s
      | Some txt \<Rightarrow>
          if txt = [] then s
          else
            let s1 = s\<lparr>pseen_ids := insert (msg_id m) (pseen_ids s)\<rparr>;
                s2 = pemit (Classify channel_name (msg_id m)) s1;
                sc = score_message L txt;
                message_data =
                  \<lparr> pm_doc_id = compute_doc_id L channel_name (msg_id m),
                    pm_message_id = msg_id m, pm_date = msg_date m, pm_text = txt,
                    pm_matched_query = query, pm_views = msg_views m,
                    pm_forwards = msg_forwards m, pm_scoring = sc \<rparr>
            in s2\<lparr>pdata := (pdata s2)\<lparr>pc_messages := pc_messages (pdata s2) @ [message_data]\<rparr>\<rparr>)"

text \<open>The body of \<open>for query in ALL_QUERIES\<close> (lines 265--322).\<close>

definition phone_query_step ::
  "telegram \<Rightarrow> pylib \<Rightarrow> pystr \<Rightarrow> entity \<Rightarrow> phone_state \<Rightarrow> pystr \<Rightarrow> phone_state" where
  "phone_query_step T L channel_name ent s query =
     (let s1 = (pemit (SearchReq channel_name query) s)\<lparr>pcalls := pcalls s + 1\<rparr> in
      case search_request T (pcalls s) (ent_id ent) query of
        Inr msgs \<Rightarrow> pemit (Sleep 500) (foldl (phone_message L channel_name query) s1 msgs)
      | Inl e \<Rightarrow>
          if str_contains (py ''FLOOD'') (upper L (exn_str e))
          then pemit (Sleep 30000) s1 else s1)"

record phone_run =
  pr_channels :: "(pystr \<times> phone_channel_data) list"
  pr_trace :: "event list"
  pr_calls :: nat

definition search_channel_phones :: "telegram \<Rightarrow> pylib \<Rightarrow> pystr \<Rightarrow> phone_run \<Rightarrow> phone_run" where
  "search_channel_phones T L channel_name results =
     (let channel_data0 =
            \<lparr> pc_channel = channel_name, pc_status = py ''unknown'', pc_total_messages = 0,
              pc_messages = [], pc_channel_title = None, pc_channel_id = None \<rparr>;
          trace1 = pr_trace results @ [Resolve channel_name];
          calls1 = pr_calls results + 1
      in case get_entity T (pr_calls results) channel_name of
           Inl e \<Rightarrow>
             results\<lparr>pr_channels :=
                        AList.update channel_name (channel_data0\<lparr>pc_status := py ''inaccessible''\<rparr>)
                          (pr_channels results),
                     pr_trace := trace1, pr_calls := calls1\<rparr>
         | Inr ent \<Rightarrow>
             let s0 = \<lparr> pdata = channel_data0\<lparr>pc_status := py ''accessible'',
                               pc_channel_title := Some (or_default channel_name (ent_title ent)),
                               pc_channel_id := Some (ent_id ent)\<rparr>,
                        pseen_ids = {}, ptrace = trace1, pcalls = calls1 \<rparr>;
                 s1 = foldl (phone_query_step T L channel_name ent) s0 ALL_QUERIES_phones;
                 channel_data1 =
                   (pdata s1)\<lparr>pc_total_messages := length (pc_messages (pdata s1))\<rparr>
             in results\<lparr>pr_channels := AList.update channel_name channel_data1 (pr_channels results),
                        pr_trace := ptrace s1, pr_calls := pcalls s1\<rparr>)"

section \<open>Deduplication: what the loops are compared with\<close>

text \<open>The identifiers of the messages classified in a trace, in order.\<close>

definition classify_ids :: "event list \<Rightarrow> int list" where
  "classify_ids tr = concat (map (\<lambda>ev. case ev of Classify c i \<Rightarrow> [i] | _ \<Rightarrow> []) tr)"

text \<open>
  The deduplicator of the specification: an identifier is admitted the first time it is
  observed and suppressed afterwards; \<open>seen\<close> holds the identifiers observed before.
\<close>

fun dedup :: "'a set \<Rightarrow> 'a list \<Rightarrow> 'a list" where
  "dedup seen [] = []"
| "dedup seen (x # xs) =
     (if x \<in> seen then dedup seen xs else x # dedup (insert x seen) xs)"

text \<open>The messages the server delivers to the query loop of one channel, page after
  page, when the first query is request number \<open>n\<close>: a failed request delivers none.\<close>

fun delivered :: "telegram \<Rightarrow> int \<Rightarrow> nat \<Rightarrow> pystr list \<Rightarrow> message list" where
  "delivered T peer n [] = []"
| "delivered T peer n (q # qs) =
     (case search_request T n peer q of Inl e \<Rightarrow> [] | Inr msgs \<Rightarrow> msgs)
       @ delivered T peer (Suc n) qs"

definition has_text :: "message \<Rightarrow> bool" where
  "has_text m = truthy (msg_text m)"

definition in_window :: "message \<Rightarrow> bool" where
  "in_window m = (SEARCH_START \<le> msg_date m \<and> msg_date m \<le> SEARCH_END)"

text \<open>
  The invariant of the loops of \<open>search_channel\<close>, for a call that started when the
  trace had \<open>n\<close> events: the identifiers classified since then are distinct and are
  exactly the identifiers seen; the identifiers collected are distinct and were all
  seen; every message collected is dated within the window.
\<close>

definition chan_inv :: "nat \<Rightarrow> chan_state \<Rightarrow> bool" where
  "chan_inv n s =
     (n \<le> length (trace s)
      \<and> distinct (classify_ids (drop n (trace s)))
      \<and> set (classify_ids (drop n (trace s))) = seen_ids s
      \<and> distinct (map message_id (messages (data s)))
      \<and> set (map message_id (messages (data s))) \<subseteq> seen_ids s
      \<and> list_all (\<lambda>md. SEARCH_START \<le> date md \<and> date md \<le> SEARCH_END) (messages (data s)))"

text \<open>The entry of \<open>results["channels"]\<close> for a channel.\<close>

definition channel_entry :: "run \<Rightarrow> pystr \<Rightarrow> channel_data option" where
  "channel_entry results channel_name = map_of (channels results) channel_name"

section \<open>The history retrieval of the extended @Niemci search\<close>

text \<open>
  \<open>telegram_niemci_extended_search.py\<close>, lines 129--160.  The window is the year 2025
  (UTC).  The loop ends at an empty page, at a page of fewer than 100 messages or at an
  exception; it need not end, so the result is optional.  The arguments after the
  cursor are \<open>all_messages\<close>, the trace and the number of requests sent.
\<close>

definition SEARCH_START_DATE :: int where
  "SEARCH_START_DATE = 1735689600"

definition SEARCH_END_DATE :: int where
  "SEARCH_END_DATE = 1767225599"

definition TARGET_CHANNEL :: pystr where
  "TARGET_CHANNEL = py ''@Niemci''"

partial_function (option) extended_history ::
  "telegram \<Rightarrow> entity \<Rightarrow> int \<Rightarrow> message list \<Rightarrow> event list \<Rightarrow> nat
     \<Rightarrow> (message list \<times> event list \<times> nat) option" where
  "extended_history T chan offset_id all_messages tr n =
     (case get_history_request T n (ent_id chan) offset_id of
        Inl e \<Rightarrow> Some (all_messages, tr @ [HistoryReq TARGET_CHANNEL offset_id], Suc n)
      | Inr msgs \<Rightarrow>
          if msgs = [] then
            Some (all_messages, tr @ [HistoryReq TARGET_CHANNEL offset_id], Suc n)
          else
            let all_messages1 =
                  all_messages
                    @ filter (\<lambda>msg. msg_date msg \<ge> SEARCH_START_DATE
                                     \<and> msg_date msg \<le> SEARCH_END_DATE) msgs
            in if length msgs < 100 then
                 Some (all_messages1, tr @ [HistoryReq TARGET_CHANNEL offset_id], Suc n)
               else
                 extended_history T chan (msg_id (last msgs)) all_messages1
                   (tr @ [HistoryReq TARGET_CHANNEL offset_id]) (Suc n))"

section \<open>The channel loop of the extended recruitment search\<close>

text \<open>
  \<open>telegram_extended_recruitment_berlin_2025.py\<close>, lines 135--269: the loop over the
  channels with its handler for a channel that cannot be resolved.  The collection of
  one resolved channel (history scan and query searches, lines 140--252) is a
  parameter \<open>collect\<close>: given the number of requests sent, the channel and the rest of
  the results, it returns the rest of the results as it leaves them, the number of
  requests it sent, the number of messages of the channel, and the exception that
  escapes it, if any.  \<open>xr_rest\<close> holds the parts of \<open>results\<close> that only the
  collection writes (the messages and the statistics by query, language and month).
\<close>

definition ADDITIONAL_CHANNELS :: "pystr list" where
  "ADDITIONAL_CHANNELS =
    [py ''@russiangermany'', py ''@germany_ru'', py ''@berlin_ru'', py ''@moskva_berlin'',
     py ''@russians_berlin'', py ''@deutschland_ru'', py ''@rabota_eu'', py ''@rabota_germany'',
     py ''@rabota_berlin_ru'', py ''@vakansii_germany'', py ''@job_germany'', py ''@arbeit_ru'',
     py ''@stroyka_eu'', py ''@elektrik_eu'', py ''@montazhniki_eu'', py ''@santehnik_eu'',
     py ''@str builders_germany'', py ''@ukrainians_germany'', py ''@ukrainegermany'',
     py ''@ua_de_work'', py ''@germania_job'', py ''@eu_rabota'', py ''@work_europe_ru'',
     py ''@europe_jobs_ru'', py ''@germania_vakansii'']"

record 'r ext_run =
  xr_accessible_channels :: "(pystr \<times> pystr \<times> nat) list"
  xr_inaccessible_channels :: "(pystr \<times> pystr) list"
  xr_by_channel :: "(pystr \<times> nat) list"
  xr_rest :: 'r
  xr_trace :: "event list"
  xr_calls :: nat

definition extended_channel ::
  "(nat \<Rightarrow> pystr \<Rightarrow> entity \<Rightarrow> 'r \<Rightarrow> 'r \<times> nat \<times> nat \<times> exn option)
     \<Rightarrow> telegram \<Rightarrow> 'r ext_run \<Rightarrow> pystr \<Rightarrow> 'r ext_run" where
  "extended_channel collect T results channel_username =
     (let results1 = results\<lparr>xr_trace := xr_trace results @ [Resolve channel_username],
                              xr_calls := xr_calls results + 1\<rparr>;
          handler = (\<lambda>e res.
            res\<lparr>xr_inaccessible_channels :=
                   xr_inaccessible_channels res @ [(channel_username, exn_str e)],
                 xr_by_channel := AList.update channel_username 0 (xr_by_channel res)\<rparr>)
      in case get_entity T (xr_calls results) channel_username of
           Inl e \<Rightarrow> handler e results1
         | Inr chan \<Rightarrow>
             (case collect (xr_calls results1) channel_username chan (xr_rest results1) of
                (rest, sent, count, raised) \<Rightarrow>
                  let results2 = results1\<lparr>xr_rest := rest, xr_calls := xr_calls results1 + sent\<rparr>
                  in case raised of
                       Some e \<Rightarrow> handler e results2
                     | None \<Rightarrow>
                         results2\<lparr>xr_by_channel :=
                                    AList.update channel_username count (xr_by_channel results2),
                                  xr_accessible_channels :=
                                    xr_accessible_channels results2
                                      @ [(channel_username,
                                          or_default channel_username (ent_title chan), count)]\<rparr>))"

definition extended_telegram_search ::
  "(nat \<Rightarrow> pystr \<Rightarrow> entity \<Rightarrow> 'r \<Rightarrow> 'r \<times> nat \<times> nat \<times> exn option)
     \<Rightarrow> telegram \<Rightarrow> pystr list \<Rightarrow> 'r ext_run \<Rightarrow> 'r ext_run" where
  "extended_telegram_search collect T chans results =
     foldl (extended_channel collect T) results chans"

text \<open>The resolutions among the events of a trace.\<close>

definition is_resolve :: "event \<Rightarrow> bool" where
  "is_resolve ev = (case ev of Resolve c \<Rightarrow> True | _ \<Rightarrow> False)"

definition resolutions :: "event list \<Rightarrow> event list" where
  "resolutions tr = filter is_resolve tr"

text \<open>The requests of a trace that are sent for a channel: its resolution, its searches
  and its history scans, in the order in which they are sent.\<close>

definition event_channel :: "event \<Rightarrow> pystr option" where
  "event_channel ev =
     (case ev of
        Resolve c \<Rightarrow> Some c
      | SearchReq c q \<Rightarrow> Some c
      | HistoryReq c off \<Rightarrow> Some c
      | Sleep n \<Rightarrow> None
      | Classify c i \<Rightarrow> None)"

definition requests_for :: "pystr \<Rightarrow> event list \<Rightarrow> event list" where
  "requests_for c tr = filter (\<lambda>ev. event_channel ev = Some c) tr"

text \<open>The record that \<open>search_channel\<close> stores for a channel it cannot resolve.\<close>

definition inaccessible_data :: "pystr \<Rightarrow> exn \<Rightarrow> channel_data" where
  "inaccessible_data channel_name e =
     \<lparr> channel = channel_name, status = py ''inaccessible'', total_messages = 0,
       messages = [], errors = [py ''Cannot access channel: '' @ exn_str e],
       channel_title = None, channel_id = None, participants_count = None \<rparr>"

section \<open>JSON values and \<open>json.dumps\<close>\<close>

text \<open>
  \<open>ingest_elastic.py\<close>.  A value loaded by \<open>json.load\<close>: \<open>None\<close>, a \<open>bool\<close>, an \<open>int\<close>,
  a \<open>float\<close>, a \<open>str\<close>, a \<open>list\<close> or a \<open>dict\<close> with string keys, in insertion order.
  A float is represented by the text that \<open>json.dumps\<close> writes for it.
\<close>

datatype json =
    JNull
  | JBool bool
  | JInt int
  | JFloat pystr
  | JStr pystr
  | JArr "json list"
  | JObj "(pystr \<times> json) list"

type_synonym pydict = "(pystr \<times> json) list"

text \<open>\<open>key in d\<close> and \<open>d.get(key, default)\<close> on a dictionary.\<close>

definition dict_has :: "pydict \<Rightarrow> pystr \<Rightarrow> bool" where
  "dict_has d key = (map_of d key \<noteq> None)"

definition dict_get :: "pydict \<Rightarrow> pystr \<Rightarrow> json \<Rightarrow> json" where
  "dict_get d key dflt = (case map_of d key of None \<Rightarrow> dflt | Some v \<Rightarrow> v)"

text \<open>The same operations on a value of any type, as Python evaluates them:
  \<open>v.get(key, default)\<close> needs a dictionary; \<open>key in v\<close> tests the keys of a dictionary,
  the items of a list and the substrings of a string; \<open>v[key]\<close> with a string key needs
  a dictionary that has the key; iteration goes over the items of a list, the keys of
  a dictionary and the characters of a string; \<open>len\<close> counts them.\<close>

fun py_get :: "json \<Rightarrow> pystr \<Rightarrow> json \<Rightarrow> py_error + json" where
  "py_get (JObj d) key dflt = Inr (dict_get d key dflt)"
| "py_get v key dflt = Inl AttributeError"

fun py_in :: "pystr \<Rightarrow> json \<Rightarrow> py_error + bool" where
  "py_in key (JObj d) = Inr (dict_has d key)"
| "py_in key (JArr xs) = Inr (JStr key \<in> set xs)"
| "py_in key (JStr s) = Inr (str_contains key s)"
| "py_in key v = Inl TypeError"

fun py_getitem :: "json \<Rightarrow> pystr \<Rightarrow> py_error + json" where
  "py_getitem (JObj d) key = (case map_of d key of None \<Rightarrow> Inl KeyError | Some v \<Rightarrow> Inr v)"
| "py_getitem v key = Inl TypeError"

fun py_iter :: "json \<Rightarrow> py_error + json list" where
  "py_iter (JArr xs) = Inr xs"
| "py_iter (JObj d) = Inr (map (\<lambda>kv. JStr (fst kv)) d)"
| "py_iter (JStr s) = Inr (map (\<lambda>c. JStr [c]) s)"
| "py_iter v = Inl TypeError"

fun py_len :: "json \<Rightarrow> py_error + nat" where
  "py_len (JArr xs) = Inr (length xs)"
| "py_len (JObj d) = Inr (length d)"
| "py_len (JStr s) = Inr (length s)"
| "py_len v = Inl TypeError"

fun py_truthy :: "json \<Rightarrow> bool" where
  "py_truthy JNull = False"
| "py_truthy (JBool b) = b"
| "py_truthy (JInt i) = (i \<noteq> 0)"
| "py_truthy (JFloat r) = (r \<noteq> py ''0.0'' \<and> r \<noteq> py ''-0.0'')"
| "py_truthy (JStr s) = (s \<noteq> [])"
| "py_truthy (JArr xs) = (xs \<noteq> [])"
| "py_truthy (JObj d) = (d \<noteq> [])"

text \<open>\<open>isinstance(v, dict)\<close>.\<close>

definition is_dict :: "json \<Rightarrow> bool" where
  "is_dict v = (case v of JObj d \<Rightarrow> True | _ \<Rightarrow> False)"

text \<open>A loop that builds a list and stops at the first exception.\<close>

fun map_raising :: "('a \<Rightarrow> 'e + 'b) \<Rightarrow> 'a list \<Rightarrow> 'e + 'b list" where
  "map_raising f [] = Inr []"
| "map_raising f (x # xs) =
     bind (f x) (\<lambda>y. bind (map_raising f xs) (\<lambda>ys. Inr (y # ys)))"

text \<open>
  \<open>json.dumps(value, sort_keys=True)\<close> with the defaults \<open>ensure_ascii=True\<close> and the
  separators \<open>", "\<close> and \<open>": "\<close>.  A string is quoted; the quote, the backslash and the
  control characters are escaped, and every code point outside \<open>' '\<close> .. \<open>'~'\<close> is written
  as \<open>\uXXXX\<close>, by a surrogate pair above U+FFFF.
\<close>

definition hex_digit :: "nat \<Rightarrow> nat" where
  "hex_digit d = (if d < 10 then 48 + d else 87 + d)"

definition hex4 :: "nat \<Rightarrow> pystr" where
  "hex4 n = [hex_digit (n div 4096 mod 16), hex_digit (n div 256 mod 16),
             hex_digit (n div 16 mod 16), hex_digit (n mod 16)]"

definition escape_char :: "nat \<Rightarrow> pystr" where
  "escape_char c =
     (if c = 34 then [92, 34]
      else if c = 92 then [92, 92]
      else if c = 10 then [92, 110]
      else if c = 13 then [92, 114]
      else if c = 9 then [92, 116]
      else if c = 8 then [92, 98]
      else if c = 12 then [92, 102]
      else if 32 \<le> c \<and> c \<le> 126 then [c]
      else if c < 65536 then [92, 117] @ hex4 c
      else [92, 117] @ hex4 (55296 + (c - 65536) div 1024 mod 1024)
           @ [92, 117] @ hex4 (56320 + (c - 65536) mod 1024))"

definition encode_string :: "pystr \<Rightarrow> pystr" where
  "encode_string s = [34] @ concat (map escape_char s) @ [34]"

fun join :: "pystr \<Rightarrow> pystr list \<Rightarrow> pystr" where
  "join sep [] = []"
| "join sep [x] = x"
| "join sep (x # y # ys) = x @ sep @ join sep (y # ys)"

fun dumps :: "json \<Rightarrow> pystr" where
  "dumps JNull = py ''null''"
| "dumps (JBool b) = (if b then py ''true'' else py ''false'')"
| "dumps (JInt i) = str_int i"
| "dumps (JFloat r) = r"
| "dumps (JStr s) = encode_string s"
| "dumps (JArr xs) = py ''['' @ join (py '', '') (map dumps xs) @ py '']''"
| "dumps (JObj d) =
     py ''{''
     @ join (py '', '')
         (map (\<lambda>kv. encode_string (fst kv) @ py '': '' @ snd kv)
            (sort_key fst (map (\<lambda>kv. (fst kv, dumps (snd kv))) d)))
     @ py ''}''"

definition generate_doc_id :: "pylib \<Rightarrow> pystr \<Rightarrow> pystr" where
  "generate_doc_id L content_str = sha256_hexdigest L content_str"

text \<open>\<open>generate_doc_id(json.dumps(record, sort_keys=True))\<close>, the value that every
  normalizer stores under \<open>_id\<close>.\<close>

definition content_hash :: "pylib \<Rightarrow> json \<Rightarrow> json" where
  "content_hash L raw_record = JStr (generate_doc_id L (dumps raw_record))"

section \<open>The normalizers\<close>

text \<open>
  A document is a dictionary.  Two functions of the runtime are parameters: \<open>py_str\<close>,
  the built-in \<open>str()\<close> that an f-string applies to a value, and \<open>dumps_indent\<close>,
  \<open>json.dumps(value, indent=2)\<close>.  \<open>now k\<close> is \<open>datetime.now().isoformat()\<close> at the
  \<open>k\<close>-th document that a call of a normalizer builds.
\<close>

record pyfmt =
  py_str :: "json \<Rightarrow> pystr"
  dumps_indent :: "json \<Rightarrow> pystr"

definition organic_result_doc ::
  "pylib \<Rightarrow> (nat \<Rightarrow> pystr) \<Rightarrow> pystr \<Rightarrow> pystr \<Rightarrow> json \<Rightarrow> json \<Rightarrow> nat \<times> json
     \<Rightarrow> py_error + pydict" where
  "organic_result_doc L now filename report_id search_query search_location ir =
     (case ir of (idx, result) \<Rightarrow>
      bind (py_get result (py ''title'') (JStr [])) (\<lambda>title.
      bind (py_get result (py ''snippet'') (JStr [])) (\<lambda>snippet.
      bind (py_get result (py ''link'') (JStr [])) (\<lambda>link.
      bind (py_get result (py ''redirect_link'') (JStr [])) (\<lambda>redirect_link.
      bind (py_get result (py ''displayed_link'') (JStr [])) (\<lambda>displayed_link.
      bind (py_get result (py ''source'') (JStr [])) (\<lambda>source.
      bind (py_get result (py ''position'') (JInt (int idx + 1))) (\<lambda>position.
      bind (py_get result (py ''date'') (JStr [])) (\<lambda>date.
      bind (py_get result (py ''favicon'') (JStr [])) (\<lambda>favicon.
      bind (py_get result (py ''thumbnail'') (JStr [])) (\<lambda>thumbnail.
      bind (py_get result (py ''video_link'') (JStr [])) (\<lambda>video_link.
      bind (py_get result (py ''duration'') (JStr [])) (\<lambda>duration.
      Inr [(py ''timestamp'', JStr (now idx)),
           (py ''source_file'', JStr filename),
           (py ''source_type'', JStr (py ''serp_api'')),
           (py ''data_type'', JStr (py ''organic_result'')),
           (py ''title'', title),
           (py ''body'', snippet),
           (py ''url'', link),
           (py ''redirect_url'', redirect_link),
           (py ''displayed_link'', displayed_link),
           (py ''source'', source),
           (py ''position'', position),
           (py ''date'', date),
           (py ''search_query'', search_query),
           (py ''search_location'', search_location),
           (py ''favicon'', favicon),
           (py ''thumbnail'', thumbnail),
           (py ''video_link'', video_link),
           (py ''duration'', duration),
           (py ''raw_source'', result),
           (py ''report_id'', JStr report_id),
           (py ''_id'', content_hash L result)])))))))))))))"

definition related_question_doc ::
  "pylib \<Rightarrow> (nat \<Rightarrow> pystr) \<Rightarrow> pystr \<Rightarrow> pystr \<Rightarrow> json \<Rightarrow> json \<Rightarrow> nat \<times> json
     \<Rightarrow> py_error + pydict" where
  "related_question_doc L now filename report_id search_query search_location iq =
     (case iq of (idx, question) \<Rightarrow>
      bind (py_get question (py ''question'') (JStr [])) (\<lambda>title.
      bind (py_get question (py ''snippet'') (JStr [])) (\<lambda>snippet.
      bind (py_get question (py ''link'') (JStr [])) (\<lambda>link.
      bind (py_get question (py ''source'') (JStr [])) (\<lambda>source.
      bind (py_get question (py ''type'') (JStr [])) (\<lambda>question_type.
      Inr [(py ''timestamp'', JStr (now idx)),
           (py ''source_file'', JStr filename),
           (py ''source_type'', JStr (py ''serp_api'')),
           (py ''data_type'', JStr (py ''related_question'')),
           (py ''title'', title),
           (py ''body'', snippet),
           (py ''url'', link),
           (py ''source'', source),
           (py ''question_type'', question_type),
           (py ''search_query'', search_query),
           (py ''search_location'', search_location),
           (py ''raw_source'', question),
           (py ''report_id'', JStr report_id),
           (py ''_id'', content_hash L question)]))))))"

definition related_search_doc ::
  "pylib \<Rightarrow> (nat \<Rightarrow> pystr) \<Rightarrow> pystr \<Rightarrow> pystr \<Rightarrow> json \<Rightarrow> json \<Rightarrow> nat \<times> json
     \<Rightarrow> py_error + pydict" where
  "related_search_doc L now filename report_id search_query search_location isr =
     (case isr of (idx, search) \<Rightarrow>
      bind (py_get search (py ''query'') (JStr [])) (\<lambda>title.
      bind (py_get search (py ''link'') (JStr [])) (\<lambda>link.
      Inr [(py ''timestamp'', JStr (now idx)),
           (py ''source_file'', JStr filename),
           (py ''source_type'', JStr (py ''serp_api'')),
           (py ''data_type'', JStr (py ''related_search'')),
           (py ''title'', title),
           (py ''url'', link),
           (py ''search_query'', search_query),
           (py ''search_location'', search_location),
           (py ''raw_source'', search),
           (py ''report_id'', JStr report_id),
           (py ''_id'', content_hash L search)])))"

text \<open>\<open>enumerate\<close>, counting from \<open>k\<close>.\<close>

definition enumerate_from :: "nat \<Rightarrow> 'a list \<Rightarrow> (nat \<times> 'a) list" where
  "enumerate_from k xs = zip [k ..< k + length xs] xs"

text \<open>
  \<open>normalize_serp_api_data\<close>.  The three loops number their items from 0; the time of
  the \<open>k\<close>-th document of the call is \<open>now k\<close>, so the clock of the second and third loop
  is shifted by the number of documents built before.
\<close>

definition normalize_serp_api_data ::
  "pylib \<Rightarrow> (nat \<Rightarrow> pystr) \<Rightarrow> pydict \<Rightarrow> pystr \<Rightarrow> pystr \<Rightarrow> py_error + pydict list" where
  "normalize_serp_api_data L now raw_doc filename report_id =
     bind (py_get (dict_get raw_doc (py ''search_parameters'') (JObj [])) (py ''q'') (JStr []))
       (\<lambda>search_query.
     bind (py_get (dict_get raw_doc (py ''search_parameters'') (JObj [])) (py ''location_used'')
             (JStr []))
       (\<lambda>search_location.
     bind (py_iter (dict_get raw_doc (py ''organic_results'') (JArr []))) (\<lambda>organic_results.
     bind (map_raising
             (organic_result_doc L now filename report_id search_query search_location)
             (enumerate_from 0 organic_results)) (\<lambda>docs1.
     bind (py_iter (dict_get raw_doc (py ''related_questions'') (JArr []))) (\<lambda>related_questions.
     bind (map_raising
             (related_question_doc L (\<lambda>k. now (length docs1 + k)) filename report_id
                search_query search_location)
             (enumerate_from 0 related_questions)) (\<lambda>docs2.
     bind (py_iter (dict_get raw_doc (py ''related_searches'') (JArr []))) (\<lambda>related_searches.
     bind (map_raising
             (related_search_doc L (\<lambda>k. now (length docs1 + length docs2 + k)) filename
                report_id search_query search_location)
             (enumerate_from 0 related_searches)) (\<lambda>docs3.
     Inr (docs1 @ docs2 @ docs3)))))))))"

definition telegram_message_doc ::
  "pylib \<Rightarrow> pyfmt \<Rightarrow> (nat \<Rightarrow> pystr) \<Rightarrow> pystr \<Rightarrow> pystr \<Rightarrow> json \<Rightarrow> json \<Rightarrow> nat \<times> json
     \<Rightarrow> py_error + pydict" where
  "telegram_message_doc L F now filename report_id search_queries channels_searched im =
     (case im of (idx, message) \<Rightarrow>
      bind (py_get message (py ''sender_id'') (JStr (py ''unknown''))) (\<lambda>sender_for_title.
      bind (py_get message (py ''message'') (JStr [])) (\<lambda>body.
      bind (py_get message (py ''channel'') (JStr (py ''unknown''))) (\<lambda>channel_for_url.
      bind (py_get message (py ''id'') (JStr (py ''unknown''))) (\<lambda>id_for_url.
      bind (py_get message (py ''channel'') (JStr [])) (\<lambda>chan.
      bind (py_get message (py ''sender_id'') (JStr [])) (\<lambda>sender_id.
      bind (py_get message (py ''date'') (JStr [])) (\<lambda>date.
      Inr [(py ''timestamp'', JStr (now idx)),
           (py ''source_file'', JStr filename),
           (py ''source_type'', JStr (py ''telegram'')),
           (py ''data_type'', JStr (py ''message'')),
           (py ''title'', JStr (py ''Telegram message from '' @ py_str F sender_for_title)),
           (py ''body'', body),
           (py ''url'', JStr (py ''telegram://channel/'' @ py_str F channel_for_url @ py ''/''
                              @ py_str F id_for_url)),
           (py ''channel'', chan),
           (py ''sender_id'', sender_id),
           (py ''date'', date),
           (py ''search_queries'', search_queries),
           (py ''channels_searched'', channels_searched),
           (py ''raw_source'', message),
           (py ''report_id'', JStr report_id),
           (py ''_id'', content_hash L message)]))))))))"

text \<open>The summary document of a payload without messages (lines 179--194).\<close>

definition telegram_summary_doc ::
  "pylib \<Rightarrow> pystr \<Rightarrow> pydict \<Rightarrow> pystr \<Rightarrow> pystr \<Rightarrow> nat \<Rightarrow> nat \<Rightarrow> pydict" where
  "telegram_summary_doc L timestamp raw_doc filename report_id n_channels n_queries =
     [(py ''timestamp'', JStr timestamp),
      (py ''source_file'', JStr filename),
      (py ''source_type'', JStr (py ''telegram'')),
      (py ''data_type'', JStr (py ''search_summary'')),
      (py ''title'', JStr (py ''Telegram OSINT Search Summary'')),
      (py ''body'', JStr (py ''Searched '' @ str_nat n_channels @ py '' channels with ''
                          @ str_nat n_queries @ py '' queries. No messages found.'')),
      (py ''search_queries'', dict_get raw_doc (py ''search_queries'') (JArr [])),
      (py ''channels_searched'', dict_get raw_doc (py ''channels_searched'') (JArr [])),
      (py ''messages_found'', JInt 0),
      (py ''raw_source'', JObj raw_doc),
      (py ''report_id'', JStr report_id),
      (py ''_id'', content_hash L (JObj raw_doc))]"

definition normalize_telegram_osint_data ::
  "pylib \<Rightarrow> pyfmt \<Rightarrow> (nat \<Rightarrow> pystr) \<Rightarrow> pydict \<Rightarrow> pystr \<Rightarrow> pystr \<Rightarrow> py_error + pydict list" where
  "normalize_telegram_osint_data L F now raw_doc filename report_id =
     (let search_queries = dict_get raw_doc (py ''search_queries'') (JArr []);
          channels_searched = dict_get raw_doc (py ''channels_searched'') (JArr []);
          messages = dict_get raw_doc (py ''messages'') (JArr [])
      in bind (py_iter messages) (\<lambda>items.
         bind (map_raising
                 (telegram_message_doc L F now filename report_id search_queries
                    channels_searched)
                 (enumerate_from 0 items)) (\<lambda>docs.
         if \<not> py_truthy messages then
           bind (py_len channels_searched) (\<lambda>n_channels.
           bind (py_len search_queries) (\<lambda>n_queries.
           Inr (docs @ [telegram_summary_doc L (now (length docs)) raw_doc filename report_id
                          n_channels n_queries])))
         else Inr docs)))"

definition normalize_comprehensive_report ::
  "pylib \<Rightarrow> pyfmt \<Rightarrow> (nat \<Rightarrow> pystr) \<Rightarrow> pydict \<Rightarrow> pystr \<Rightarrow> pystr \<Rightarrow> py_error + pydict list" where
  "normalize_comprehensive_report L F now raw_doc filename report_id =
     Inr [[(py ''timestamp'', JStr (now 0)),
           (py ''source_file'', JStr filename),
           (py ''source_type'', JStr (py ''osint_report'')),
           (py ''data_type'', JStr (py ''comprehensive_report'')),
           (py ''title'', JStr (py ''OSINT Report: ''
              @ py_str F (dict_get raw_doc (py ''case_name'') (JStr (py ''Unknown''))))),
           (py ''body'', JStr (dumps_indent F
              (dict_get raw_doc (py ''critical_assessments'') (JObj [])))),
           (py ''investigation_id'', dict_get raw_doc (py ''investigation_id'') (JStr [])),
           (py ''case_name'', dict_get raw_doc (py ''case_name'') (JStr [])),
           (py ''investigation_phases'', dict_get raw_doc (py ''investigation_phases'') (JObj [])),
           (py ''critical_assessments'', dict_get raw_doc (py ''critical_assessments'') (JObj [])),
           (py ''bka_recommendations'', dict_get raw_doc (py ''bka_recommendations'') (JArr [])),
           (py ''hypothesis_support'', dict_get raw_doc (py ''hypothesis_support'') (JStr [])),
           (py ''data_sources'', dict_get raw_doc (py ''data_sources'') (JArr [])),
           (py ''artifacts_created'', dict_get raw_doc (py ''artifacts_created'') (JArr [])),
           (py ''raw_source'', JObj raw_doc),
           (py ''report_id'', JStr report_id),
           (py ''_id'', content_hash L (JObj raw_doc))]]"

text \<open>The body of the loop \<open>for item in items\<close> of \<open>normalize_document\<close> (lines 262--288).\<close>

definition generic_item_doc ::
  "pylib \<Rightarrow> (nat \<Rightarrow> pystr) \<Rightarrow> pystr \<Rightarrow> pystr \<Rightarrow> nat \<times> json \<Rightarrow> py_error + pydict" where
  "generic_item_doc L now filename report_id ii =
     (case ii of (idx, item) \<Rightarrow>
      bind (py_in (py ''source'') item) (\<lambda>has_source.
      bind (if has_source then py_in (py ''uri'') item else Inr False) (\<lambda>is_news.
      bind (if is_news then Inr False else py_in (py ''url'') item) (\<lambda>is_web.
      bind (py_get item (py ''title'') (JStr [])) (\<lambda>title.
      bind (py_get item (py ''content'') (JStr [])) (\<lambda>content.
      bind (py_get item (py ''body'') content) (\<lambda>body.
      bind (py_get item (py ''link'') (JStr [])) (\<lambda>link.
      bind (py_get item (py ''url'') link) (\<lambda>url.
      Inr [(py ''timestamp'', JStr (now idx)),
           (py ''source_file'', JStr filename),
           (py ''source_type'',
              JStr (if is_news then py ''news'' else if is_web then py ''web''
                    else py ''unknown'')),
           (py ''data_type'',
              JStr (if is_news then py ''article'' else if is_web then py ''page''
                    else py ''unknown'')),
           (py ''title'', title),
           (py ''body'', body),
           (py ''url'', url),
           (py ''raw_source'', item),
           (py ''report_id'', JStr report_id),
           (py ''_id'', content_hash L item)])))))))))"

text \<open>
  \<open>normalize_document\<close>.  For a dictionary that none of the three formats matches, the
  items are those of a wrapped \<open>"articles"\<close> object, or the dictionary itself (lines
  254--257); \<open>normalize_items\<close> is the loop of lines 262--290.  \<open>valid_timestamp\<close> is not
  used by the source either.
\<close>

definition wrapped_items :: "pydict \<Rightarrow> py_error + json" where
  "wrapped_items d =
     (if dict_has d (py ''articles'')
      then bind (py_getitem (JObj d) (py ''articles'')) (\<lambda>articles.
           bind (py_in (py ''results'') articles) (\<lambda>wrapped.
           if wrapped then py_getitem articles (py ''results'')
           else Inr (JArr [JObj d])))
      else Inr (JArr [JObj d]))"

definition normalize_items ::
  "pylib \<Rightarrow> (nat \<Rightarrow> pystr) \<Rightarrow> pystr \<Rightarrow> pystr \<Rightarrow> json \<Rightarrow> py_error + pydict list" where
  "normalize_items L now filename report_id items =
     bind (py_iter items) (\<lambda>item_list.
     map_raising (generic_item_doc L now filename report_id) (enumerate_from 0 item_list))"

definition normalize_document ::
  "pylib \<Rightarrow> pyfmt \<Rightarrow> (nat \<Rightarrow> pystr) \<Rightarrow> json \<Rightarrow> pystr \<Rightarrow> pystr \<Rightarrow> pystr
     \<Rightarrow> py_error + pydict list" where
  "normalize_document L F now raw_doc filename valid_timestamp report_id =
     (case raw_doc of
        JObj d \<Rightarrow>
          if dict_has d (py ''search_parameters'') \<and> dict_has d (py ''organic_results'') then
            normalize_serp_api_data L now d filename report_id
          else if dict_has d (py ''search_queries'') \<or> dict_has d (py ''channels_searched'') then
            normalize_telegram_osint_data L F now d filename report_id
          else if dict_has d (py ''investigation_phases'')
                  \<and> dict_has d (py ''critical_assessments'') then
            normalize_comprehensive_report L F now d filename report_id
          else
            bind (wrapped_items d) (normalize_items L now filename report_id)
      | JArr xs \<Rightarrow> normalize_items L now filename report_id raw_doc
      | _ \<Rightarrow> Inr [])"

section \<open>Fields of a document and shapes of a payload\<close>

text \<open>The fields \<open>doc["_id"]\<close>, \<open>doc["source_file"]\<close> and \<open>doc["raw_source"]\<close> of a document.\<close>

definition document_id :: "pydict \<Rightarrow> json option" where
  "document_id doc = map_of doc (py ''_id'')"

definition source_file :: "pydict \<Rightarrow> json option" where
  "source_file doc = map_of doc (py ''source_file'')"

definition raw_source :: "pydict \<Rightarrow> json option" where
  "raw_source doc = map_of doc (py ''raw_source'')"


text \<open>
  The payloads on which \<open>normalize_document\<close> returns.  A value is an iterable of
  dictionaries if a \<open>for\<close> loop over it yields dictionaries only: a list of objects, or
  an empty object or string.
\<close>

definition iterable_of_dicts :: "json \<Rightarrow> bool" where
  "iterable_of_dicts v = (case py_iter v of Inl e \<Rightarrow> False | Inr items \<Rightarrow> list_all is_dict items)"

definition has_len :: "json \<Rightarrow> bool" where
  "has_len v = (case py_len v of Inl e \<Rightarrow> False | Inr n \<Rightarrow> True)"

definition normalizes :: "json \<Rightarrow> bool" where
  "normalizes raw_doc =
     (case raw_doc of
        JObj d \<Rightarrow>
          if dict_has d (py ''search_parameters'') \<and> dict_has d (py ''organic_results'') then
            is_dict (dict_get d (py ''search_parameters'') (JObj []))
            \<and> iterable_of_dicts (dict_get d (py ''organic_results'') (JArr []))
            \<and> iterable_of_dicts (dict_get d (py ''related_questions'') (JArr []))
            \<and> iterable_of_dicts (dict_get d (py ''related_searches'') (JArr []))
          else if dict_has d (py ''search_queries'') \<or> dict_has d (py ''channels_searched'') then
            iterable_of_dicts (dict_get d (py ''messages'') (JArr []))
            \<and> (py_truthy (dict_get d (py ''messages'') (JArr []))
               \<or> has_len (dict_get d (py ''channels_searched'') (JArr []))
                 \<and> has_len (dict_get d (py ''search_queries'') (JArr [])))
          else if dict_has d (py ''investigation_phases'')
                  \<and> dict_has d (py ''critical_assessments'') then True
          else
            (case map_of d (py ''articles'') of
               None \<Rightarrow> True
             | Some articles \<Rightarrow>
                 (case articles of
                    JObj a \<Rightarrow>
                      (case map_of a (py ''results'') of
                         None \<Rightarrow> True
                       | Some items \<Rightarrow> iterable_of_dicts items)
                  | JArr xs \<Rightarrow> JStr (py ''results'') \<notin> set xs
                  | JStr s \<Rightarrow> \<not> str_contains (py ''results'') s
                  | _ \<Rightarrow> False))
      | JArr xs \<Rightarrow> list_all is_dict xs
      | _ \<Rightarrow> True)"

section \<open>Ingestion into Elasticsearch\<close>

text \<open>
  \<open>ingest_elastic.py\<close>, lines 292--473.  The Elasticsearch client is a record of the three
  calls the script makes; each returns or raises.  \<open>indices_exists\<close> and \<open>indices_create\<close>
  take the name of the index (the mapping sent with \<open>create\<close> is a constant of the
  script), \<open>helpers_bulk\<close> the list of actions; it returns the number of successes and
  the list of errors.  \<open>es_ping\<close> is \<open>es.ping()\<close>.
\<close>

record action =
  a_index :: pystr
  a_id :: json
  a_op_type :: pystr
  a_source :: pydict

record elastic =
  es_ping :: "exn + bool"
  indices_exists :: "pystr \<Rightarrow> exn + bool"
  indices_create :: "pystr \<Rightarrow> exn + unit"
  helpers_bulk :: "action list \<Rightarrow> exn + nat \<times> json list"

text \<open>The requests sent to Elasticsearch, and the records written to the log.  What an
  \<open>except Exception as e\<close> catches is an exception of the interpreter or one of a
  library.  The messages that \<open>normalize_document\<close> logs are left out.\<close>

datatype request = IndicesExists pystr | IndicesCreate pystr | Bulk "action list"

datatype failure = Raised py_error | Failed exn

datatype log_record =
    LogScanning pystr
  | LogProcessing pystr
  | LogFailedToProcess pystr failure
  | LogIndexExists pystr
  | LogCreatedIndex pystr
  | LogFailedToCreateIndex pystr exn
  | LogIngesting nat nat
  | LogCompletedWithErrors nat nat
  | LogFailedDoc nat json json json
  | LogMoreErrors nat
  | LogIngestionComplete nat
  | LogBulkFailed failure
  | LogNoDocuments
  | LogCouldNotConnect
  | LogNoReportsDirectory
  | LogFatalError failure

record ingest_state =
  es_requests :: "request list"
  es_logs :: "log_record list"

definition send :: "request \<Rightarrow> ingest_state \<Rightarrow> ingest_state" where
  "send r st = st\<lparr>es_requests := es_requests st @ [r]\<rparr>"

definition log :: "log_record list \<Rightarrow> ingest_state \<Rightarrow> ingest_state" where
  "log rs st = st\<lparr>es_logs := es_logs st @ rs\<rparr>"

text \<open>
  \<open>ensure_index_exists\<close>.  An exception of \<open>es.indices.exists\<close> is not caught (\<open>Inl\<close>);
  one of \<open>es.indices.create\<close> is caught and logged, and the function returns \<open>False\<close>.
\<close>

definition ensure_index_exists ::
  "elastic \<Rightarrow> pystr \<Rightarrow> ingest_state \<Rightarrow> (exn + bool) \<times> ingest_state" where
  "ensure_index_exists es index_name st =
     (case indices_exists es index_name of
        Inl e \<Rightarrow> (Inl e, send (IndicesExists index_name) st)
      | Inr found \<Rightarrow>
          if found then
            (Inr True, log [LogIndexExists index_name] (send (IndicesExists index_name) st))
          else
            (case indices_create es index_name of
               Inr u \<Rightarrow>
                 (Inr True,
                  log [LogCreatedIndex index_name]
                    (send (IndicesCreate index_name) (send (IndicesExists index_name) st)))
             | Inl e \<Rightarrow>
                 (Inr False,
                  log [LogFailedToCreateIndex index_name e]
                    (send (IndicesCreate index_name) (send (IndicesExists index_name) st)))))"

text \<open>The loop \<open>for index_name in indices_to_create: ensure_index_exists(es, index_name)\<close>
  (lines 418--419).  The value that \<open>ensure_index_exists\<close> returns is not used; an
  exception ends the loop and propagates.\<close>

fun ensure_indices :: "elastic \<Rightarrow> pystr list \<Rightarrow> ingest_state \<Rightarrow> exn option \<times> ingest_state" where
  "ensure_indices es [] st = (None, st)"
| "ensure_indices es (index_name # rest) st =
     (case ensure_index_exists es index_name st of
        (Inl e, st') \<Rightarrow> (Some e, st')
      | (Inr created, st') \<Rightarrow> ensure_indices es rest st')"

text \<open>The report of the first five errors of a bulk request (lines 429--435).\<close>

definition failed_doc_log :: "nat \<times> json \<Rightarrow> py_error + log_record list" where
  "failed_doc_log ie =
     (case ie of (i, error) \<Rightarrow>
      bind (py_in (py ''index'') error) (\<lambda>has_index.
      if has_index then
        bind (py_getitem error (py ''index'')) (\<lambda>item.
        bind (py_get item (py ''_id'') (JStr (py ''unknown''))) (\<lambda>failed_id.
        bind (py_get item (py ''error'') (JObj [])) (\<lambda>error_msg.
        bind (py_get error_msg (py ''type'') (JStr (py ''unknown''))) (\<lambda>error_type.
        bind (py_get error_msg (py ''reason'') (JStr (py ''unknown''))) (\<lambda>error_reason.
        Inr [LogFailedDoc (i + 1) failed_id error_type error_reason])))))
      else Inr []))"

fun report_errors :: "(nat \<times> json) list \<Rightarrow> log_record list \<times> py_error option" where
  "report_errors [] = ([], None)"
| "report_errors (ie # rest) =
     (case failed_doc_log ie of
        Inl err \<Rightarrow> ([], Some err)
      | Inr records \<Rightarrow>
          (case report_errors rest of (records', r) \<Rightarrow> (records @ records', r)))"

text \<open>Lines 421--443: the bulk request, if there is a document to index.\<close>

definition bulk_ingest :: "elastic \<Rightarrow> action list \<Rightarrow> nat \<Rightarrow> ingest_state \<Rightarrow> ingest_state" where
  "bulk_ingest es docs_to_index n_indices st =
     (if docs_to_index \<noteq> [] then
        (let st1 = send (Bulk docs_to_index)
                     (log [LogIngesting (length docs_to_index) n_indices] st)
         in case helpers_bulk es docs_to_index of
              Inl e \<Rightarrow> log [LogBulkFailed (Failed e)] st1
            | Inr (success, bulk_errors) \<Rightarrow>
                if bulk_errors \<noteq> [] then
                  (case report_errors (enumerate_from 0 (take 5 bulk_errors)) of
                     (records, Some err) \<Rightarrow>
                       log ([LogCompletedWithErrors success (length bulk_errors)] @ records
                            @ [LogBulkFailed (Raised err)]) st1
                   | (records, None) \<Rightarrow>
                       log ([LogCompletedWithErrors success (length bulk_errors)] @ records
                            @ (if 5 < length bulk_errors
                               then [LogMoreErrors (length bulk_errors - 5)]
                               else [])) st1)
                else log [LogIngestionComplete success] st1)
      else log [LogNoDocuments] st)"

text \<open>Lines 417--443 of \<open>ingest_directory\<close>: the indices are created, in the iteration
  order of the set \<open>indices_to_create\<close>, and then the documents are sent.  \<open>Some e\<close> is an
  exception that leaves \<open>ingest_directory\<close>.\<close>

definition create_and_ingest ::
  "pylib \<Rightarrow> elastic \<Rightarrow> pystr list \<Rightarrow> action list \<Rightarrow> ingest_state
     \<Rightarrow> exn option \<times> ingest_state" where
  "create_and_ingest L es indices_to_create docs_to_index st =
     (case ensure_indices es (set_order L indices_to_create) st of
        (Some e, st') \<Rightarrow> (Some e, st')
      | (None, st') \<Rightarrow>
          (None, bulk_ingest es docs_to_index (length (remdups indices_to_create)) st'))"

text \<open>
  The files.  \<open>fs_walk base_dir\<close> lists, in the order of \<open>os.walk\<close>, each directory with
  the names of its files; \<open>json_load\<close> opens a file and parses it, or raises;
  \<open>path_basename\<close>, \<open>path_dirname\<close> and \<open>path_join\<close> are those of \<open>os.path\<close>;
  \<open>now_stamp root\<close> is \<open>datetime.now().strftime("%Y%m%d_%H%M%S")\<close> when the directory \<open>root\<close>
  is visited, and \<open>fs_clock filepath k\<close> the time at which the \<open>k\<close>-th document of the file
  is built.
\<close>

record filesystem =
  fs_walk :: "pystr \<Rightarrow> (pystr \<times> pystr list) list"
  json_load :: "pystr \<Rightarrow> exn + json"
  path_basename :: "pystr \<Rightarrow> pystr"
  path_dirname :: "pystr \<Rightarrow> pystr"
  path_join :: "pystr \<Rightarrow> pystr \<Rightarrow> pystr"
  now_stamp :: "pystr \<Rightarrow> pystr"
  fs_clock :: "pystr \<Rightarrow> nat \<Rightarrow> pystr"

text \<open>\<open>s.split(sep)\<close> for a separator of one character.\<close>

fun split_on :: "nat \<Rightarrow> pystr \<Rightarrow> pystr list" where
  "split_on sep [] = [[]]"
| "split_on sep (c # cs) =
     (if c = sep then [] # split_on sep cs
      else (case split_on sep cs of
              [] \<Rightarrow> [[c]]
            | part # parts \<Rightarrow> (c # part) # parts))"

text \<open>Lines 386--389: the first two parts of the report id, or the current time if the
  id has no underscore (\<open>IndexError\<close>).\<close>

definition report_timestamp :: "filesystem \<Rightarrow> pystr \<Rightarrow> pystr \<Rightarrow> pystr" where
  "report_timestamp W root report_id =
     (case split_on 95 report_id of
        first # second # parts \<Rightarrow> first @ [95] @ second
      | _ \<Rightarrow> now_stamp W root)"

text \<open>Lines 405--412: one action for each document; \<open>doc.pop("_id")\<close> removes the field
  from the document and raises \<open>KeyError\<close> if there is none.  The actions built before
  an exception stay in \<open>docs_to_index\<close>.\<close>

fun make_actions :: "pystr \<Rightarrow> pydict list \<Rightarrow> action list \<times> py_error option" where
  "make_actions index_name [] = ([], None)"
| "make_actions index_name (doc # docs) =
     (case map_of doc (py ''_id'') of
        None \<Rightarrow> ([], Some KeyError)
      | Some i \<Rightarrow>
          (case make_actions index_name docs of
             (actions, r) \<Rightarrow>
               (\<lparr> a_index = index_name, a_id = i, a_op_type = py ''create'',
                   a_source = filter (\<lambda>kv. fst kv \<noteq> py ''_id'') doc \<rparr> # actions, r)))"

text \<open>Lines 396--415: one file.  Every exception of the \<open>try\<close> block is caught and
  logged, and the file is left.\<close>

definition process_file ::
  "pylib \<Rightarrow> pyfmt \<Rightarrow> filesystem \<Rightarrow> pystr \<Rightarrow> pystr \<Rightarrow> pystr \<Rightarrow> pystr
     \<Rightarrow> action list \<times> log_record list" where
  "process_file L F W filepath index_name report_ts report_id =
     (case json_load W filepath of
        Inl e \<Rightarrow> ([], [LogProcessing filepath, LogFailedToProcess filepath (Failed e)])
      | Inr raw_content \<Rightarrow>
          (case normalize_document L F (fs_clock W filepath) raw_content filepath report_ts
                  report_id of
             Inl err \<Rightarrow>
               ([], [LogProcessing filepath, LogFailedToProcess filepath (Raised err)])
           | Inr normalized \<Rightarrow>
               (case make_actions index_name normalized of
                  (actions, None) \<Rightarrow> (actions, [LogProcessing filepath])
                | (actions, Some err) \<Rightarrow>
                    (actions,
                     [LogProcessing filepath, LogFailedToProcess filepath (Raised err)]))))"

text \<open>Lines 378--415: one directory of the walk.  The result is the name of the index
  of the directory, if it is a directory of raw data, the actions and the log.\<close>

definition process_directory ::
  "pylib \<Rightarrow> pyfmt \<Rightarrow> filesystem \<Rightarrow> pystr \<Rightarrow> pystr \<times> pystr list
     \<Rightarrow> pystr list \<times> action list \<times> log_record list" where
  "process_directory L F W index_prefix entry =
     (case entry of (root, files) \<Rightarrow>
      if str_contains (py ''raw_data'') root \<or> str_contains (py ''osint_construction'') root then
        (let report_id = path_basename W (path_dirname W root);
             report_ts = report_timestamp W root report_id;
             index_name = lower L (index_prefix @ report_ts);
             results = map (\<lambda>file. process_file L F W (path_join W root file) index_name
                                     report_ts report_id)
                         (filter (\<lambda>file. suffix (py ''.json'') file) files)
         in ([index_name], concat (map fst results), concat (map snd results)))
      else ([], [], []))"

definition ingest_directory ::
  "pylib \<Rightarrow> pyfmt \<Rightarrow> filesystem \<Rightarrow> elastic \<Rightarrow> pystr \<Rightarrow> pystr \<Rightarrow> exn option \<times> ingest_state" where
  "ingest_directory L F W es base_dir index_prefix =
     (let visited = map (process_directory L F W index_prefix) (fs_walk W base_dir);
          indices_to_create = concat (map fst visited);
          docs_to_index = concat (map (\<lambda>v. fst (snd v)) visited);
          st = \<lparr> es_requests = [],
                 es_logs = [LogScanning base_dir] @ concat (map (\<lambda>v. snd (snd v)) visited) \<rparr>
      in create_and_ingest L es indices_to_create docs_to_index st)"

text \<open>
  \<open>main\<close>, from \<open>es.ping()\<close> on (lines 456--473): \<open>reports_dir\<close> is the reports directory
  that was found, if any.  An exception that leaves \<open>ingest_directory\<close> is logged as a
  fatal error.
\<close>

definition main :: "pylib \<Rightarrow> pyfmt \<Rightarrow> filesystem \<Rightarrow> elastic \<Rightarrow> pystr option \<Rightarrow> pystr
     \<Rightarrow> ingest_state" where
  "main L F W es reports_dir index_prefix =
     (case es_ping es of
        Inl e \<Rightarrow> \<lparr> es_requests = [], es_logs = [LogFatalError (Failed e)] \<rparr>
      | Inr alive \<Rightarrow>
          if \<not> alive then \<lparr> es_requests = [], es_logs = [LogCouldNotConnect] \<rparr>
          else
            (case reports_dir of
               None \<Rightarrow> \<lparr> es_requests = [], es_logs = [LogNoReportsDirectory] \<rparr>
             | Some dir \<Rightarrow>
                 (case ingest_directory L F W es dir index_prefix of
                    (Some e, st) \<Rightarrow> log [LogFatalError (Failed e)] st
                  | (None, st) \<Rightarrow> st)))"

text \<open>The bulk requests among the requests of a run.\<close>

definition is_bulk :: "request \<Rightarrow> bool" where
  "is_bulk r = (case r of Bulk actions \<Rightarrow> True | _ \<Rightarrow> False)"

definition bulk_requests :: "request list \<Rightarrow> request list" where
  "bulk_requests rs = filter is_bulk rs"

section \<open>Concrete inputs\<close>

text \<open>
  An instance of the library for evaluating the model on ASCII texts: the case mappings
  of the ASCII letters, the ASCII digits, a regular-expression engine that finds
  nothing, sets iterated in order of first insertion, and the identity for the hash.
  No statement below depends on the last three choices.
\<close>

definition ascii_lib :: pylib where
  "ascii_lib =
     \<lparr> tolower_full = (\<lambda>c. if 65 \<le> c \<and> c \<le> 90 then [c + 32] else [c]),
       final_sigma = (\<lambda>s i. False),
       toupper_full = (\<lambda>c. if 97 \<le> c \<and> c \<le> 122 then [c - 32] else [c]),
       unicode_decimal = (\<lambda>c. 48 \<le> c \<and> c \<le> 57),
       re_findall = (\<lambda>pattern txt. []),
       set_order = (\<lambda>xs. rev (remdups (rev xs))),
       sha256_hexdigest = (\<lambda>s. s) \<rparr>"

definition demo_entity :: entity where
  "demo_entity = \<lparr> ent_id = 1263846030, ent_title = None, ent_participants_count = None \<rparr>"

text \<open>A state of a channel's loop before its first query: nothing seen, nothing
  collected, the channel resolved by request 0.\<close>

definition demo_state :: chan_state where
  "demo_state =
     \<lparr> data = \<lparr> channel = py ''@Niemci'', status = py ''accessible'', total_messages = 0,
                messages = [], errors = [], channel_title = Some (py ''@Niemci''),
                channel_id = Some 1263846030, participants_count = None \<rparr>,
       seen_ids = {}, trace = [Resolve (py ''@Niemci'')], calls = 1 \<rparr>"

definition demo_phone_state :: phone_state where
  "demo_phone_state =
     \<lparr> pdata = \<lparr> pc_channel = py ''@Niemci'', pc_status = py ''accessible'',
                 pc_total_messages = 0, pc_messages = [],
                 pc_channel_title = Some (py ''@Niemci''), pc_channel_id = Some 1263846030 \<rparr>,
       pseen_ids = {}, ptrace = [Resolve (py ''@Niemci'')], pcalls = 1 \<rparr>"

text \<open>A server that resolves every channel and answers the request number 1 (the first
  search of the first channel) with a flood wait of 17 seconds, and every other
  request with an empty page.\<close>

definition flood_wait :: exn where
  "flood_wait = Exn (py ''FLOOD_WAIT_17'') (Some 17)"

definition flood_server :: telegram where
  "flood_server =
     \<lparr> get_entity = (\<lambda>n name. Inr demo_entity),
       search_request = (\<lambda>n peer q. if n = 1 then Inl flood_wait else Inr []),
       get_history_request = (\<lambda>n peer off. Inr []) \<rparr>"

text \<open>A message of November 2023, before both windows, and a server whose first
  history page holds 100 such messages and whose later pages are empty.\<close>

definition old_message :: message where
  "old_message =
     \<lparr> msg_id = 5, msg_text = Some (py ''Bauhelfer Berlin''), msg_date = 1700000000,
       msg_views = None, msg_forwards = None, msg_reply_to = None \<rparr>"

definition old_history_server :: telegram where
  "old_history_server =
     \<lparr> get_entity = (\<lambda>n name. Inr demo_entity),
       search_request = (\<lambda>n peer q. Inr []),
       get_history_request =
         (\<lambda>n peer off. if off = 0 then Inr (replicate 100 old_message) else Inr []) \<rparr>"

text \<open>A post without text, as a photo without caption is.\<close>

definition media_message :: message where
  "media_message =
     \<lparr> msg_id = 7, msg_text = None, msg_date = 1760000000,
       msg_views = None, msg_forwards = None, msg_reply_to = None \<rparr>"

text \<open>A server that does not know the channel \<open>@de4ru\<close> and knows every other one, an
  empty run, and a collection that finds nothing.\<close>

definition no_such_channel :: exn where
  "no_such_channel = Exn (py ''No user has de4ru as username'') None"

definition partial_server :: telegram where
  "partial_server =
     \<lparr> get_entity = (\<lambda>n name. if name = py ''@de4ru'' then Inl no_such_channel
                               else Inr demo_entity),
       search_request = (\<lambda>n peer q. Inr []),
       get_history_request = (\<lambda>n peer off. Inr []) \<rparr>"

definition empty_run :: run where
  "empty_run = \<lparr> channels = [], run_trace = [], run_calls = 0 \<rparr>"

definition empty_ext_run :: "unit ext_run" where
  "empty_ext_run =
     \<lparr> xr_accessible_channels = [], xr_inaccessible_channels = [], xr_by_channel = [],
       xr_rest = (), xr_trace = [], xr_calls = 0 \<rparr>"

definition collect_nothing :: "nat \<Rightarrow> pystr \<Rightarrow> entity \<Rightarrow> unit \<Rightarrow> unit \<times> nat \<times> nat \<times> exn option" where
  "collect_nothing n channel_username chan rest = ((), 24, 0, None)"

text \<open>A text with two of the known numbers, and what \<open>re.findall\<close> finds in it: the
  eleventh pattern matches the first number, the twelfth the second, and no other
  pattern matches.  Two processes with this regular-expression engine: in the first a
  set is iterated in the order of first insertion, in the second in the reverse order.\<close>

definition two_phones_text :: pystr where
  "two_phones_text = py ''7494401874 15777103445''"

definition findall_two_phones :: "pystr \<Rightarrow> pystr \<Rightarrow> pystr list" where
  "findall_two_phones pattern txt =
     (if txt = two_phones_text
           \<and> pattern = py ''7494'' @ [92] @ py ''s'' @ [42] @ py ''401'' @ [92] @ py ''s'' @ [42]
                         @ py ''874''
      then [py ''7494401874'']
      else if txt = two_phones_text
           \<and> pattern = py ''1577'' @ [92] @ py ''s'' @ [42] @ py ''710'' @ [92] @ py ''s'' @ [42]
                         @ py ''3445''
      then [py ''15777103445'']
      else [])"

definition first_process :: pylib where
  "first_process = ascii_lib\<lparr>re_findall := findall_two_phones\<rparr>"

definition second_process :: pylib where
  "second_process =
     ascii_lib\<lparr>re_findall := findall_two_phones, set_order := (\<lambda>xs. remdups (rev xs))\<rparr>"

text \<open>For the ingestion: a runtime whose \<open>str()\<close> and indented \<open>json.dumps\<close> write nothing,
  a SERP payload with one organic result, a file system whose every file holds the JSON
  text \<open>[1]\<close>, an Elasticsearch that has no index and fails to create one, one that
  cannot be reached, and an action.\<close>

definition plain_fmt :: pyfmt where
  "plain_fmt = \<lparr> py_str = (\<lambda>v. []), dumps_indent = (\<lambda>v. []) \<rparr>"



definition list_of_one_file :: filesystem where
  "list_of_one_file =
     \<lparr> fs_walk = (\<lambda>base_dir. []),
       json_load = (\<lambda>filepath. Inr (JArr [JInt 1])),
       path_basename = (\<lambda>path. path),
       path_dirname = (\<lambda>path. path),
       path_join = (\<lambda>a b. a @ py ''/'' @ b),
       now_stamp = (\<lambda>root. py ''20260204_110300''),
       fs_clock = (\<lambda>filepath k. []) \<rparr>"

definition mapping_rejected :: exn where
  "mapping_rejected = Exn (py ''mapper_parsing_exception'') None"

definition failing_create :: elastic where
  "failing_create =
     \<lparr> es_ping = Inr True,
       indices_exists = (\<lambda>index_name. Inr False),
       indices_create = (\<lambda>index_name. Inl mapping_rejected),
       helpers_bulk = (\<lambda>actions. Inr (length actions, [])) \<rparr>"

definition connection_lost :: exn where
  "connection_lost = Exn (py ''Connection timed out'') None"

definition unreachable :: elastic where
  "unreachable =
     \<lparr> es_ping = Inr True,
       indices_exists = (\<lambda>index_name. Inl connection_lost),
       indices_create = (\<lambda>index_name. Inl connection_lost),
       helpers_bulk = (\<lambda>actions. Inl connection_lost) \<rparr>"

definition example_action :: action where
  "example_action =
     \<lparr> a_index = py ''osint_20260204_110300'', a_id = JStr (py ''0a1b''),
       a_op_type = py ''create'', a_source = [(py ''title'', JStr (py ''Berlin''))] \<rparr>"

definition empty_state :: ingest_state where
  "empty_state = \<lparr> es_requests = [], es_logs = [] \<rparr>"

section \<open>Computations that may raise\<close>

lemma bind_Inr [simp]: "bind (Inr x) f = f x"
  by (simp add: bind_def)

lemma bind_Inl [simp]: "bind (Inl e) f = Inl e"
  by (simp add: bind_def)

lemma bind_eq_Inr: "(bind m f = Inr y) = (\<exists>x. m = Inr x \<and> f x = Inr y)"
  by (cases m) simp_all

lemma bind_eq_Inl: "(bind m f = Inl e) = (m = Inl e \<or> (\<exists>x. m = Inr x \<and> f x = Inl e))"
  by (cases m) simp_all

lemma bind_returns: "(\<exists>r. bind m k = Inr r) = (\<exists>x. m = Inr x \<and> (\<exists>r. k x = Inr r))"
  by (cases m) simp_all

lemma bind_error:
  assumes "bind m k = Inl e"
    and "\<And>e'. m = Inl e' \<Longrightarrow> e' \<in> S"
    and "\<And>x e'. k x = Inl e' \<Longrightarrow> e' \<in> S"
  shows "e \<in> S"
  using assms by (cases m) auto

section \<open>The history scan of the @Niemci/DE4RU collector\<close>

lemma is_history_req_simps [simp]:
  "is_history_req (HistoryReq c off)" "\<not> is_history_req (Resolve c)"
  "\<not> is_history_req (SearchReq c q)" "\<not> is_history_req (Sleep n)"
  "\<not> is_history_req (Classify c i)"
  by (simp_all add: is_history_req_def)

lemma history_requests_simps [simp]:
  "history_requests [] = []"
  "history_requests (ev # tr) =
     (if is_history_req ev then ev # history_requests tr else history_requests tr)"
  "history_requests (tr @ tr') = history_requests tr @ history_requests tr'"
  by (simp_all add: history_requests_def)

text \<open>A page never moves the cursor away from 0: the loop over a page only ever
  assigns 0 to it.\<close>

lemma history_messages_offset_zero:
  "fst (snd (history_messages L c ms (s, 0, bn))) = 0"
  by (induction ms arbitrary: s bn) (simp_all add: Let_def)

lemma history_messages_requests:
  "history_requests (trace (fst (history_messages L c ms (s, off, bn)))) =
     history_requests (trace s)"
  by (induction ms arbitrary: s bn) (simp_all add: Let_def emit_def append_message_def)

lemma query_message_requests:
  "history_requests (trace (query_message L c q s m)) = history_requests (trace s)"
  by (simp add: query_message_def Let_def emit_def append_message_def)

lemma foldl_query_message_requests:
  "history_requests (trace (foldl (query_message L c q) s ms)) = history_requests (trace s)"
  by (induction ms arbitrary: s) (simp_all add: query_message_requests)

lemma query_step_requests:
  "history_requests (trace (query_step T L c ent s q)) = history_requests (trace s)"
  by (simp add: query_step_def Let_def foldl_query_message_requests emit_def append_error_def
        split: sum.splits)

lemma foldl_query_step_requests:
  "history_requests (trace (foldl (query_step T L c ent) s qs)) = history_requests (trace s)"
  by (induction qs arbitrary: s) (simp_all add: query_step_requests)

lemma history_loop_from_zero:
  "history_requests (trace (history_loop T L c ent 0 0 s)) =
     history_requests (trace s) @ [HistoryReq c 0]"
  by (subst history_loop.simps)
     (simp add: Let_def history_messages_offset_zero history_messages_requests emit_def
        append_error_def split: sum.splits)

lemma search_channel_history_requests:
  "history_requests (run_trace (search_channel T L c qs r)) =
     history_requests (run_trace r) @
       (case get_entity T (run_calls r) c of Inl e \<Rightarrow> [] | Inr ent \<Rightarrow> [HistoryReq c 0])"
  by (simp add: search_channel_def Let_def history_loop_from_zero foldl_query_step_requests
        split: sum.splits)

text \<open>
  C10.  In the full-history scan of the @Niemci/DE4RU collector the loop, entered as
  \<open>search_channel\<close> enters it (cursor 0, batch 0), sends exactly one history request,
  with cursor 0, whatever the server answers: the test \<open>history_offset_id == 0\<close> is made
  before the cursor is advanced for the first time, so the loop ends after the first
  page and the cap of 20 batches is never reached.  Hence one call of
  \<open>search_channel\<close> adds at most one history request to the run.
\<close>

theorem history_scan_fetches_one_page:
  "history_requests (trace (history_loop T L c ent 0 0 s)) =
     history_requests (trace s) @ [HistoryReq c 0]
   \<and> length (history_requests (run_trace (search_channel T L c qs r)))
       \<le> length (history_requests (run_trace r)) + 1"
  by (simp add: history_loop_from_zero search_channel_history_requests split: sum.splits)

section \<open>Rate limits\<close>

lemma is_search_req_simps [simp]:
  "is_search_req (SearchReq c q)" "\<not> is_search_req (Resolve c)"
  "\<not> is_search_req (HistoryReq c off)" "\<not> is_search_req (Sleep n)"
  "\<not> is_search_req (Classify c i)"
  by (simp_all add: is_search_req_def)

lemma search_requests_simps [simp]:
  "search_requests [] = []"
  "search_requests (ev # tr) =
     (if is_search_req ev then ev # search_requests tr else search_requests tr)"
  "search_requests (tr @ tr') = search_requests tr @ search_requests tr'"
  by (simp_all add: search_requests_def)

lemma query_message_search_requests:
  "search_requests (trace (query_message L c q s m)) = search_requests (trace s)"
  by (simp add: query_message_def Let_def emit_def append_message_def)

lemma foldl_query_message_search_requests:
  "search_requests (trace (foldl (query_message L c q) s ms)) = search_requests (trace s)"
  by (induction ms arbitrary: s) (simp_all add: query_message_search_requests)

lemma query_step_search_requests:
  "search_requests (trace (query_step T L c ent s q)) =
     search_requests (trace s) @ [SearchReq c q]"
  by (simp add: query_step_def Let_def foldl_query_message_search_requests emit_def
        append_error_def split: sum.splits)

lemma foldl_query_step_search_requests:
  "search_requests (trace (foldl (query_step T L c ent) s qs)) =
     search_requests (trace s) @ map (SearchReq c) qs"
  by (induction qs arbitrary: s) (simp_all add: query_step_search_requests)

lemma phone_message_search_requests:
  "search_requests (ptrace (phone_message L c q s m)) = search_requests (ptrace s)"
  by (simp add: phone_message_def Let_def pemit_def split: option.splits)

lemma foldl_phone_message_search_requests:
  "search_requests (ptrace (foldl (phone_message L c q) s ms)) = search_requests (ptrace s)"
  by (induction ms arbitrary: s) (simp_all add: phone_message_search_requests)

lemma phone_query_step_search_requests:
  "search_requests (ptrace (phone_query_step T L c ent s q)) =
     search_requests (ptrace s) @ [SearchReq c q]"
  by (simp add: phone_query_step_def Let_def foldl_phone_message_search_requests pemit_def
        split: sum.splits)

lemma foldl_phone_query_step_search_requests:
  "search_requests (ptrace (foldl (phone_query_step T L c ent) s qs)) =
     search_requests (ptrace s) @ map (SearchReq c) qs"
  by (induction qs arbitrary: s) (simp_all add: phone_query_step_search_requests)

lemma py_FLOOD_in_upper_flood_wait:
  "str_contains (py ''FLOOD'') (upper ascii_lib (exn_str flood_wait))"
  by (simp add: str_contains_def py_def upper_def ascii_lib_def flood_wait_def sublist_code)

text \<open>
  C4, as the claim states it, fails.  The server answers the first query with a flood
  wait that asks for 17 seconds.  The collector sleeps 30 seconds, not 17, and goes on
  to the second query: the first query is requested once and never again.
\<close>

theorem flood_wait_not_retried_counterexample:
  "trace (foldl (query_step flood_server ascii_lib (py ''@Niemci'') demo_entity) demo_state
            [py ''Lichterfelde'', py ''Steglitz''])
   = [Resolve (py ''@Niemci''),
      SearchReq (py ''@Niemci'') (py ''Lichterfelde''), Sleep 30000,
      SearchReq (py ''@Niemci'') (py ''Steglitz''), Sleep 500]"
  using py_FLOOD_in_upper_flood_wait
  by (simp add: query_step_def Let_def flood_server_def demo_state_def emit_def
        append_error_def)

text \<open>
  C4, amended.  In both collectors a search request that fails with an exception whose
  text, in upper case, contains \<open>FLOOD\<close> is followed by a sleep of 30 seconds, whatever
  waiting time the server communicated, and by nothing else: the loop goes on with the
  next query.  Every query of the list is requested exactly once, in order, whatever
  the server answers; no request is sent again.
\<close>

theorem flood_wait_sleeps_30_and_continues:
  "(search_request T (calls s) (ent_id ent) q = Inl e
      \<and> str_contains (py ''FLOOD'') (upper L (exn_str e))
    \<longrightarrow> trace (query_step T L c ent s q) = trace s @ [SearchReq c q, Sleep 30000])
   \<and> search_requests (trace (foldl (query_step T L c ent) s qs)) =
       search_requests (trace s) @ map (SearchReq c) qs
   \<and> (search_request T (pcalls s') (ent_id ent) q = Inl e
      \<and> str_contains (py ''FLOOD'') (upper L (exn_str e))
    \<longrightarrow> ptrace (phone_query_step T L c ent s' q) = ptrace s' @ [SearchReq c q, Sleep 30000])
   \<and> search_requests (ptrace (foldl (phone_query_step T L c ent) s' qs)) =
       search_requests (ptrace s') @ map (SearchReq c) qs"
  by (simp add: foldl_query_step_search_requests foldl_phone_query_step_search_requests
        query_step_def phone_query_step_def Let_def emit_def pemit_def append_error_def)

theorem flood_wait_sleeps_30_and_continues_witness:
  "search_request flood_server (calls demo_state) (ent_id demo_entity) (py ''Lichterfelde'')
     = Inl flood_wait
   \<and> str_contains (py ''FLOOD'') (upper ascii_lib (exn_str flood_wait))
   \<and> trace (query_step flood_server ascii_lib (py ''@Niemci'') demo_entity demo_state
              (py ''Lichterfelde''))
     = trace demo_state @ [SearchReq (py ''@Niemci'') (py ''Lichterfelde''), Sleep 30000]
   \<and> search_request flood_server (pcalls demo_phone_state) (ent_id demo_entity)
        (py ''Lichterfelde'') = Inl flood_wait
   \<and> ptrace (phone_query_step flood_server ascii_lib (py ''@Niemci'') demo_entity
               demo_phone_state (py ''Lichterfelde''))
     = ptrace demo_phone_state @ [SearchReq (py ''@Niemci'') (py ''Lichterfelde''), Sleep 30000]"
  using py_FLOOD_in_upper_flood_wait
    flood_wait_sleeps_30_and_continues
      [of flood_server demo_state demo_entity "py ''Lichterfelde''" flood_wait ascii_lib
          "py ''@Niemci''" "[]" demo_phone_state]
  by (simp add: flood_server_def demo_state_def demo_phone_state_def)

section \<open>Deduplication\<close>

lemma classify_ids_simps [simp]:
  "classify_ids [] = []"
  "classify_ids (tr @ tr') = classify_ids tr @ classify_ids tr'"
  "classify_ids (Classify c i # tr) = i # classify_ids tr"
  "classify_ids (Resolve c # tr) = classify_ids tr"
  "classify_ids (SearchReq c q # tr) = classify_ids tr"
  "classify_ids (HistoryReq c off # tr) = classify_ids tr"
  "classify_ids (Sleep k # tr) = classify_ids tr"
  by (simp_all add: classify_ids_def)

lemma dedup_distinct: "distinct (dedup seen xs) \<and> set (dedup seen xs) = set xs - seen"
  by (induction xs arbitrary: seen) auto

text \<open>The phone collector admits and classifies exactly the first occurrences of the
  identifiers with text.\<close>

lemma phone_message_step:
  "map pm_message_id (pc_messages (pdata (phone_message L c q s m))) =
     map pm_message_id (pc_messages (pdata s))
       @ (if has_text m \<and> msg_id m \<notin> pseen_ids s then [msg_id m] else [])"
  "classify_ids (ptrace (phone_message L c q s m)) =
     classify_ids (ptrace s)
       @ (if has_text m \<and> msg_id m \<notin> pseen_ids s then [msg_id m] else [])"
  "pseen_ids (phone_message L c q s m) =
     (if has_text m \<and> msg_id m \<notin> pseen_ids s then insert (msg_id m) (pseen_ids s)
      else pseen_ids s)"
  "pcalls (phone_message L c q s m) = pcalls s"
  by (simp_all add: phone_message_def has_text_def truthy_def Let_def pemit_def
        split: option.splits)

lemma foldl_phone_message_ids:
  "map pm_message_id (pc_messages (pdata (foldl (phone_message L c q) s ms))) =
     map pm_message_id (pc_messages (pdata s))
       @ dedup (pseen_ids s) (map msg_id (filter has_text ms))
   \<and> classify_ids (ptrace (foldl (phone_message L c q) s ms)) =
     classify_ids (ptrace s) @ dedup (pseen_ids s) (map msg_id (filter has_text ms))
   \<and> pseen_ids (foldl (phone_message L c q) s ms) =
     pseen_ids s \<union> set (dedup (pseen_ids s) (map msg_id (filter has_text ms)))
   \<and> pcalls (foldl (phone_message L c q) s ms) = pcalls s"
  by (induction ms arbitrary: s) (simp_all add: phone_message_step)

lemma dedup_append:
  "dedup seen (xs @ ys) = dedup seen xs @ dedup (seen \<union> set (dedup seen xs)) ys"
  by (induction xs arbitrary: seen) simp_all

lemma phone_query_step_ids:
  "map pm_message_id (pc_messages (pdata (phone_query_step T L c ent s q))) =
     map pm_message_id (pc_messages (pdata s))
       @ dedup (pseen_ids s) (map msg_id (filter has_text (delivered T (ent_id ent) (pcalls s) [q])))
   \<and> classify_ids (ptrace (phone_query_step T L c ent s q)) =
     classify_ids (ptrace s)
       @ dedup (pseen_ids s) (map msg_id (filter has_text (delivered T (ent_id ent) (pcalls s) [q])))
   \<and> pseen_ids (phone_query_step T L c ent s q) =
     pseen_ids s \<union> set (dedup (pseen_ids s) (map msg_id (filter has_text (delivered T (ent_id ent) (pcalls s) [q]))))
   \<and> pcalls (phone_query_step T L c ent s q) = Suc (pcalls s)"
  by (simp add: phone_query_step_def Let_def pemit_def foldl_phone_message_ids
        split: sum.splits)

lemma foldl_phone_query_step_ids:
  "map pm_message_id (pc_messages (pdata (foldl (phone_query_step T L c ent) s qs))) =
     map pm_message_id (pc_messages (pdata s))
       @ dedup (pseen_ids s) (map msg_id (filter has_text (delivered T (ent_id ent) (pcalls s) qs)))
   \<and> classify_ids (ptrace (foldl (phone_query_step T L c ent) s qs)) =
     classify_ids (ptrace s)
       @ dedup (pseen_ids s) (map msg_id (filter has_text (delivered T (ent_id ent) (pcalls s) qs)))
   \<and> pseen_ids (foldl (phone_query_step T L c ent) s qs) =
     pseen_ids s \<union> set (dedup (pseen_ids s) (map msg_id (filter has_text (delivered T (ent_id ent) (pcalls s) qs))))
   \<and> pcalls (foldl (phone_query_step T L c ent) s qs) = pcalls s + length qs"
proof (induction qs arbitrary: s)
  case Nil
  then show ?case by simp
next
  case (Cons q qs)
  show ?case
    using phone_query_step_ids [of T L c ent s q]
    by (simp add: Cons.IH dedup_append Un_assoc)
qed


text \<open>The query loop of the @Niemci/DE4RU collector does the same for the messages
  with text that are dated within the window.\<close>

lemma query_message_step:
  "map message_id (messages (data (query_message L c q s m))) =
     map message_id (messages (data s))
       @ (if has_text m \<and> in_window m \<and> msg_id m \<notin> seen_ids s then [msg_id m] else [])"
  "classify_ids (trace (query_message L c q s m)) =
     classify_ids (trace s)
       @ (if has_text m \<and> in_window m \<and> msg_id m \<notin> seen_ids s then [msg_id m] else [])"
  "seen_ids (query_message L c q s m) =
     (if has_text m \<and> in_window m \<and> msg_id m \<notin> seen_ids s
      then insert (msg_id m) (seen_ids s) else seen_ids s)"
  "calls (query_message L c q s m) = calls s"
  by (auto simp add: query_message_def has_text_def in_window_def Let_def emit_def
        append_message_def make_message_data_def)

lemma foldl_query_message_ids:
  "map message_id (messages (data (foldl (query_message L c q) s ms))) =
     map message_id (messages (data s))
       @ dedup (seen_ids s) (map msg_id (filter (\<lambda>m. has_text m \<and> in_window m) ms))
   \<and> classify_ids (trace (foldl (query_message L c q) s ms)) =
     classify_ids (trace s)
       @ dedup (seen_ids s) (map msg_id (filter (\<lambda>m. has_text m \<and> in_window m) ms))
   \<and> seen_ids (foldl (query_message L c q) s ms) =
     seen_ids s \<union> set (dedup (seen_ids s) (map msg_id (filter (\<lambda>m. has_text m \<and> in_window m) ms)))
   \<and> calls (foldl (query_message L c q) s ms) = calls s"
  by (induction ms arbitrary: s) (simp_all add: query_message_step)

lemma query_step_ids:
  "map message_id (messages (data (query_step T L c ent s q))) =
     map message_id (messages (data s))
       @ dedup (seen_ids s) (map msg_id (filter (\<lambda>m. has_text m \<and> in_window m)
            (delivered T (ent_id ent) (calls s) [q])))
   \<and> classify_ids (trace (query_step T L c ent s q)) =
     classify_ids (trace s)
       @ dedup (seen_ids s) (map msg_id (filter (\<lambda>m. has_text m \<and> in_window m)
            (delivered T (ent_id ent) (calls s) [q])))
   \<and> seen_ids (query_step T L c ent s q) =
     seen_ids s \<union> set (dedup (seen_ids s) (map msg_id (filter (\<lambda>m. has_text m \<and> in_window m)
            (delivered T (ent_id ent) (calls s) [q]))))
   \<and> calls (query_step T L c ent s q) = Suc (calls s)"
  by (simp add: query_step_def Let_def emit_def append_error_def foldl_query_message_ids
        split: sum.splits)

lemma foldl_query_step_ids:
  "map message_id (messages (data (foldl (query_step T L c ent) s qs))) =
     map message_id (messages (data s))
       @ dedup (seen_ids s) (map msg_id (filter (\<lambda>m. has_text m \<and> in_window m)
            (delivered T (ent_id ent) (calls s) qs)))
   \<and> classify_ids (trace (foldl (query_step T L c ent) s qs)) =
     classify_ids (trace s)
       @ dedup (seen_ids s) (map msg_id (filter (\<lambda>m. has_text m \<and> in_window m)
            (delivered T (ent_id ent) (calls s) qs)))
   \<and> seen_ids (foldl (query_step T L c ent) s qs) =
     seen_ids s \<union> set (dedup (seen_ids s) (map msg_id (filter (\<lambda>m. has_text m \<and> in_window m)
            (delivered T (ent_id ent) (calls s) qs))))
   \<and> calls (foldl (query_step T L c ent) s qs) = calls s + length qs"
proof (induction qs arbitrary: s)
  case Nil
  then show ?case by simp
next
  case (Cons q qs)
  show ?case
    using query_step_ids [of T L c ent s q]
    by (simp add: Cons.IH dedup_append Un_assoc)
qed

text \<open>The invariant is kept by every step of \<open>search_channel\<close>.\<close>

lemma chan_inv_emit:
  "chan_inv n s \<Longrightarrow> classify_ids [ev] = [] \<Longrightarrow> chan_inv n (emit ev s)"
  by (simp add: chan_inv_def emit_def)

lemma chan_inv_calls: "chan_inv n s \<Longrightarrow> chan_inv n (s\<lparr>calls := k\<rparr>)"
  by (simp add: chan_inv_def)

lemma chan_inv_append_error: "chan_inv n s \<Longrightarrow> chan_inv n (append_error e s)"
  by (simp add: chan_inv_def append_error_def)

lemma chan_inv_query_message:
  "chan_inv n s \<Longrightarrow> chan_inv n (query_message L c q s m)"
  by (auto simp add: chan_inv_def query_message_def Let_def emit_def append_message_def
        make_message_data_def)

lemma chan_inv_foldl_query_message:
  "chan_inv n s \<Longrightarrow> chan_inv n (foldl (query_message L c q) s ms)"
  by (induction ms arbitrary: s) (simp_all add: chan_inv_query_message)

lemma chan_inv_query_step:
  "chan_inv n s \<Longrightarrow> chan_inv n (query_step T L c ent s q)"
  by (simp add: query_step_def Let_def chan_inv_emit chan_inv_calls chan_inv_append_error
        chan_inv_foldl_query_message split: sum.splits)

lemma chan_inv_foldl_query_step:
  "chan_inv n s \<Longrightarrow> chan_inv n (foldl (query_step T L c ent) s qs)"
  by (induction qs arbitrary: s) (simp_all add: chan_inv_query_step)

lemma chan_inv_history_messages:
  "chan_inv n s \<Longrightarrow> chan_inv n (fst (history_messages L c ms (s, off, bn)))"
proof (induction ms arbitrary: s bn)
  case Nil
  then show ?case by simp
next
  case (Cons m ms)
  let ?s2 = "emit (Classify c (msg_id m)) (s\<lparr>seen_ids := insert (msg_id m) (seen_ids s)\<rparr>)"
  have new: "msg_id m \<notin> seen_ids s \<Longrightarrow> chan_inv n ?s2"
    using Cons.prems by (auto simp add: chan_inv_def emit_def)
  have app: "msg_id m \<notin> seen_ids s \<Longrightarrow> SEARCH_START \<le> msg_date m \<Longrightarrow> msg_date m \<le> SEARCH_END
     \<Longrightarrow> chan_inv n (append_message (make_message_data L c q' m cl) ?s2)" for q' cl
    using Cons.prems
    by (auto simp add: chan_inv_def emit_def append_message_def make_message_data_def)
  show ?case
    using Cons.prems new app
    by (auto simp add: Let_def intro!: Cons.IH)
qed

lemma chan_inv_history_loop:
  "chan_inv n s \<Longrightarrow> chan_inv n (history_loop T L c ent off b s)"
proof (induction T L c ent off b s rule: history_loop.induct)
  case (1 T L c ent off b s)
  let ?s1 = "(emit (HistoryReq c off) s)\<lparr>calls := calls s + 1\<rparr>"
  have s1: "chan_inv n ?s1"
    using "1.prems" by (simp add: chan_inv_emit chan_inv_calls)
  show ?case
  proof (cases "get_history_request T (calls s) (ent_id ent) off")
    case (Inl e)
    then show ?thesis
      using s1 by (subst history_loop.simps) (simp add: Let_def chan_inv_append_error)
  next
    case (Inr msgs)
    let ?s2 = "fst (history_messages L c msgs (?s1, off, 0))"
    have s2: "chan_inv n ?s2" using s1 by (rule chan_inv_history_messages)
    show ?thesis
    proof (cases "msgs = [] \<or> fst (snd (history_messages L c msgs (?s1, off, 0))) = 0 \<or> 20 \<le> b + 1")
      case True
      then show ?thesis
        using Inr s1 s2 by (subst history_loop.simps) (auto simp add: Let_def)
    next
      case False
      have "chan_inv n (history_loop T L c ent (msg_id (last msgs)) (b + 1) (emit (Sleep 300) ?s2))"
        using False Inr s2
        by (intro "1.IH"[OF refl Inr _ refl refl refl]) (auto simp add: chan_inv_emit)
      then show ?thesis
        using Inr False by (subst history_loop.simps) (simp add: Let_def)
    qed
  qed
qed

lemma search_channel_entry_inv:
  "\<exists>cd. channel_entry (search_channel T L c qs r) c = Some cd
     \<and> distinct (map message_id (messages cd))
     \<and> list_all (\<lambda>md. SEARCH_START \<le> date md \<and> date md \<le> SEARCH_END) (messages cd)
     \<and> total_messages cd = length (messages cd)"
proof (cases "get_entity T (run_calls r) c")
  case (Inl e)
  then show ?thesis
    by (simp add: search_channel_def channel_entry_def Let_def update_conv')
next
  case (Inr ent)
  let ?s0 = "\<lparr> data = \<lparr> channel = c, status = py ''accessible'', total_messages = 0,
                 messages = [], errors = [],
                 channel_title = Some (or_default c (ent_title ent)),
                 channel_id = Some (ent_id ent),
                 participants_count = ent_participants_count ent \<rparr>,
               seen_ids = {}, trace = run_trace r @ [Resolve c], calls = run_calls r + 1 \<rparr>"
  have "chan_inv (length (run_trace r)) ?s0"
    by (simp add: chan_inv_def)
  then have "chan_inv (length (run_trace r))
               (history_loop T L c ent 0 0 (foldl (query_step T L c ent) ?s0 qs))"
    by (intro chan_inv_history_loop chan_inv_foldl_query_step)
  then show ?thesis
    using Inr
    by (simp add: search_channel_def channel_entry_def Let_def update_conv' chan_inv_def)
qed

lemma search_channel_classify_distinct:
  "distinct (classify_ids (drop (length (run_trace r)) (run_trace (search_channel T L c qs r))))"
proof (cases "get_entity T (run_calls r) c")
  case (Inl e)
  then show ?thesis
    by (simp add: search_channel_def Let_def)
next
  case (Inr ent)
  let ?s0 = "\<lparr> data = \<lparr> channel = c, status = py ''accessible'', total_messages = 0,
                 messages = [], errors = [],
                 channel_title = Some (or_default c (ent_title ent)),
                 channel_id = Some (ent_id ent),
                 participants_count = ent_participants_count ent \<rparr>,
               seen_ids = {}, trace = run_trace r @ [Resolve c], calls = run_calls r + 1 \<rparr>"
  have "chan_inv (length (run_trace r)) ?s0"
    by (simp add: chan_inv_def)
  then have "chan_inv (length (run_trace r))
               (history_loop T L c ent 0 0 (foldl (query_step T L c ent) ?s0 qs))"
    by (intro chan_inv_history_loop chan_inv_foldl_query_step)
  then show ?thesis
    using Inr by (simp add: search_channel_def Let_def chan_inv_def)
qed


text \<open>
  C3, as the claim states it, fails.  The server delivers one post without text (a
  photo without caption) to the phone collector.  The post is fed to the loop, and the
  loop admits nothing: the guard \<open>if not msg.message: continue\<close> skips it.
\<close>

theorem message_without_text_never_admitted_counterexample:
  "delivered
      (\<lparr> get_entity = (\<lambda>n name. Inr demo_entity),
         search_request = (\<lambda>n peer q. Inr [media_message]),
         get_history_request = (\<lambda>n peer off. Inr []) \<rparr>)
      (ent_id demo_entity) (pcalls demo_phone_state) [py ''Pfalzburger''] = [media_message]
   \<and> pc_messages (pdata (foldl
        (phone_query_step
           (\<lparr> get_entity = (\<lambda>n name. Inr demo_entity),
              search_request = (\<lambda>n peer q. Inr [media_message]),
              get_history_request = (\<lambda>n peer off. Inr []) \<rparr>)
           ascii_lib (py ''@Niemci'') demo_entity)
        demo_phone_state [py ''Pfalzburger''])) = []"
  by (simp add: phone_query_step_def phone_message_def media_message_def demo_phone_state_def
        Let_def pemit_def)


text \<open>
  C3, amended.  Among the messages delivered to a channel's query loop, the phone
  collector admits and classifies exactly the messages with text, the @Niemci/DE4RU
  collector exactly the messages with text that are dated within the window: each of
  their identifiers once, at its first such occurrence, in the order of these
  occurrences; an occurrence whose identifier was admitted before is suppressed before
  it is classified.  A message without text is skipped and not remembered.  Over a
  whole call of \<open>search_channel\<close>, history scan included, no identifier is classified
  twice and no identifier is collected twice.
\<close>

theorem each_message_admitted_at_most_once:
  "map pm_message_id (pc_messages (pdata (foldl (phone_query_step T L c ent) s' qs))) =
     map pm_message_id (pc_messages (pdata s'))
       @ dedup (pseen_ids s')
           (map msg_id (filter has_text (delivered T (ent_id ent) (pcalls s') qs)))
   \<and> classify_ids (ptrace (foldl (phone_query_step T L c ent) s' qs)) =
     classify_ids (ptrace s')
       @ dedup (pseen_ids s')
           (map msg_id (filter has_text (delivered T (ent_id ent) (pcalls s') qs)))
   \<and> map message_id (messages (data (foldl (query_step T L c ent) s qs))) =
     map message_id (messages (data s))
       @ dedup (seen_ids s)
           (map msg_id (filter (\<lambda>m. has_text m \<and> in_window m)
              (delivered T (ent_id ent) (calls s) qs)))
   \<and> classify_ids (trace (foldl (query_step T L c ent) s qs)) =
     classify_ids (trace s)
       @ dedup (seen_ids s)
           (map msg_id (filter (\<lambda>m. has_text m \<and> in_window m)
              (delivered T (ent_id ent) (calls s) qs)))
   \<and> distinct (dedup seen (ids :: int list)) \<and> set (dedup seen ids) = set ids - seen
   \<and> distinct (classify_ids (drop (length (run_trace r))
                 (run_trace (search_channel T L c qs r))))
   \<and> (case channel_entry (search_channel T L c qs r) c of
         None \<Rightarrow> False
       | Some cd \<Rightarrow> distinct (map message_id (messages cd)))"
proof -
  obtain cd where "channel_entry (search_channel T L c qs r) c = Some cd"
    and "distinct (map message_id (messages cd))"
    using search_channel_entry_inv [of T L c qs r] by blast
  then show ?thesis
    using foldl_phone_query_step_ids [of T L c ent s' qs] foldl_query_step_ids [of T L c ent s qs]
      dedup_distinct [of seen ids] search_channel_classify_distinct [of r T L c qs]
    by simp
qed

section \<open>The window of the history scans\<close>

lemma list_all_filter_same: "list_all P (filter P xs)"
  by (induction xs) simp_all

lemma extended_history_window:
  assumes "extended_history T chan off all_messages tr n = Some res"
  shows "list_all (\<lambda>m. SEARCH_START_DATE \<le> msg_date m \<and> msg_date m \<le> SEARCH_END_DATE) all_messages \<longrightarrow>
   list_all (\<lambda>m. SEARCH_START_DATE \<le> msg_date m \<and> msg_date m \<le> SEARCH_END_DATE) (fst res)"
  using assms
proof (induction rule: extended_history.raw_induct [rotated 1, consumes 1, case_names step])
  case (step f T chan off all_messages tr n res)
  let ?W = "\<lambda>m. SEARCH_START_DATE \<le> msg_date m \<and> msg_date m \<le> SEARCH_END_DATE"
  show ?case
  proof (cases "get_history_request T n (ent_id chan) off")
    case (Inl e)
    then have "fst res = all_messages" using step(2) by auto
    then show ?thesis by simp
  next
    case (Inr msgs)
    show ?thesis
    proof (cases "msgs = []")
      case True
      then have "fst res = all_messages" using step(2) Inr by auto
      then show ?thesis by simp
    next
      case False
      note nonempty = this
      show ?thesis
      proof (cases "length msgs < 100")
        case True
        then have "fst res = all_messages @ filter ?W msgs"
          using step(2) Inr nonempty by (auto simp add: Let_def)
        then show ?thesis by (simp add: list_all_filter_same)
      next
        case False
        then have "f T chan (msg_id (last msgs)) (all_messages @ filter ?W msgs)
                   (tr @ [HistoryReq TARGET_CHANNEL off]) (Suc n) = Some res"
          using step(2) Inr nonempty by (simp add: Let_def)
        from step(1)[OF this] show ?thesis by (simp add: list_all_filter_same)
      qed
    qed
  qed
qed

lemma old_page: "list_ex (\<lambda>m. msg_date m < SEARCH_START) (replicate 100 old_message)"
   "list_all (\<lambda>m. msg_date m < SEARCH_START_DATE) (replicate 100 old_message)"
  by (simp_all add: list_ex_iff list_all_iff old_message_def SEARCH_START_def SEARCH_START_DATE_def)


lemma ce_second: "extended_history old_history_server demo_entity 5 [] [HistoryReq TARGET_CHANNEL 0] (Suc 0)
          = Some ([], [HistoryReq TARGET_CHANNEL 0, HistoryReq TARGET_CHANNEL 5], 2)"
  by (subst extended_history.simps) (simp add: old_history_server_def)

lemma ce_none: "filter (\<lambda>msg. SEARCH_START_DATE \<le> msg_date msg \<and> msg_date msg \<le> SEARCH_END_DATE)
                   (replicate 100 old_message) = []"
  by (simp only: filter_replicate) (simp add: old_message_def SEARCH_START_DATE_def)

lemma ce_page: "get_history_request old_history_server 0 (ent_id demo_entity) 0
                = Inr (replicate 100 old_message)"
  by (simp add: old_history_server_def)

lemma extended_history_old_server:
  "extended_history old_history_server demo_entity 0 [] [] 0 =
     Some ([], [HistoryReq TARGET_CHANNEL 0, HistoryReq TARGET_CHANNEL 5], 2)"
proof -
  have id5: "msg_id old_message = 5" by (simp add: old_message_def)
  have "extended_history old_history_server demo_entity 0 [] [] 0 =
     extended_history old_history_server demo_entity 5 [] [HistoryReq TARGET_CHANNEL 0] (Suc 0)"
    by (subst extended_history.simps) (simp add: ce_page ce_none id5 Let_def)
  then show ?thesis by (simp add: ce_second)
qed

text \<open>
  C5, as the claim states it, fails for the history scan of the extended @Niemci
  search.  The first page holds 100 messages, all dated before the start of the window;
  the scan then requests a second page, with the cursor at the last message of the
  first.
\<close>

theorem extended_history_fetches_on_counterexample:
  "get_history_request old_history_server 0 (ent_id demo_entity) 0
     = Inr (replicate 100 old_message)
   \<and> list_all (\<lambda>m. msg_date m < SEARCH_START_DATE) (replicate 100 old_message)
   \<and> extended_history old_history_server demo_entity 0 [] [] 0 =
       Some ([], [HistoryReq TARGET_CHANNEL 0, HistoryReq TARGET_CHANNEL 5], 2)"
  using old_page(2) ce_page extended_history_old_server by simp

text \<open>
  C5, amended.  No message dated before the start of the window is ever included in the
  messages collected for a channel, neither by \<open>search_channel\<close> of the @Niemci/DE4RU
  collector nor by the history retrieval of the extended @Niemci search (when it
  returns).  In the @Niemci/DE4RU collector, once the history page fetched contains a
  message dated before the start of the window, no further history page is fetched for
  that channel.
\<close>

theorem no_message_before_window_start:
  "(case channel_entry (search_channel T L c qs r) c of
      None \<Rightarrow> False
    | Some cd \<Rightarrow> list_all (\<lambda>md. SEARCH_START \<le> date md) (messages cd))
   \<and> (get_history_request T (calls s) (ent_id ent) 0 = Inr msgs
        \<and> list_ex (\<lambda>m. msg_date m < SEARCH_START) msgs
      \<longrightarrow> history_requests (trace (history_loop T L c ent 0 0 s)) =
            history_requests (trace s) @ [HistoryReq c 0])
   \<and> (extended_history T chan 0 [] tr n = Some res
      \<longrightarrow> list_all (\<lambda>m. SEARCH_START_DATE \<le> msg_date m) (fst res))"
proof -
  obtain cd where "channel_entry (search_channel T L c qs r) c = Some cd"
    and "list_all (\<lambda>md. SEARCH_START \<le> date md \<and> date md \<le> SEARCH_END) (messages cd)"
    using search_channel_entry_inv [of T L c qs r] by blast
  moreover have "list_all (\<lambda>m. SEARCH_START_DATE \<le> msg_date m) (fst res)"
    if "extended_history T chan 0 [] tr n = Some res"
    using extended_history_window [OF that] by (simp add: list_all_iff)
  ultimately show ?thesis
    by (simp add: history_loop_from_zero list_all_iff)
qed

theorem no_message_before_window_start_witness:
  "get_history_request old_history_server (calls (demo_state\<lparr>calls := 0\<rparr>)) (ent_id demo_entity) 0
     = Inr (replicate 100 old_message)
   \<and> list_ex (\<lambda>m. msg_date m < SEARCH_START) (replicate 100 old_message)
   \<and> history_requests (trace (history_loop old_history_server ascii_lib (py ''@Niemci'')
        demo_entity 0 0 (demo_state\<lparr>calls := 0\<rparr>))) =
       history_requests (trace (demo_state\<lparr>calls := 0\<rparr>)) @ [HistoryReq (py ''@Niemci'') 0]
   \<and> extended_history old_history_server demo_entity 0 [] [] 0 =
       Some ([], [HistoryReq TARGET_CHANNEL 0, HistoryReq TARGET_CHANNEL 5], 2)
   \<and> list_all (\<lambda>m. SEARCH_START_DATE \<le> msg_date m)
       (fst (([], [HistoryReq TARGET_CHANNEL 0, HistoryReq TARGET_CHANNEL 5], 2)
               :: message list \<times> event list \<times> nat))"
  using no_message_before_window_start
      [where T = old_history_server and s = "demo_state\<lparr>calls := 0\<rparr>" and ent = demo_entity
         and msgs = "replicate 100 old_message" and L = ascii_lib and c = "py ''@Niemci''"
         and chan = demo_entity and tr = "[]" and n = 0
         and res = "([], [HistoryReq TARGET_CHANNEL 0, HistoryReq TARGET_CHANNEL 5], 2)"]
    old_page(1) ce_page extended_history_old_server
  by simp

section \<open>Inaccessible channels\<close>

lemma is_resolve_simps [simp]:
  "is_resolve (Resolve c)" "\<not> is_resolve (SearchReq c q)"
  "\<not> is_resolve (HistoryReq c off)" "\<not> is_resolve (Sleep n)"
  "\<not> is_resolve (Classify c i)"
  by (simp_all add: is_resolve_def)

lemma resolutions_simps [simp]:
  "resolutions [] = []"
  "resolutions (ev # tr) = (if is_resolve ev then ev # resolutions tr else resolutions tr)"
  "resolutions (tr @ tr') = resolutions tr @ resolutions tr'"
  by (simp_all add: resolutions_def)

lemma history_messages_resolutions:
  "resolutions (trace (fst (history_messages L c ms (s, off, bn)))) = resolutions (trace s)"
  by (induction ms arbitrary: s bn) (simp_all add: Let_def emit_def append_message_def)

lemma query_message_resolutions:
  "resolutions (trace (query_message L c q s m)) = resolutions (trace s)"
  by (simp add: query_message_def Let_def emit_def append_message_def)

lemma foldl_query_message_resolutions:
  "resolutions (trace (foldl (query_message L c q) s ms)) = resolutions (trace s)"
  by (induction ms arbitrary: s) (simp_all add: query_message_resolutions)

lemma query_step_resolutions:
  "resolutions (trace (query_step T L c ent s q)) = resolutions (trace s)"
  by (simp add: query_step_def Let_def foldl_query_message_resolutions emit_def
        append_error_def split: sum.splits)

lemma foldl_query_step_resolutions:
  "resolutions (trace (foldl (query_step T L c ent) s qs)) = resolutions (trace s)"
  by (induction qs arbitrary: s) (simp_all add: query_step_resolutions)

lemma history_loop_resolutions:
  "resolutions (trace (history_loop T L c ent 0 0 s)) = resolutions (trace s)"
  by (subst history_loop.simps)
     (simp add: Let_def history_messages_offset_zero history_messages_resolutions emit_def
        append_error_def split: sum.splits)

lemma search_channel_resolutions:
  "resolutions (run_trace (search_channel T L c qs r)) = resolutions (run_trace r) @ [Resolve c]"
  by (simp add: search_channel_def Let_def history_loop_resolutions
        foldl_query_step_resolutions split: sum.splits)

lemma run_channels_Nil: "run_channels T L [] r = r"
  by (simp add: run_channels_def)

lemma run_channels_Cons:
  "run_channels T L (c # cs) r =
     run_channels T L cs ((search_channel T L c ALL_QUERIES r)\<lparr>run_trace :=
        run_trace (search_channel T L c ALL_QUERIES r) @ [Sleep 1000]\<rparr>)"
  by (simp add: run_channels_def)

lemma run_channels_append:
  "run_channels T L (cs @ cs') r = run_channels T L cs' (run_channels T L cs r)"
  by (simp add: run_channels_def)

lemma run_channels_resolutions:
  "resolutions (run_trace (run_channels T L cs r)) = resolutions (run_trace r) @ map Resolve cs"
  by (induction cs arbitrary: r) (simp_all add: run_channels_Nil run_channels_Cons search_channel_resolutions)

lemma search_channel_calls_other:
  "run_calls ((search_channel T L c qs r)\<lparr>run_trace := tr\<rparr>) = run_calls (search_channel T L c qs r)"
  by simp

lemma search_channel_entry_other:
  "c \<noteq> c' \<Longrightarrow> channel_entry (search_channel T L c' qs r) c = channel_entry r c"
  by (simp add: search_channel_def channel_entry_def Let_def update_conv' split: sum.splits)

lemma search_channel_entry_failed:
  "get_entity T (run_calls r) c = Inl e \<Longrightarrow>
   channel_entry (search_channel T L c qs r) c = Some (inaccessible_data c e)"
  by (simp add: search_channel_def channel_entry_def Let_def update_conv' inaccessible_data_def)

lemma channel_entry_trace [simp]:
  "channel_entry (r\<lparr>run_trace := tr\<rparr>) c = channel_entry r c"
  by (simp add: channel_entry_def)

lemma run_channels_entry_other:
  "c \<notin> set cs \<Longrightarrow> channel_entry (run_channels T L cs r) c = channel_entry r c"
  by (induction cs arbitrary: r)
     (simp_all add: run_channels_Nil run_channels_Cons search_channel_entry_other)

lemma search_channel_keys:
  "fst ` set (channels (search_channel T L c qs r)) = insert c (fst ` set (channels r))"
  using dom_update [of c _ "channels r"]
  by (simp add: search_channel_def Let_def dom_map_of_conv_image_fst split: sum.splits)

lemma run_channels_keys:
  "fst ` set (channels (run_channels T L cs r)) = fst ` set (channels r) \<union> set cs"
  by (induction cs arbitrary: r)
     (simp_all add: run_channels_Nil run_channels_Cons search_channel_keys)

lemma channel_status_entry:
  "channel_entry r c = Some cd \<Longrightarrow> (c, status cd, total_messages cd) \<in> set (channel_status r)"
  by (auto simp add: channel_entry_def channel_status_def dest!: map_of_SomeD intro!: rev_image_eqI)

lemma niemci_inaccessible:
  assumes "get_entity T (run_calls (run_channels T L pre r)) c = Inl e" and "c \<notin> set post"
  shows "channel_entry (run_channels T L (pre @ c # post) r) c = Some (inaccessible_data c e)"
proof -
  have "run_channels T L (pre @ c # post) r =
          run_channels T L post ((search_channel T L c ALL_QUERIES (run_channels T L pre r))
            \<lparr>run_trace := run_trace (search_channel T L c ALL_QUERIES (run_channels T L pre r)) @ [Sleep 1000]\<rparr>)"
    by (simp add: run_channels_append run_channels_Cons)
  then show ?thesis
    using assms by (simp add: run_channels_entry_other search_channel_entry_failed)
qed

text \<open>The channel loop of the extended recruitment search.\<close>

lemma extended_Nil: "extended_telegram_search collect T [] r = r"
  by (simp add: extended_telegram_search_def)

lemma extended_Cons:
  "extended_telegram_search collect T (c # cs) r =
     extended_telegram_search collect T cs (extended_channel collect T r c)"
  by (simp add: extended_telegram_search_def)

lemma extended_append:
  "extended_telegram_search collect T (cs @ cs') r =
     extended_telegram_search collect T cs' (extended_telegram_search collect T cs r)"
  by (simp add: extended_telegram_search_def)

lemma extended_channel_resolutions:
  "resolutions (xr_trace (extended_channel collect T r c)) = resolutions (xr_trace r) @ [Resolve c]"
  by (simp add: extended_channel_def Let_def split: sum.splits prod.splits option.splits)

lemma extended_resolutions:
  "resolutions (xr_trace (extended_telegram_search collect T cs r)) =
     resolutions (xr_trace r) @ map Resolve cs"
  by (induction cs arbitrary: r) (simp_all add: extended_Nil extended_Cons extended_channel_resolutions)

lemma extended_channel_failed:
  "get_entity T (xr_calls r) c = Inl e \<Longrightarrow>
   map_of (xr_by_channel (extended_channel collect T r c)) c = Some 0
   \<and> (c, exn_str e) \<in> set (xr_inaccessible_channels (extended_channel collect T r c))"
  by (simp add: extended_channel_def Let_def update_conv')

lemma extended_channel_other:
  "c' \<noteq> c \<Longrightarrow>
   map_of (xr_by_channel (extended_channel collect T r c')) c = map_of (xr_by_channel r) c
   \<and> set (xr_inaccessible_channels r) \<subseteq> set (xr_inaccessible_channels (extended_channel collect T r c'))"
  by (auto simp add: extended_channel_def Let_def update_conv' split: sum.splits prod.splits option.splits)

lemma extended_other:
  "c \<notin> set cs \<Longrightarrow>
   map_of (xr_by_channel (extended_telegram_search collect T cs r)) c = map_of (xr_by_channel r) c
   \<and> set (xr_inaccessible_channels r) \<subseteq> set (xr_inaccessible_channels (extended_telegram_search collect T cs r))"
proof (induction cs arbitrary: r)
  case Nil
  then show ?case by (simp add: extended_Nil)
next
  case (Cons c' cs)
  then have ne: "c' \<noteq> c" and rest: "c \<notin> set cs" by auto
  show ?case
    using Cons.IH [OF rest, of "extended_channel collect T r c'"]
      extended_channel_other [OF ne, of collect T r]
    by (auto simp add: extended_Cons)
qed

lemma extended_inaccessible:
  assumes "get_entity T (xr_calls (extended_telegram_search collect T pre r)) c = Inl e"
    and "c \<notin> set post"
  shows "map_of (xr_by_channel (extended_telegram_search collect T (pre @ c # post) r)) c = Some 0
   \<and> (c, exn_str e) \<in> set (xr_inaccessible_channels (extended_telegram_search collect T (pre @ c # post) r))"
  using extended_channel_failed [OF assms(1), of collect]
    extended_other [OF assms(2), of collect T "extended_channel collect T (extended_telegram_search collect T pre r) c"]
  by (auto simp add: extended_append extended_Cons)

text \<open>The requests sent for a channel.\<close>

lemma event_channel_simps [simp]:
  "event_channel (Resolve c) = Some c" "event_channel (SearchReq c q) = Some c"
  "event_channel (HistoryReq c off) = Some c" "event_channel (Sleep n) = None"
  "event_channel (Classify c i) = None"
  by (simp_all add: event_channel_def)

lemma requests_for_simps [simp]:
  "requests_for c [] = []"
  "requests_for c (ev # tr) =
     (if event_channel ev = Some c then ev # requests_for c tr else requests_for c tr)"
  "requests_for c (tr @ tr') = requests_for c tr @ requests_for c tr'"
  by (simp_all add: requests_for_def)

lemma requests_for_searches_same:
  "requests_for c (map (SearchReq c) qs) = map (SearchReq c) qs"
  by (induction qs) simp_all

lemma requests_for_searches_other:
  "c \<noteq> c' \<Longrightarrow> requests_for c' (map (SearchReq c) qs) = []"
  by (induction qs) simp_all

lemma requests_for_searches:
  "requests_for c' (map (SearchReq c) qs) = (if c = c' then map (SearchReq c) qs else [])"
  by (simp add: requests_for_searches_same requests_for_searches_other)

lemma history_messages_requests_for:
  "requests_for c' (trace (fst (history_messages L c ms (s, off, bn)))) = requests_for c' (trace s)"
  by (induction ms arbitrary: s bn) (simp_all add: Let_def emit_def append_message_def)

lemma query_message_requests_for:
  "requests_for c' (trace (query_message L c q s m)) = requests_for c' (trace s)"
  by (simp add: query_message_def Let_def emit_def append_message_def)

lemma foldl_query_message_requests_for:
  "requests_for c' (trace (foldl (query_message L c q) s ms)) = requests_for c' (trace s)"
  by (induction ms arbitrary: s) (simp_all add: query_message_requests_for)

lemma query_step_requests_for:
  "requests_for c' (trace (query_step T L c ent s q)) =
     requests_for c' (trace s) @ requests_for c' [SearchReq c q]"
  by (simp add: query_step_def Let_def foldl_query_message_requests_for emit_def
        append_error_def split: sum.splits)

lemma foldl_query_step_requests_for:
  "requests_for c' (trace (foldl (query_step T L c ent) s qs)) =
     requests_for c' (trace s) @ requests_for c' (map (SearchReq c) qs)"
  by (induction qs arbitrary: s) (simp_all add: query_step_requests_for)

lemma history_loop_requests_for:
  "requests_for c' (trace (history_loop T L c ent 0 0 s)) =
     requests_for c' (trace s) @ requests_for c' [HistoryReq c 0]"
  by (subst history_loop.simps)
     (simp add: Let_def history_messages_offset_zero history_messages_requests_for emit_def
        append_error_def split: sum.splits)

lemma search_channel_requests_for:
  "requests_for c' (run_trace (search_channel T L c qs r)) =
     requests_for c' (run_trace r) @
       (if c = c'
        then (case get_entity T (run_calls r) c of
                Inl e \<Rightarrow> [Resolve c]
              | Inr ent \<Rightarrow> [Resolve c] @ map (SearchReq c) qs @ [HistoryReq c 0])
        else [])"
  by (simp add: search_channel_def Let_def history_loop_requests_for
        foldl_query_step_requests_for requests_for_searches split: sum.splits)

lemma run_channels_requests_for_other:
  "c' \<notin> set cs \<Longrightarrow>
   requests_for c' (run_trace (run_channels T L cs r)) = requests_for c' (run_trace r)"
  by (induction cs arbitrary: r)
     (auto simp add: run_channels_Nil run_channels_Cons search_channel_requests_for)

lemma run_channels_requests_for:
  assumes "c' \<notin> set pre" and "c' \<notin> set post"
  shows "requests_for c' (run_trace (run_channels T L (pre @ c' # post) r)) =
     requests_for c' (run_trace r) @
       (case get_entity T (run_calls (run_channels T L pre r)) c' of
          Inl e \<Rightarrow> [Resolve c']
        | Inr ent \<Rightarrow> [Resolve c'] @ map (SearchReq c') ALL_QUERIES @ [HistoryReq c' 0])"
  using assms
  by (simp add: run_channels_append run_channels_Cons run_channels_requests_for_other
        search_channel_requests_for)

text \<open>The record of a channel that resolves.\<close>

lemma history_messages_header:
  "status (data (fst (history_messages L c ms (s, off, bn)))) = status (data s)
   \<and> channel_id (data (fst (history_messages L c ms (s, off, bn)))) = channel_id (data s)"
  by (induction ms arbitrary: s bn) (simp_all add: Let_def emit_def append_message_def)

lemma query_message_header:
  "status (data (query_message L c q s m)) = status (data s)
   \<and> channel_id (data (query_message L c q s m)) = channel_id (data s)"
  by (simp add: query_message_def Let_def emit_def append_message_def)

lemma foldl_query_message_header:
  "status (data (foldl (query_message L c q) s ms)) = status (data s)
   \<and> channel_id (data (foldl (query_message L c q) s ms)) = channel_id (data s)"
  by (induction ms arbitrary: s) (simp_all add: query_message_header)

lemma query_step_header:
  "status (data (query_step T L c ent s q)) = status (data s)
   \<and> channel_id (data (query_step T L c ent s q)) = channel_id (data s)"
  by (simp add: query_step_def Let_def foldl_query_message_header emit_def
        append_error_def split: sum.splits)

lemma foldl_query_step_header:
  "status (data (foldl (query_step T L c ent) s qs)) = status (data s)
   \<and> channel_id (data (foldl (query_step T L c ent) s qs)) = channel_id (data s)"
  by (induction qs arbitrary: s) (simp_all add: query_step_header)

lemma history_loop_header:
  "status (data (history_loop T L c ent 0 0 s)) = status (data s)
   \<and> channel_id (data (history_loop T L c ent 0 0 s)) = channel_id (data s)"
  by (subst history_loop.simps, subst history_loop.simps)
     (simp add: Let_def history_messages_offset_zero history_messages_header emit_def
        append_error_def split: sum.splits)

lemma search_channel_entry_resolved:
  assumes "get_entity T (run_calls r) c = Inr ent"
  shows "\<exists>cd. channel_entry (search_channel T L c qs r) c = Some cd
     \<and> status cd = py ''accessible'' \<and> channel_id cd = Some (ent_id ent)
     \<and> total_messages cd = length (messages cd)"
  using assms
  by (simp add: search_channel_def channel_entry_def Let_def update_conv'
        history_loop_header foldl_query_step_header)

lemma search_channel_failed:
  assumes "get_entity T (run_calls r) c = Inl e"
  shows "search_channel T L c qs r =
     r\<lparr>channels := AList.update c (inaccessible_data c e) (channels r),
       run_trace := run_trace r @ [Resolve c], run_calls := run_calls r + 1\<rparr>"
  using assms by (simp add: search_channel_def Let_def inaccessible_data_def)

lemma niemci_later_channel:
  assumes "get_entity T (run_calls (run_channels T L pre r)) c = Inr ent" and "c \<notin> set post"
  shows "\<exists>cd. channel_entry (run_channels T L (pre @ c # post) r) c = Some cd
     \<and> status cd = py ''accessible'' \<and> channel_id cd = Some (ent_id ent)
     \<and> total_messages cd = length (messages cd)
     \<and> (c, py ''accessible'', length (messages cd))
         \<in> set (channel_status (run_channels T L (pre @ c # post) r))"
proof -
  have "run_channels T L (pre @ c # post) r =
          run_channels T L post ((search_channel T L c ALL_QUERIES (run_channels T L pre r))
            \<lparr>run_trace := run_trace (search_channel T L c ALL_QUERIES (run_channels T L pre r)) @ [Sleep 1000]\<rparr>)"
    by (simp add: run_channels_append run_channels_Cons)
  then have "channel_entry (run_channels T L (pre @ c # post) r) c =
      channel_entry (search_channel T L c ALL_QUERIES (run_channels T L pre r)) c"
    using assms(2) by (simp add: run_channels_entry_other)
  with search_channel_entry_resolved [OF assms(1), of L ALL_QUERIES]
  obtain cd where cd: "channel_entry (run_channels T L (pre @ c # post) r) c = Some cd"
    "status cd = py ''accessible''" "channel_id cd = Some (ent_id ent)"
    "total_messages cd = length (messages cd)"
    by auto
  from channel_status_entry [OF cd(1)] cd show ?thesis by auto
qed

text \<open>The extended recruitment search: the step of a channel.\<close>

lemma extended_channel_failed_step:
  assumes "get_entity T (xr_calls x) c = Inl e"
  shows "extended_channel collect T x c =
     x\<lparr>xr_inaccessible_channels := xr_inaccessible_channels x @ [(c, exn_str e)],
       xr_by_channel := AList.update c 0 (xr_by_channel x),
       xr_trace := xr_trace x @ [Resolve c], xr_calls := xr_calls x + 1\<rparr>"
  using assms by (simp add: extended_channel_def Let_def)

lemma extended_channel_resolved_step:
  assumes "get_entity T (xr_calls x) c = Inr chan"
    and "collect (xr_calls x + 1) c chan (xr_rest x) = (rest, sent, count, None)"
  shows "extended_channel collect T x c =
     x\<lparr>xr_accessible_channels :=
         xr_accessible_channels x @ [(c, or_default c (ent_title chan), count)],
       xr_by_channel := AList.update c count (xr_by_channel x),
       xr_rest := rest,
       xr_trace := xr_trace x @ [Resolve c], xr_calls := xr_calls x + 1 + sent\<rparr>"
  using assms by (simp add: extended_channel_def Let_def)

lemma extended_channel_accessible_mono:
  "set (xr_accessible_channels r) \<subseteq> set (xr_accessible_channels (extended_channel collect T r c))"
  by (auto simp add: extended_channel_def Let_def split: sum.splits prod.splits option.splits)

lemma extended_accessible_mono:
  "set (xr_accessible_channels r)
     \<subseteq> set (xr_accessible_channels (extended_telegram_search collect T cs r))"
proof (induction cs arbitrary: r)
  case Nil
  show ?case by (simp add: extended_Nil)
next
  case (Cons c cs)
  show ?case
    using Cons.IH [of "extended_channel collect T r c"]
      extended_channel_accessible_mono [of r collect T c]
    by (auto simp add: extended_Cons)
qed

lemma extended_later_channel:
  assumes "get_entity T (xr_calls (extended_telegram_search collect T pre x)) c = Inr chan"
    and "collect (xr_calls (extended_telegram_search collect T pre x) + 1) c chan
           (xr_rest (extended_telegram_search collect T pre x)) = (rest, sent, count, None)"
    and "c \<notin> set post"
  shows "map_of (xr_by_channel (extended_telegram_search collect T (pre @ c # post) x)) c
           = Some count
     \<and> (c, or_default c (ent_title chan), count)
         \<in> set (xr_accessible_channels (extended_telegram_search collect T (pre @ c # post) x))"
proof -
  let ?x1 = "extended_telegram_search collect T pre x"
  let ?x2 = "extended_channel collect T ?x1 c"
  have step: "map_of (xr_by_channel ?x2) c = Some count"
    "(c, or_default c (ent_title chan), count) \<in> set (xr_accessible_channels ?x2)"
    by (simp_all add: extended_channel_resolved_step [where collect = collect, OF assms(1) assms(2)] update_conv')
  have run: "extended_telegram_search collect T (pre @ c # post) x
             = extended_telegram_search collect T post ?x2"
    by (simp add: extended_append extended_Cons)
  from extended_other [OF assms(3), of collect T ?x2] step(1)
  have "map_of (xr_by_channel (extended_telegram_search collect T post ?x2)) c = Some count"
    by simp
  moreover from extended_accessible_mono [of ?x2 collect T post] step(2)
  have "(c, or_default c (ent_title chan), count)
         \<in> set (xr_accessible_channels (extended_telegram_search collect T post ?x2))"
    by auto
  ultimately show ?thesis unfolding run by simp
qed

lemma configured_channels_distinct:
  "distinct TARGET_CHANNELS" "distinct ADDITIONAL_CHANNELS"
  by (simp_all add: TARGET_CHANNELS_def ADDITIONAL_CHANNELS_def py_def)

text \<open>
  C8.  Let a channel \<open>c\<close> of the list fail to resolve, at any position of the list (the
  channels \<open>pre\<close> before it, the channels after it, its name not repeated; the names of
  the configured lists are distinct).

  In the @Niemci/DE4RU collector the call of \<open>search_channel\<close> for \<open>c\<close> sends the one
  request of the resolution, stores the record of an inaccessible channel, with the
  error recorded, no message and a total of 0, and changes nothing else.  At the end
  of the run the entry of \<open>c\<close> is that record, the summary has the line of \<open>c\<close> with status \<open>inaccessible\<close> and 0 messages,
  and the only request sent for \<open>c\<close> is its resolution.  Every channel \<open>c'\<close> after \<open>c\<close>
  that resolves is processed in full: the requests sent for it are its resolution, one
  search for every query of the list, in order, and the history scan from cursor 0;
  its entry has the status \<open>accessible\<close>, the id of the channel and the number of its
  messages, and the summary has its line.

  In the extended recruitment search the step for \<open>c\<close> appends \<open>c\<close> with its error to
  the inaccessible channels, sets its count to 0 and changes nothing else but the
  trace and the number of requests; at the end \<open>c\<close> is in the list of inaccessible
  channels with its error and its count is 0.  For every channel \<open>c'\<close> after \<open>c\<close> that
  resolves, the collection is run on the channel and on the results as the channels
  before left them; what it returns is stored, the channel is appended to the
  accessible channels with the number of its messages, and at the end of the run it is
  still there, with that count.

  In both, every channel of the list is resolved, in the order of the list, whatever
  channels failed before it.
\<close>

theorem inaccessible_channel_does_not_stop_the_run:
  "(get_entity T (run_calls (run_channels T L pre r)) c = Inl e \<and> c \<notin> set post
      \<longrightarrow> channel_entry (run_channels T L (pre @ c # post) r) c = Some (inaccessible_data c e)
        \<and> (c, py ''inaccessible'', 0) \<in> set (channel_status (run_channels T L (pre @ c # post) r)))
   \<and> resolutions (run_trace (run_channels T L chans r)) =
       resolutions (run_trace r) @ map Resolve chans
   \<and> fst ` set (channels (run_channels T L chans r)) = fst ` set (channels r) \<union> set chans
   \<and> (get_entity T (xr_calls (extended_telegram_search collect T pre x)) c = Inl e
        \<and> c \<notin> set post
      \<longrightarrow> map_of (xr_by_channel (extended_telegram_search collect T (pre @ c # post) x)) c = Some 0
        \<and> (c, exn_str e)
            \<in> set (xr_inaccessible_channels (extended_telegram_search collect T (pre @ c # post) x)))
   \<and> resolutions (xr_trace (extended_telegram_search collect T chans x)) =
       resolutions (xr_trace x) @ map Resolve chans
   \<and> distinct TARGET_CHANNELS \<and> distinct ADDITIONAL_CHANNELS
   \<and> (get_entity T (run_calls r) c = Inl e
      \<longrightarrow> search_channel T L c qs r =
            r\<lparr>channels := AList.update c (inaccessible_data c e) (channels r),
              run_trace := run_trace r @ [Resolve c], run_calls := run_calls r + 1\<rparr>)
   \<and> (get_entity T (run_calls (run_channels T L pre r)) c = Inl e
        \<and> c \<notin> set pre \<and> c \<notin> set post
      \<longrightarrow> requests_for c (run_trace (run_channels T L (pre @ c # post) r))
          = requests_for c (run_trace r) @ [Resolve c])
   \<and> (get_entity T (run_calls (run_channels T L pre r)) c = Inl e
        \<and> get_entity T (run_calls (run_channels T L (pre @ c # mid) r)) c' = Inr ent
        \<and> c' \<notin> set (pre @ c # mid) \<and> c' \<notin> set rest
      \<longrightarrow> requests_for c' (run_trace (run_channels T L ((pre @ c # mid) @ c' # rest) r))
            = requests_for c' (run_trace r)
              @ [Resolve c'] @ map (SearchReq c') ALL_QUERIES @ [HistoryReq c' 0]
        \<and> (\<exists>cd. channel_entry (run_channels T L ((pre @ c # mid) @ c' # rest) r) c' = Some cd
              \<and> status cd = py ''accessible'' \<and> channel_id cd = Some (ent_id ent)
              \<and> total_messages cd = length (messages cd)
              \<and> (c', py ''accessible'', length (messages cd))
                  \<in> set (channel_status (run_channels T L ((pre @ c # mid) @ c' # rest) r))))
   \<and> (get_entity T (xr_calls x) c = Inl e
      \<longrightarrow> extended_channel collect T x c =
            x\<lparr>xr_inaccessible_channels := xr_inaccessible_channels x @ [(c, exn_str e)],
              xr_by_channel := AList.update c 0 (xr_by_channel x),
              xr_trace := xr_trace x @ [Resolve c], xr_calls := xr_calls x + 1\<rparr>)
   \<and> (get_entity T (xr_calls x) c' = Inr chan
        \<and> collect (xr_calls x + 1) c' chan (xr_rest x) = (found, sent, count, None)
      \<longrightarrow> extended_channel collect T x c' =
            x\<lparr>xr_accessible_channels :=
                xr_accessible_channels x @ [(c', or_default c' (ent_title chan), count)],
              xr_by_channel := AList.update c' count (xr_by_channel x),
              xr_rest := found,
              xr_trace := xr_trace x @ [Resolve c'], xr_calls := xr_calls x + 1 + sent\<rparr>)
   \<and> (get_entity T (xr_calls (extended_telegram_search collect T pre x)) c = Inl e
        \<and> get_entity T (xr_calls (extended_telegram_search collect T (pre @ c # mid) x)) c'
            = Inr chan
        \<and> collect (xr_calls (extended_telegram_search collect T (pre @ c # mid) x) + 1) c' chan
            (xr_rest (extended_telegram_search collect T (pre @ c # mid) x))
            = (found, sent, count, None)
        \<and> c' \<notin> set rest
      \<longrightarrow> map_of (xr_by_channel
              (extended_telegram_search collect T ((pre @ c # mid) @ c' # rest) x)) c'
            = Some count
        \<and> (c', or_default c' (ent_title chan), count)
            \<in> set (xr_accessible_channels
                     (extended_telegram_search collect T ((pre @ c # mid) @ c' # rest) x)))"
proof -
  have summary:
    "(c, py ''inaccessible'', 0) \<in> set (channel_status (run_channels T L (pre @ c # post) r))"
    if "get_entity T (run_calls (run_channels T L pre r)) c = Inl e" and "c \<notin> set post"
    using channel_status_entry [OF niemci_inaccessible [OF that]]
    by (simp add: inaccessible_data_def)
  have old: "(get_entity T (run_calls (run_channels T L pre r)) c = Inl e \<and> c \<notin> set post
      \<longrightarrow> channel_entry (run_channels T L (pre @ c # post) r) c = Some (inaccessible_data c e)
        \<and> (c, py ''inaccessible'', 0) \<in> set (channel_status (run_channels T L (pre @ c # post) r)))
   \<and> resolutions (run_trace (run_channels T L chans r)) =
       resolutions (run_trace r) @ map Resolve chans
   \<and> fst ` set (channels (run_channels T L chans r)) = fst ` set (channels r) \<union> set chans
   \<and> (get_entity T (xr_calls (extended_telegram_search collect T pre x)) c = Inl e
        \<and> c \<notin> set post
      \<longrightarrow> map_of (xr_by_channel (extended_telegram_search collect T (pre @ c # post) x)) c = Some 0
        \<and> (c, exn_str e)
            \<in> set (xr_inaccessible_channels (extended_telegram_search collect T (pre @ c # post) x)))
   \<and> resolutions (xr_trace (extended_telegram_search collect T chans x)) =
       resolutions (xr_trace x) @ map Resolve chans
   \<and> distinct TARGET_CHANNELS \<and> distinct ADDITIONAL_CHANNELS"
    using summary
      niemci_inaccessible [where T = T and L = L and pre = pre and r = r and c = c
                                 and e = e and post = post]
      extended_inaccessible [where T = T and collect = collect and pre = pre and r = x
                               and c = c and e = e and post = post]
    by (simp add: run_channels_resolutions run_channels_keys extended_resolutions
          configured_channels_distinct)
  have step: "get_entity T (run_calls r) c = Inl e
      \<longrightarrow> search_channel T L c qs r =
            r\<lparr>channels := AList.update c (inaccessible_data c e) (channels r),
              run_trace := run_trace r @ [Resolve c], run_calls := run_calls r + 1\<rparr>"
    using search_channel_failed by blast
  have failed: "get_entity T (run_calls (run_channels T L pre r)) c = Inl e
        \<and> c \<notin> set pre \<and> c \<notin> set post
      \<longrightarrow> requests_for c (run_trace (run_channels T L (pre @ c # post) r))
          = requests_for c (run_trace r) @ [Resolve c]"
    by (simp add: run_channels_requests_for)
  have later: "get_entity T (run_calls (run_channels T L pre r)) c = Inl e
        \<and> get_entity T (run_calls (run_channels T L (pre @ c # mid) r)) c' = Inr ent
        \<and> c' \<notin> set (pre @ c # mid) \<and> c' \<notin> set rest
      \<longrightarrow> requests_for c' (run_trace (run_channels T L ((pre @ c # mid) @ c' # rest) r))
            = requests_for c' (run_trace r)
              @ [Resolve c'] @ map (SearchReq c') ALL_QUERIES @ [HistoryReq c' 0]
        \<and> (\<exists>cd. channel_entry (run_channels T L ((pre @ c # mid) @ c' # rest) r) c' = Some cd
              \<and> status cd = py ''accessible'' \<and> channel_id cd = Some (ent_id ent)
              \<and> total_messages cd = length (messages cd)
              \<and> (c', py ''accessible'', length (messages cd))
                  \<in> set (channel_status (run_channels T L ((pre @ c # mid) @ c' # rest) r)))"
  proof (intro impI, elim conjE)
    assume res: "get_entity T (run_calls (run_channels T L (pre @ c # mid) r)) c' = Inr ent"
      and before: "c' \<notin> set (pre @ c # mid)" and after: "c' \<notin> set rest"
    from run_channels_requests_for [where T = T and L = L and r = r, OF before after] res
    have "requests_for c' (run_trace (run_channels T L ((pre @ c # mid) @ c' # rest) r))
            = requests_for c' (run_trace r)
              @ [Resolve c'] @ map (SearchReq c') ALL_QUERIES @ [HistoryReq c' 0]"
      by simp
    with niemci_later_channel [where L = L, OF res after]
    show "requests_for c' (run_trace (run_channels T L ((pre @ c # mid) @ c' # rest) r))
            = requests_for c' (run_trace r)
              @ [Resolve c'] @ map (SearchReq c') ALL_QUERIES @ [HistoryReq c' 0]
        \<and> (\<exists>cd. channel_entry (run_channels T L ((pre @ c # mid) @ c' # rest) r) c' = Some cd
              \<and> status cd = py ''accessible'' \<and> channel_id cd = Some (ent_id ent)
              \<and> total_messages cd = length (messages cd)
              \<and> (c', py ''accessible'', length (messages cd))
                  \<in> set (channel_status (run_channels T L ((pre @ c # mid) @ c' # rest) r)))"
      by blast
  qed
  have xstep: "get_entity T (xr_calls x) c = Inl e
      \<longrightarrow> extended_channel collect T x c =
            x\<lparr>xr_inaccessible_channels := xr_inaccessible_channels x @ [(c, exn_str e)],
              xr_by_channel := AList.update c 0 (xr_by_channel x),
              xr_trace := xr_trace x @ [Resolve c], xr_calls := xr_calls x + 1\<rparr>"
    using extended_channel_failed_step by blast
  have xres: "get_entity T (xr_calls x) c' = Inr chan
        \<and> collect (xr_calls x + 1) c' chan (xr_rest x) = (found, sent, count, None)
      \<longrightarrow> extended_channel collect T x c' =
            x\<lparr>xr_accessible_channels :=
                xr_accessible_channels x @ [(c', or_default c' (ent_title chan), count)],
              xr_by_channel := AList.update c' count (xr_by_channel x),
              xr_rest := found,
              xr_trace := xr_trace x @ [Resolve c'], xr_calls := xr_calls x + 1 + sent\<rparr>"
    using extended_channel_resolved_step
      [where collect = collect and T = T and x = x and c = c' and chan = chan
         and rest = found and sent = sent and count = count]
    by blast
  have xlater: "get_entity T (xr_calls (extended_telegram_search collect T pre x)) c = Inl e
        \<and> get_entity T (xr_calls (extended_telegram_search collect T (pre @ c # mid) x)) c'
            = Inr chan
        \<and> collect (xr_calls (extended_telegram_search collect T (pre @ c # mid) x) + 1) c' chan
            (xr_rest (extended_telegram_search collect T (pre @ c # mid) x))
            = (found, sent, count, None)
        \<and> c' \<notin> set rest
      \<longrightarrow> map_of (xr_by_channel
              (extended_telegram_search collect T ((pre @ c # mid) @ c' # rest) x)) c'
            = Some count
        \<and> (c', or_default c' (ent_title chan), count)
            \<in> set (xr_accessible_channels
                     (extended_telegram_search collect T ((pre @ c # mid) @ c' # rest) x))"
    using extended_later_channel [where T = T and collect = collect and pre = "pre @ c # mid"
        and x = x and c = c' and chan = chan and rest = found and sent = sent and count = count
        and post = rest]
    by blast
  show ?thesis
    apply (insert old step failed later xstep xres xlater)
    apply (elim conjE)
    apply (intro conjI)
    apply assumption+
    done
qed

theorem inaccessible_channel_does_not_stop_the_run_witness:
  "get_entity partial_server (run_calls (run_channels partial_server ascii_lib [py ''@Niemci''] empty_run))
     (py ''@de4ru'') = Inl no_such_channel
   \<and> py ''@de4ru'' \<notin> set [py ''@Niemci''] \<and> py ''@de4ru'' \<notin> set [py ''@de4ru_jobs'']
   \<and> get_entity partial_server
       (run_calls (run_channels partial_server ascii_lib ([py ''@Niemci''] @ py ''@de4ru'' # [])
          empty_run))
       (py ''@de4ru_jobs'') = Inr demo_entity
   \<and> py ''@de4ru_jobs'' \<notin> set ([py ''@Niemci''] @ py ''@de4ru'' # [])
   \<and> channel_entry
       (run_channels partial_server ascii_lib ([py ''@Niemci''] @ py ''@de4ru'' # [py ''@de4ru_jobs''])
          empty_run) (py ''@de4ru'')
     = Some (inaccessible_data (py ''@de4ru'') no_such_channel)
   \<and> requests_for (py ''@de4ru'')
       (run_trace (run_channels partial_server ascii_lib
          ([py ''@Niemci''] @ py ''@de4ru'' # [py ''@de4ru_jobs'']) empty_run))
     = [Resolve (py ''@de4ru'')]
   \<and> requests_for (py ''@de4ru_jobs'')
       (run_trace (run_channels partial_server ascii_lib
          (([py ''@Niemci''] @ py ''@de4ru'' # []) @ py ''@de4ru_jobs'' # []) empty_run))
     = [Resolve (py ''@de4ru_jobs'')] @ map (SearchReq (py ''@de4ru_jobs'')) ALL_QUERIES
       @ [HistoryReq (py ''@de4ru_jobs'') 0]
   \<and> (\<exists>cd. channel_entry (run_channels partial_server ascii_lib
               (([py ''@Niemci''] @ py ''@de4ru'' # []) @ py ''@de4ru_jobs'' # []) empty_run)
             (py ''@de4ru_jobs'') = Some cd
          \<and> status cd = py ''accessible'' \<and> channel_id cd = Some (ent_id demo_entity)
          \<and> total_messages cd = length (messages cd)
          \<and> (py ''@de4ru_jobs'', py ''accessible'', length (messages cd))
              \<in> set (channel_status (run_channels partial_server ascii_lib
                   (([py ''@Niemci''] @ py ''@de4ru'' # []) @ py ''@de4ru_jobs'' # [])
                   empty_run)))
   \<and> get_entity partial_server
       (xr_calls (extended_telegram_search collect_nothing partial_server [py ''@Niemci''] empty_ext_run))
       (py ''@de4ru'') = Inl no_such_channel
   \<and> get_entity partial_server
       (xr_calls (extended_telegram_search collect_nothing partial_server
          ([py ''@Niemci''] @ py ''@de4ru'' # []) empty_ext_run))
       (py ''@de4ru_jobs'') = Inr demo_entity
   \<and> map_of (xr_by_channel
       (extended_telegram_search collect_nothing partial_server
          ([py ''@Niemci''] @ py ''@de4ru'' # [py ''@de4ru_jobs'']) empty_ext_run)) (py ''@de4ru'')
     = Some 0
   \<and> (py ''@de4ru_jobs'', or_default (py ''@de4ru_jobs'') (ent_title demo_entity), 0)
       \<in> set (xr_accessible_channels
           (extended_telegram_search collect_nothing partial_server
              (([py ''@Niemci''] @ py ''@de4ru'' # []) @ py ''@de4ru_jobs'' # []) empty_ext_run))"
proof -
  have fails: "get_entity partial_server n (py ''@de4ru'') = Inl no_such_channel" for n
    by (simp add: partial_server_def)
  have resolves: "get_entity partial_server n (py ''@de4ru_jobs'') = Inr demo_entity" for n
    by (simp add: partial_server_def py_def)
  have names: "py ''@de4ru'' \<notin> set [py ''@de4ru_jobs'']" "py ''@de4ru'' \<notin> set [py ''@Niemci'']"
    "py ''@de4ru_jobs'' \<notin> set ([py ''@Niemci''] @ py ''@de4ru'' # [])"
    "py ''@de4ru_jobs'' \<notin> set []"
    by (simp_all add: py_def)
  have nothing: "collect_nothing n (py ''@de4ru_jobs'') demo_entity u = ((), 24, 0, None)" for n u
    by (simp add: collect_nothing_def)
  have start: "requests_for c (run_trace empty_run) = []" for c
    by (simp add: empty_run_def)
  show ?thesis
    using fails resolves names nothing start
      inaccessible_channel_does_not_stop_the_run
        [where T = partial_server and L = ascii_lib and pre = "[py ''@Niemci'']"
           and r = empty_run and c = "py ''@de4ru''" and e = no_such_channel
           and post = "[py ''@de4ru_jobs'']" and collect = collect_nothing
           and x = empty_ext_run and chans = "[]" and mid = "[]"
           and c' = "py ''@de4ru_jobs''" and ent = demo_entity and rest = "[]"
           and chan = demo_entity and found = "()" and sent = 24 and count = 0
           and qs = "[]"]
    by (simp add: collect_nothing_def)
qed

section \<open>The classifiers\<close>

text \<open>Lower-casing a text that is part of another: the results agree except where a
  capital sigma was.\<close>

lemma lower_from_cong:
  "tolower_full L' = tolower_full L \<Longrightarrow> final_sigma L' = final_sigma L \<Longrightarrow>
   lower_from L' w i s = lower_from L w i s"
  by (induction s arbitrary: i) simp_all

lemma lower_cong:
  "tolower_full L' = tolower_full L \<Longrightarrow> final_sigma L' = final_sigma L \<Longrightarrow> lower L' s = lower L s"
  unfolding lower_def by (rule lower_from_cong)

lemma lower_Nil [simp]: "lower L [] = []"
  by (simp add: lower_def)

lemma lower_from_append:
  "lower_from L w i (xs @ ys) = lower_from L w i xs @ lower_from L w (i + length xs) ys"
  by (induction xs arbitrary: i) simp_all


lemma sigma_rel_refl: "list_all2 sigma_rel xs xs"
  by (simp add: list_all2_refl sigma_rel_def)

lemma lower_from_rel:
  "list_all2 sigma_rel (lower_from L w i s) (lower_from L w' j s)"
proof (induction s arbitrary: i j)
  case Nil
  then show ?case by simp
next
  case (Cons c cs)
  have "list_all2 sigma_rel
          (if c = 931 then [if final_sigma L w i then 962 else 963] else tolower_full L c)
          (if c = 931 then [if final_sigma L w' j then 962 else 963] else tolower_full L c)"
    by (simp add: sigma_rel_refl) (simp add: sigma_rel_def)
  then show ?case
    using Cons.IH by (simp add: list_all2_appendI)
qed

lemma sigma_rel_no_sigma:
  "list_all2 sigma_rel kw kw' \<Longrightarrow> 962 \<notin> set kw \<Longrightarrow> 963 \<notin> set kw \<Longrightarrow> kw' = kw"
  by (induction kw kw' rule: list_all2_induct) (auto simp add: sigma_rel_def)

lemma sublist_rel:
  assumes "list_all2 sigma_rel xs ys" and "sublist kw xs" and "962 \<notin> set kw" and "963 \<notin> set kw"
  shows "sublist kw ys"
proof -
  obtain ps ss where xs: "xs = ps @ kw @ ss"
    using assms(2) unfolding sublist_def by blast
  have "list_all2 sigma_rel (ps @ kw @ ss) ys"
    using assms(1) by (simp only: xs)
  then obtain ps' rest where ys: "ys = ps' @ rest" and r1: "list_all2 sigma_rel (kw @ ss) rest"
    unfolding list_all2_append1 [of _ ps] by blast
  from r1 obtain kw' ss' where rest: "rest = kw' @ ss'" and rel: "list_all2 sigma_rel kw kw'"
    unfolding list_all2_append1 by blast
  have "kw' = kw" using rel assms(3,4) by (rule sigma_rel_no_sigma)
  then have "ys = ps' @ kw @ ss'" using ys rest by simp
  then show ?thesis unfolding sublist_def by blast
qed

lemma sublist_in_middle:
  assumes "sublist kw xs"
  shows "sublist kw (as @ xs @ bs)"
proof -
  obtain p s where "xs = p @ kw @ s"
    using assms unfolding sublist_def by blast
  then have "as @ xs @ bs = (as @ p) @ kw @ (s @ bs)"
    by simp
  then show ?thesis unfolding sublist_def by blast
qed

lemma lower_from_sublist:
  assumes "sublist kw (lower_from L w i t)" and "962 \<notin> set kw" and "963 \<notin> set kw"
  shows "sublist kw (lower_from L w' j (a @ t @ b))"
proof -
  have "list_all2 sigma_rel (lower_from L w i t) (lower_from L w' (j + length a) t)"
    by (rule lower_from_rel)
  then have "sublist kw (lower_from L w' (j + length a) t)"
    using assms by (rule sublist_rel)
  then have "sublist kw (lower_from L w' j a @ lower_from L w' (j + length a) t
               @ lower_from L w' (j + length a + length t) b)"
    by (rule sublist_in_middle)
  then show ?thesis
    by (simp add: lower_from_append)
qed

lemma lower_sublist:
  assumes "sublist t t'" and "str_contains kw (lower L t)" and "962 \<notin> set kw" and "963 \<notin> set kw"
  shows "str_contains kw (lower L t')"
proof -
  obtain a b where t': "t' = a @ t @ b"
    using assms(1) unfolding sublist_def by blast
  have "sublist kw (lower_from L t 0 t)"
    using assms(2) unfolding str_contains_def lower_def .
  then have "sublist kw (lower_from L (a @ t @ b) 0 (a @ t @ b))"
    using assms(3,4) by (rule lower_from_sublist)
  then show ?thesis
    unfolding str_contains_def lower_def t' .
qed

lemma filter_sublist:
  assumes "sublist t t'" and "sublist kw (filter P t)"
  shows "sublist kw (filter P t')"
proof -
  obtain a b where "t' = a @ t @ b"
    using assms(1) unfolding sublist_def by blast
  moreover obtain p s where "filter P t = p @ kw @ s"
    using assms(2) unfolding sublist_def by blast
  ultimately have "filter P t' = (filter P a @ p) @ kw @ (s @ filter P b)"
    by simp
  then show ?thesis unfolding sublist_def by blast
qed


lemma score_table_eq:
  "score_table w tag hay table acc =
     (fst acc + w * int (length (filter (\<lambda>kw. str_contains kw hay) table)),
      snd acc @ map (\<lambda>kw. tag @ kw) (filter (\<lambda>kw. str_contains kw hay) table))"
  unfolding score_table_def
  by (induction table arbitrary: acc) (simp_all add: algebra_simps split: prod.splits)

lemma sum_weights_const:
  "sum_list (map entry_weight (filter (entry_matches L txt) (map (\<lambda>kw. (w, tag, d, kw)) table))) =
     w * int (length (filter (\<lambda>kw. entry_matches L txt (w, tag, d, kw)) table))"
  by (induction table) (simp_all add: algebra_simps)

lemma names_const:
  "map entry_name (filter (entry_matches L txt) (map (\<lambda>kw. (w, tag, d, kw)) table)) =
     map (\<lambda>kw. tag @ kw) (filter (\<lambda>kw. entry_matches L txt (w, tag, d, kw)) table)"
  by (induction table) simp_all

lemma score_message_entries:
  "relevance_score (score_message L txt) =
     min (sum_list (map entry_weight (filter (entry_matches L txt) score_entries))) 20"
  "indicators (score_message L txt) =
     map entry_name (filter (entry_matches L txt) score_entries)"
  by (simp_all add: score_message_def Let_def score_table_eq score_entries_def
        sum_weights_const names_const add.assoc)

lemma weights_mono:
  "(\<And>e. e \<in> set E \<Longrightarrow> M1 e \<Longrightarrow> M2 e) \<Longrightarrow> (\<And>e. e \<in> set E \<Longrightarrow> 0 \<le> entry_weight e) \<Longrightarrow>
   sum_list (map entry_weight (filter M1 E)) \<le> sum_list (map entry_weight (filter M2 E))"
proof (induction E)
  case Nil
  then show ?case by simp
next
  case (Cons e E)
  have "sum_list (map entry_weight (filter M1 E)) \<le> sum_list (map entry_weight (filter M2 E))"
    by (rule Cons.IH) (simp_all add: Cons.prems)
  moreover have "0 \<le> entry_weight e" "M1 e \<Longrightarrow> M2 e"
    by (simp_all add: Cons.prems)
  ultimately show ?case by auto
qed

lemma names_subset:
  assumes "distinct (map name E)"
    and "set (map name (filter M1 E)) \<subseteq> set (map name (filter M2 E))"
    and "e \<in> set E" and "M1 e"
  shows "M2 e"
proof -
  have "name e \<in> set (map name (filter M2 E))"
    using assms(2-4) by auto
  then obtain e' where e': "e' \<in> set E" "M2 e'" "name e' = name e"
    by auto
  have "inj_on name (set E)"
    using assms(1) by (simp add: distinct_map)
  then have "e' = e"
    using e' assms(3) by (auto dest: inj_onD)
  then show ?thesis using e' by simp
qed

lemma score_entries_weights: "e \<in> set score_entries \<Longrightarrow> 0 \<le> entry_weight e"
  by (auto simp add: score_entries_def)

lemma score_entries_distinct: "distinct (map entry_name score_entries)"
  by (simp add: score_entries_def known_phones_def high_entities_def person_names_def
        locations_def construction_def py_def)


lemma score_entries_no_sigma:
  "list_all (\<lambda>e. fst (snd (snd e)) \<or> no_sigma (snd (snd (snd e)))) score_entries"
  by (simp add: score_entries_def known_phones_def high_entities_def person_names_def
        locations_def construction_def py_def no_sigma_def)

lemma red_flag_keywords_no_sigma: "list_all no_sigma RED_FLAG_KEYWORDS"
  by (simp add: RED_FLAG_KEYWORDS_def py_def no_sigma_def)

lemma entry_matches_mono:
  assumes "sublist t t'" and "e \<in> set score_entries" and "entry_matches L t e"
  shows "entry_matches L t' e"
proof -
  obtain w tag d kw where e: "e = (w, tag, d, kw)"
    by (cases e) auto
  have ns: "d \<or> no_sigma kw"
    using score_entries_no_sigma assms(2) unfolding list_all_iff e by fastforce
  show ?thesis
  proof (cases d)
    case True
    then show ?thesis
      using assms(1,3) unfolding e by (simp add: str_contains_def filter_sublist)
  next
    case False
    then have "962 \<notin> set kw" "963 \<notin> set kw"
      using ns by (simp_all add: no_sigma_def)
    then show ?thesis
      using assms(1,3) False unfolding e by (simp add: lower_sublist)
  qed
qed

lemma relevance_mono_matches:
  assumes "\<And>e. e \<in> set score_entries \<Longrightarrow> entry_matches L t1 e \<Longrightarrow> entry_matches L' t2 e"
  shows "relevance_score (score_message L t1) \<le> relevance_score (score_message L' t2)"
proof -
  have "sum_list (map entry_weight (filter (entry_matches L t1) score_entries))
          \<le> sum_list (map entry_weight (filter (entry_matches L' t2) score_entries))"
    by (rule weights_mono) (simp_all add: assms score_entries_weights)
  then show ?thesis
    by (simp add: score_message_entries)
qed

lemma relevance_mono_indicators:
  assumes "set (indicators (score_message L t1)) \<subseteq> set (indicators (score_message L t2))"
  shows "relevance_score (score_message L t1) \<le> relevance_score (score_message L t2)"
proof (rule relevance_mono_matches)
  fix e assume e: "e \<in> set score_entries" and hit: "entry_matches L t1 e"
  have sub: "set (map entry_name (filter (entry_matches L t1) score_entries))
               \<subseteq> set (map entry_name (filter (entry_matches L t2) score_entries))"
    using assms by (simp only: score_message_entries)
  show "entry_matches L t2 e"
    by (rule names_subset [OF score_entries_distinct sub e hit])
qed

lemma relevance_mono_sublist:
  "sublist t1 t2 \<Longrightarrow> relevance_score (score_message L t1) \<le> relevance_score (score_message L t2)"
  by (rule relevance_mono_matches) (rule entry_matches_mono)

lemma filter_length_mono:
  "(\<And>x. x \<in> set xs \<Longrightarrow> P x \<Longrightarrow> Q x) \<Longrightarrow> length (filter P xs) \<le> length (filter Q xs)"
  by (induction xs) auto

lemma red_flags_mono_set:
  assumes "set (red_flags (classify_message L a1)) \<subseteq> set (red_flags (classify_message L a2))"
  shows "red_flag_score (classify_message L a1) \<le> red_flag_score (classify_message L a2)"
proof -
  let ?P = "\<lambda>a kw. str_contains kw (case a of None \<Rightarrow> [] | Some t \<Rightarrow> if t = [] then [] else lower L t)"
  have "length (filter (?P a1) RED_FLAG_KEYWORDS) \<le> length (filter (?P a2) RED_FLAG_KEYWORDS)"
  proof (rule filter_length_mono)
    fix x assume "x \<in> set RED_FLAG_KEYWORDS" and "?P a1 x"
    then have "x \<in> set (filter (?P a2) RED_FLAG_KEYWORDS)"
      using assms by (auto simp add: classify_message_def Let_def)
    then show "?P a2 x" by simp
  qed
  then show ?thesis
    by (simp add: classify_message_def Let_def)
qed

lemma red_flags_mono_sublist:
  assumes "sublist t1 t2"
  shows "red_flag_score (classify_message L (Some t1)) \<le> red_flag_score (classify_message L (Some t2))"
proof -
  have "length (filter (\<lambda>kw. str_contains kw (lower L t1)) RED_FLAG_KEYWORDS)
          \<le> length (filter (\<lambda>kw. str_contains kw (lower L t2)) RED_FLAG_KEYWORDS)"
  proof (rule filter_length_mono)
    fix x assume "x \<in> set RED_FLAG_KEYWORDS" and hit: "str_contains x (lower L t1)"
    then have "962 \<notin> set x" "963 \<notin> set x"
      using red_flag_keywords_no_sigma unfolding list_all_iff no_sigma_def by blast+
    with assms hit show "str_contains x (lower L t2)"
      by (rule lower_sublist)
  qed
  moreover have "(if t = [] then [] else lower L t) = lower L t" for t
    by simp
  ultimately show ?thesis
    by (simp add: classify_message_def Let_def)
qed

lemma red_flags_eq:
  "red_flags (classify_message L (Some txt)) =
     filter (\<lambda>kw. str_contains kw (lower L txt)) RED_FLAG_KEYWORDS"
  by (simp add: classify_message_def Let_def)

lemma classify_message_cong:
  assumes "tolower_full L' = tolower_full L" and "final_sigma L' = final_sigma L"
  shows "classify_message L' arg = classify_message L arg"
proof -
  have low: "lower L' s = lower L s" for s
    using assms by (rule lower_cong)
  show ?thesis
    unfolding classify_message_def by (simp only: low)
qed

lemma entry_matches_cong:
  assumes "tolower_full L' = tolower_full L" and "final_sigma L' = final_sigma L"
    and "unicode_decimal L' = unicode_decimal L"
  shows "entry_matches L' txt = entry_matches L txt"
proof -
  have low: "lower L' s = lower L s" for s
    using assms(1,2) by (rule lower_cong)
  show ?thesis
  proof (rule ext)
    fix e :: "int \<times> pystr \<times> bool \<times> pystr"
    show "entry_matches L' txt e = entry_matches L txt e"
      by (cases e) (simp add: low assms(3))
  qed
qed

text \<open>Two texts on which the model is evaluated.\<close>

lemma itaar_indicators:
  "indicators (score_message ascii_lib (py ''ITAAR'')) = [py ''ENTITY:'' @ py ''itaar'']"
  "indicators (score_message ascii_lib (py ''ITAAR STRABAG'')) =
     [py ''ENTITY:'' @ py ''itaar'', py ''CONSTRUCTION:'' @ py ''strabag'']"
  unfolding score_message_entries
  by (simp_all add: score_entries_def known_phones_def high_entities_def person_names_def
        locations_def construction_def py_def str_contains_def sublist_code ascii_lib_def
        lower_def)

lemma itaar_red_flags:
  "red_flags (classify_message ascii_lib (Some (py ''ITAAR''))) = [py ''itaar'']"
  "red_flags (classify_message ascii_lib (Some (py ''ITAAR STRABAG''))) =
     [py ''itaar'', py ''strabag'']"
  unfolding red_flags_eq
  by (simp_all add: RED_FLAG_KEYWORDS_def py_def str_contains_def sublist_code ascii_lib_def
        lower_def)

lemma itaar_sublist: "sublist (py ''ITAAR'') (py ''ITAAR STRABAG'')"
  by (simp add: py_def sublist_code)

text \<open>
  C6.  The relevance score of \<open>score_message\<close> is an integer between 0 and 20 and the
  red-flag score of \<open>classify_message\<close> an integer between 0 and 10.  Both are monotone
  in the indicators found: if every indicator found in one text is found in another,
  the score of the first is at most the score of the second.  And adding to a text
  never lowers its score: if a text occurs in another as a contiguous part (so the
  other is the text with anything, an indicator keyword for instance, put before or
  after it), its score is at most the score of the other.
\<close>

theorem score_bounded_and_monotone:
  "0 \<le> relevance_score (score_message L txt) \<and> relevance_score (score_message L txt) \<le> 20
   \<and> 0 \<le> red_flag_score (classify_message L arg) \<and> red_flag_score (classify_message L arg) \<le> 10
   \<and> (set (indicators (score_message L t1)) \<subseteq> set (indicators (score_message L t2))
      \<longrightarrow> relevance_score (score_message L t1) \<le> relevance_score (score_message L t2))
   \<and> (set (red_flags (classify_message L a1)) \<subseteq> set (red_flags (classify_message L a2))
      \<longrightarrow> red_flag_score (classify_message L a1) \<le> red_flag_score (classify_message L a2))
   \<and> (sublist t1 t2
      \<longrightarrow> relevance_score (score_message L t1) \<le> relevance_score (score_message L t2)
        \<and> red_flag_score (classify_message L (Some t1))
            \<le> red_flag_score (classify_message L (Some t2)))"
proof -
  have "0 \<le> sum_list (map entry_weight (filter (entry_matches L txt) score_entries))"
    by (rule sum_list_nonneg) (auto dest: score_entries_weights)
  then have "0 \<le> relevance_score (score_message L txt)"
    and "relevance_score (score_message L txt) \<le> 20"
    by (simp_all add: score_message_entries)
  moreover have "0 \<le> red_flag_score (classify_message L arg)"
    and "red_flag_score (classify_message L arg) \<le> 10"
    by (simp_all add: classify_message_def Let_def)
  ultimately show ?thesis
    using relevance_mono_indicators [of L t1 t2] red_flags_mono_set [of L a1 a2]
      relevance_mono_sublist [of t1 t2 L] red_flags_mono_sublist [of t1 t2 L]
    by blast
qed

theorem score_bounded_and_monotone_witness:
  "set (indicators (score_message ascii_lib (py ''ITAAR'')))
     \<subseteq> set (indicators (score_message ascii_lib (py ''ITAAR STRABAG'')))
   \<and> set (red_flags (classify_message ascii_lib (Some (py ''ITAAR''))))
     \<subseteq> set (red_flags (classify_message ascii_lib (Some (py ''ITAAR STRABAG''))))
   \<and> sublist (py ''ITAAR'') (py ''ITAAR STRABAG'')
   \<and> relevance_score (score_message ascii_lib (py ''ITAAR''))
       \<le> relevance_score (score_message ascii_lib (py ''ITAAR STRABAG''))
   \<and> red_flag_score (classify_message ascii_lib (Some (py ''ITAAR'')))
       \<le> red_flag_score (classify_message ascii_lib (Some (py ''ITAAR STRABAG'')))"
proof -
  have "set (indicators (score_message ascii_lib (py ''ITAAR'')))
     \<subseteq> set (indicators (score_message ascii_lib (py ''ITAAR STRABAG'')))"
    by (simp only: itaar_indicators) simp
  moreover have "set (red_flags (classify_message ascii_lib (Some (py ''ITAAR''))))
     \<subseteq> set (red_flags (classify_message ascii_lib (Some (py ''ITAAR STRABAG''))))"
    by (simp only: itaar_red_flags) simp
  ultimately show ?thesis
    using itaar_sublist
      score_bounded_and_monotone
        [where L = ascii_lib and ?t1.0 = "py ''ITAAR''" and ?t2.0 = "py ''ITAAR STRABAG''"
           and ?a1.0 = "Some (py ''ITAAR'')" and ?a2.0 = "Some (py ''ITAAR STRABAG'')"]
    by blast
qed

lemma score_message_call_string:
  "score_message_call L (Some t) = Inr (score_message L t)"
  by (simp add: score_message_call_def score_message_def str_lower_def re_sub_non_digits_def
      extract_phones_call_def truthy_def Let_def)

lemma score_message_call_None: "score_message_call L None = Inl TypeError"
  by (simp add: score_message_call_def re_sub_non_digits_def truthy_def)

lemma phones_extracted_eq: "phones_extracted (score_message L t) = extract_phones L t"
  by (simp add: score_message_def Let_def)

lemma findall_two_phones_all:
  "concat (map (\<lambda>pattern. findall_two_phones pattern two_phones_text) PHONE_PATTERNS)
   = [py ''7494401874'', py ''15777103445'']"
  by (simp add: PHONE_PATTERNS_def findall_two_phones_def py_def)

text \<open>
  C7, as the claim states it.  Two processes that differ in nothing but the order in
  which a set is iterated (the order follows the hashes of the strings, which change
  with the hash seed of the process) extract from the same text the same two phone
  numbers in different orders: the lists \<open>phones_extracted\<close> are not identical.
\<close>

theorem phone_list_depends_on_set_order_counterexample:
  "tolower_full second_process = tolower_full first_process
   \<and> final_sigma second_process = final_sigma first_process
   \<and> toupper_full second_process = toupper_full first_process
   \<and> unicode_decimal second_process = unicode_decimal first_process
   \<and> re_findall second_process = re_findall first_process
   \<and> sha256_hexdigest second_process = sha256_hexdigest first_process
   \<and> score_message_call first_process (Some two_phones_text)
       = Inr (score_message first_process two_phones_text)
   \<and> score_message_call second_process (Some two_phones_text)
       = Inr (score_message second_process two_phones_text)
   \<and> phones_extracted (score_message first_process two_phones_text)
       = [py ''7494401874'', py ''15777103445'']
   \<and> phones_extracted (score_message second_process two_phones_text)
       = [py ''15777103445'', py ''7494401874'']
   \<and> phones_extracted (score_message second_process two_phones_text)
       \<noteq> phones_extracted (score_message first_process two_phones_text)"
proof -
  have 1: "phones_extracted (score_message first_process two_phones_text)
       = [py ''7494401874'', py ''15777103445'']"
    unfolding phones_extracted_eq extract_phones_def
    by (simp add: first_process_def findall_two_phones_all) (simp add: ascii_lib_def py_def)
  have 2: "phones_extracted (score_message second_process two_phones_text)
       = [py ''15777103445'', py ''7494401874'']"
    unfolding phones_extracted_eq extract_phones_def
    by (simp add: second_process_def findall_two_phones_all) (simp add: py_def)
  have 3: "[py ''15777103445'', py ''7494401874''] \<noteq> [py ''7494401874'', py ''15777103445'']"
    by (simp add: py_def)
  show ?thesis
    unfolding 1 2 using 3
    by (simp add: first_process_def second_process_def score_message_call_string)
qed

text \<open>
  C7, amended.  On every string, the empty string included, \<open>score_message\<close> returns
  and raises nothing (on \<open>None\<close> it raises \<open>TypeError\<close>); \<open>classify_message\<close> has no
  statement that can raise, and treats \<open>None\<close> as the empty string.  The result is a
  function of the text and of the library alone.  The language, the recruitment type,
  the red flags and their score, the relevance score and the indicators use of the
  library only the case mapping and the class of the decimal digits: two calls on the
  same text give the same values, in every process.  The list of the phone numbers
  extracted holds every match of a pattern exactly once; two calls give the same list
  if the sets of the two calls are iterated in the same order, as in one process, and
  otherwise lists with the same elements and the same length, possibly in another
  order.
\<close>

theorem classifier_total_and_deterministic:
  "score_message_call L (Some t) = Inr (score_message L t)
   \<and> score_message_call L None = Inl TypeError
   \<and> (tolower_full K = tolower_full L \<and> final_sigma K = final_sigma L
        \<and> unicode_decimal K = unicode_decimal L
      \<longrightarrow> relevance_score (score_message K t) = relevance_score (score_message L t)
        \<and> indicators (score_message K t) = indicators (score_message L t))
   \<and> (re_findall K = re_findall L \<and> set_order K = set_order L
      \<longrightarrow> phones_extracted (score_message K t) = phones_extracted (score_message L t))
   \<and> (re_findall K = re_findall L
        \<and> (\<forall>xs. set (set_order L xs) = set xs \<and> distinct (set_order L xs))
        \<and> (\<forall>xs. set (set_order K xs) = set xs \<and> distinct (set_order K xs))
      \<longrightarrow> set (phones_extracted (score_message K t))
            = set (phones_extracted (score_message L t))
        \<and> length (phones_extracted (score_message K t))
            = length (phones_extracted (score_message L t))
        \<and> distinct (phones_extracted (score_message L t))
        \<and> set (phones_extracted (score_message L t))
            = (\<Union>pattern \<in> set PHONE_PATTERNS. set (re_findall L pattern t)))
   \<and> (tolower_full K = tolower_full L \<and> final_sigma K = final_sigma L
      \<longrightarrow> classify_message K arg = classify_message L arg)
   \<and> classify_message L None = classify_message L (Some [])"
proof -
  have "relevance_score (score_message K t) = relevance_score (score_message L t)
        \<and> indicators (score_message K t) = indicators (score_message L t)"
    if "tolower_full K = tolower_full L" "final_sigma K = final_sigma L"
       "unicode_decimal K = unicode_decimal L"
    using entry_matches_cong [OF that] by (simp add: score_message_entries)
  moreover have "phones_extracted (score_message K t) = phones_extracted (score_message L t)"
    if "re_findall K = re_findall L" "set_order K = set_order L"
    using that by (simp add: phones_extracted_eq extract_phones_def)
  moreover have "set (phones_extracted (score_message K t))
            = set (phones_extracted (score_message L t))
        \<and> length (phones_extracted (score_message K t))
            = length (phones_extracted (score_message L t))
        \<and> distinct (phones_extracted (score_message L t))
        \<and> set (phones_extracted (score_message L t))
            = (\<Union>pattern \<in> set PHONE_PATTERNS. set (re_findall L pattern t))"
    if f: "re_findall K = re_findall L"
      and l: "\<forall>xs. set (set_order L xs) = set xs \<and> distinct (set_order L xs)"
      and k: "\<forall>xs. set (set_order K xs) = set xs \<and> distinct (set_order K xs)"
  proof -
    have s: "set (extract_phones K t) = set (extract_phones L t)"
      using f l k by (simp add: extract_phones_def)
    have dk: "distinct (extract_phones K t)" and dl: "distinct (extract_phones L t)"
      using l k by (simp_all add: extract_phones_def)
    from s dk dl have "length (extract_phones K t) = length (extract_phones L t)"
      using distinct_card by metis
    with s dl l show ?thesis
      by (simp add: phones_extracted_eq) (simp add: extract_phones_def)
  qed
  moreover have "classify_message L None = classify_message L (Some [])"
    by (simp add: classify_message_def)
  ultimately show ?thesis
    using classify_message_cong [of K L arg] score_message_call_string [of L t]
      score_message_call_None [of L]
    by blast
qed

theorem classifier_total_and_deterministic_witness:
  "tolower_full second_process = tolower_full first_process
   \<and> final_sigma second_process = final_sigma first_process
   \<and> unicode_decimal second_process = unicode_decimal first_process
   \<and> re_findall second_process = re_findall first_process
   \<and> set_order (first_process\<lparr>sha256_hexdigest := rev\<rparr>) = set_order first_process
   \<and> re_findall (first_process\<lparr>sha256_hexdigest := rev\<rparr>) = re_findall first_process
   \<and> (\<forall>xs. set (set_order first_process xs) = set xs \<and> distinct (set_order first_process xs))
   \<and> (\<forall>xs. set (set_order second_process xs) = set xs
             \<and> distinct (set_order second_process xs))
   \<and> score_message_call first_process (Some two_phones_text)
       = Inr (score_message first_process two_phones_text)
   \<and> indicators (score_message second_process two_phones_text)
       = indicators (score_message first_process two_phones_text)
   \<and> phones_extracted (score_message (first_process\<lparr>sha256_hexdigest := rev\<rparr>) two_phones_text)
       = phones_extracted (score_message first_process two_phones_text)
   \<and> set (phones_extracted (score_message second_process two_phones_text))
       = set (phones_extracted (score_message first_process two_phones_text))
   \<and> length (phones_extracted (score_message second_process two_phones_text))
       = length (phones_extracted (score_message first_process two_phones_text))
   \<and> set (phones_extracted (score_message first_process two_phones_text))
       = {py ''7494401874'', py ''15777103445''}
   \<and> classify_message second_process (Some two_phones_text)
       = classify_message first_process (Some two_phones_text)"
proof -
  have 1: "tolower_full second_process = tolower_full first_process"
    "final_sigma second_process = final_sigma first_process"
    "unicode_decimal second_process = unicode_decimal first_process"
    "re_findall second_process = re_findall first_process"
    "set_order (first_process\<lparr>sha256_hexdigest := rev\<rparr>) = set_order first_process"
    "re_findall (first_process\<lparr>sha256_hexdigest := rev\<rparr>) = re_findall first_process"
    by (simp_all add: first_process_def second_process_def)
  have 2: "\<forall>xs. set (set_order first_process xs) = set xs \<and> distinct (set_order first_process xs)"
    "\<forall>xs. set (set_order second_process xs) = set xs \<and> distinct (set_order second_process xs)"
    by (simp_all add: first_process_def second_process_def ascii_lib_def)
  have 3: "(\<Union>pattern \<in> set PHONE_PATTERNS. set (re_findall first_process pattern two_phones_text))
           = {py ''7494401874'', py ''15777103445''}"
  proof -
    have "(\<Union>pattern \<in> set PHONE_PATTERNS.
             set (re_findall first_process pattern two_phones_text))
          = set (concat (map (\<lambda>pattern. findall_two_phones pattern two_phones_text)
                           PHONE_PATTERNS))"
      by (simp add: first_process_def)
    also have "\<dots> = {py ''7494401874'', py ''15777103445''}"
      unfolding findall_two_phones_all by simp
    finally show ?thesis .
  qed
  show ?thesis
    using classifier_total_and_deterministic
        [where L = first_process and K = second_process and t = two_phones_text
           and arg = "Some two_phones_text"]
      classifier_total_and_deterministic
        [where L = first_process and K = "first_process\<lparr>sha256_hexdigest := rev\<rparr>"
           and t = two_phones_text]
      1 2 3
    by simp
qed

section \<open>Normalization: identity of a document and the shapes that normalize\<close>

lemma map_raising_eq_Inr:
  "(map_raising f xs = Inr ys) = list_all2 (\<lambda>x y. f x = Inr y) xs ys"
proof (induction xs arbitrary: ys)
  case Nil
  show ?case by auto
next
  case (Cons x xs)
  show ?case
    by (cases ys) (auto simp add: bind_eq_Inr Cons.IH)
qed

lemma map_raising_eq_Inl:
  "map_raising f xs = Inl e \<Longrightarrow> \<exists>x\<in>set xs. f x = Inl e"
proof (induction xs)
  case Nil
  then show ?case by simp
next
  case (Cons x xs)
  then show ?case by (auto simp add: bind_eq_Inl)
qed

lemma map_raising_returns:
  "(\<exists>ys. map_raising f xs = Inr ys) = (\<forall>x\<in>set xs. \<exists>y. f x = Inr y)"
proof (induction xs)
  case Nil
  show ?case by simp
next
  case (Cons x xs)
  show ?case
  proof
    assume "\<exists>ys. map_raising f (x # xs) = Inr ys"
    then obtain ys where "map_raising f (x # xs) = Inr ys" ..
    then obtain y zs where "f x = Inr y" and "map_raising f xs = Inr zs"
      by (auto simp add: bind_eq_Inr)
    with Cons.IH show "\<forall>x\<in>set (x # xs). \<exists>y. f x = Inr y" by auto
  next
    assume a: "\<forall>x\<in>set (x # xs). \<exists>y. f x = Inr y"
    then obtain y where y: "f x = Inr y" by auto
    from a Cons.IH obtain zs where "map_raising f xs = Inr zs" by auto
    with y show "\<exists>ys. map_raising f (x # xs) = Inr ys" by simp
  qed
qed

lemma map_raising_length:
  "map_raising f xs = Inr ys \<Longrightarrow> length ys = length xs"
  by (simp add: map_raising_eq_Inr list_all2_lengthD)

lemma enumerate_from_length [simp]: "length (enumerate_from k xs) = length xs"
  by (simp add: enumerate_from_def)

lemma enumerate_from_map_snd [simp]: "map snd (enumerate_from k xs) = xs"
  by (simp add: enumerate_from_def)

lemma enumerate_from_set_snd: "snd ` set (enumerate_from k xs) = set xs"
  using enumerate_from_map_snd [of k xs] by (metis set_map)


lemma map_raising_enumerate_returns:
  assumes "\<And>idx x. (\<exists>y. f (idx, x) = Inr y) = P x"
  shows "(\<exists>ys. map_raising f (enumerate_from k xs) = Inr ys) = list_all P xs"
proof -
  have "(\<forall>p\<in>set (enumerate_from k xs). \<exists>y. f p = Inr y)
        = (\<forall>p\<in>set (enumerate_from k xs). P (snd p))"
    using assms by (metis prod.collapse)
  also have "\<dots> = (\<forall>x\<in>snd ` set (enumerate_from k xs). P x)"
    by blast
  also have "\<dots> = list_all P xs"
    by (simp add: enumerate_from_set_snd list_all_iff)
  finally show ?thesis
    by (simp add: map_raising_returns)
qed



declare dumps.simps [simp del]

text \<open>What each loop body returns.\<close>

lemma py_get_returns: "(\<exists>v. py_get x key dflt = Inr v) = is_dict x"
  by (cases x) (simp_all add: is_dict_def)

lemma py_get_not_dict: "\<not> is_dict x \<Longrightarrow> py_get x key dflt = Inl AttributeError"
  by (cases x) (simp_all add: is_dict_def)

lemma organic_result_doc_returns:
  "(\<exists>doc. organic_result_doc L now f rid q loc (idx, r) = Inr doc) = is_dict r"
  by (cases r) (simp_all add: organic_result_doc_def is_dict_def)

lemma related_question_doc_returns:
  "(\<exists>doc. related_question_doc L now f rid q loc (idx, r) = Inr doc) = is_dict r"
  by (cases r) (simp_all add: related_question_doc_def is_dict_def)

lemma related_search_doc_returns:
  "(\<exists>doc. related_search_doc L now f rid q loc (idx, r) = Inr doc) = is_dict r"
  by (cases r) (simp_all add: related_search_doc_def is_dict_def)

lemma telegram_message_doc_returns:
  "(\<exists>doc. telegram_message_doc L F now f rid sq cs (idx, r) = Inr doc) = is_dict r"
  by (cases r) (simp_all add: telegram_message_doc_def is_dict_def)

lemma generic_item_doc_returns:
  "(\<exists>doc. generic_item_doc L now f rid (idx, r) = Inr doc) = is_dict r"
  by (cases r) (simp_all add: generic_item_doc_def is_dict_def)

lemma iterable_of_dicts_iff:
  "iterable_of_dicts v = (\<exists>items. py_iter v = Inr items \<and> list_all is_dict items)"
  by (cases "py_iter v") (simp_all add: iterable_of_dicts_def)

lemma has_len_iff: "has_len v = (\<exists>n. py_len v = Inr n)"
  by (cases "py_len v") (simp_all add: has_len_def)

















text \<open>The loops.\<close>

lemma loop_returns:
  assumes "\<And>idx x. (\<exists>y. g (idx, x) = Inr y) = is_dict x"
  shows "(\<exists>docs. bind (py_iter v) (\<lambda>l. map_raising g (enumerate_from 0 l)) = Inr docs)
         = iterable_of_dicts v"
  by (simp add: bind_returns iterable_of_dicts_iff
      map_raising_enumerate_returns [where f = g and P = is_dict, OF assms])

lemma organic_result_doc_loop_returns:
  "(\<exists>docs. map_raising (organic_result_doc L now f rid q loc) (enumerate_from k xs) = Inr docs)
   = list_all is_dict xs"
  by (rule map_raising_enumerate_returns) (rule organic_result_doc_returns)

lemma related_question_doc_loop_returns:
  "(\<exists>docs. map_raising (related_question_doc L now f rid q loc) (enumerate_from k xs) = Inr docs)
   = list_all is_dict xs"
  by (rule map_raising_enumerate_returns) (rule related_question_doc_returns)

lemma related_search_doc_loop_returns:
  "(\<exists>docs. map_raising (related_search_doc L now f rid q loc) (enumerate_from k xs) = Inr docs)
   = list_all is_dict xs"
  by (rule map_raising_enumerate_returns) (rule related_search_doc_returns)

lemma telegram_message_doc_loop_returns:
  "(\<exists>docs. map_raising (telegram_message_doc L F now f rid sq cs) (enumerate_from k xs) = Inr docs)
   = list_all is_dict xs"
  by (rule map_raising_enumerate_returns) (rule telegram_message_doc_returns)

lemma generic_item_doc_loop_returns:
  "(\<exists>docs. map_raising (generic_item_doc L now f rid) (enumerate_from k xs) = Inr docs)
   = list_all is_dict xs"
  by (rule map_raising_enumerate_returns) (rule generic_item_doc_returns)





lemma normalize_serp_api_data_returns:
  "(\<exists>docs. normalize_serp_api_data L now d f rid = Inr docs)
   = (is_dict (dict_get d (py ''search_parameters'') (JObj []))
      \<and> iterable_of_dicts (dict_get d (py ''organic_results'') (JArr []))
      \<and> iterable_of_dicts (dict_get d (py ''related_questions'') (JArr []))
      \<and> iterable_of_dicts (dict_get d (py ''related_searches'') (JArr [])))"
  unfolding normalize_serp_api_data_def
  by (simp add: bind_returns py_get_returns iterable_of_dicts_iff
      organic_result_doc_loop_returns
      related_question_doc_loop_returns
      related_search_doc_loop_returns) blast





lemma normalize_telegram_osint_data_returns:
  "(\<exists>docs. normalize_telegram_osint_data L F now d f rid = Inr docs)
   = (iterable_of_dicts (dict_get d (py ''messages'') (JArr []))
      \<and> (py_truthy (dict_get d (py ''messages'') (JArr []))
         \<or> has_len (dict_get d (py ''channels_searched'') (JArr []))
           \<and> has_len (dict_get d (py ''search_queries'') (JArr []))))"
  unfolding normalize_telegram_osint_data_def Let_def
  by (cases "py_truthy (dict_get d (py ''messages'') (JArr []))")
     (simp_all add: bind_returns iterable_of_dicts_iff has_len_iff
        telegram_message_doc_loop_returns, blast)

lemma normalize_comprehensive_report_doc:
  "\<exists>doc. normalize_comprehensive_report L F now d f rid = Inr [doc]
     \<and> document_id doc = Some (content_hash L (JObj d))
     \<and> raw_source doc = Some (JObj d)
     \<and> source_file doc = Some (JStr f)"
  by (simp add: normalize_comprehensive_report_def document_id_def raw_source_def source_file_def
      py_def)

text \<open>The generic normalizer.\<close>

lemma iterable_of_dicts_single [simp]: "iterable_of_dicts (JArr [JObj d])"
  by (simp add: iterable_of_dicts_def is_dict_def)

lemma wrapped_items_returns:
  "(\<exists>items. wrapped_items d = Inr items \<and> iterable_of_dicts items)
   = (case map_of d (py ''articles'') of
        None \<Rightarrow> True
      | Some articles \<Rightarrow>
          (case articles of
             JObj a \<Rightarrow>
               (case map_of a (py ''results'') of
                  None \<Rightarrow> True
                | Some items \<Rightarrow> iterable_of_dicts items)
           | JArr xs \<Rightarrow> JStr (py ''results'') \<notin> set xs
           | JStr s \<Rightarrow> \<not> str_contains (py ''results'') s
           | _ \<Rightarrow> False))"
proof (cases "map_of d (py ''articles'')")
  case None
  then show ?thesis by (simp add: wrapped_items_def dict_has_def)
next
  case (Some articles)
  show ?thesis
  proof (cases articles)
    case (JObj a)
    with Some show ?thesis
      by (cases "map_of a (py ''results'')") (simp_all add: wrapped_items_def dict_has_def)
  qed (use Some in \<open>simp_all add: wrapped_items_def dict_has_def\<close>)
qed

lemma wrapped_items_error: "wrapped_items d = Inl e \<Longrightarrow> e = TypeError"
proof (cases "map_of d (py ''articles'')")
  case None
  assume "wrapped_items d = Inl e"
  with None show ?thesis by (simp add: wrapped_items_def dict_has_def)
next
  case (Some articles)
  assume e: "wrapped_items d = Inl e"
  show ?thesis
  proof (cases articles)
    case (JObj a)
    with Some e show ?thesis
      by (cases "map_of a (py ''results'')") (simp_all add: wrapped_items_def dict_has_def)
  qed (use Some e in \<open>simp_all add: wrapped_items_def dict_has_def split: if_splits\<close>)
qed

lemma normalize_items_returns:
  "(\<exists>docs. normalize_items L now f rid items = Inr docs) = iterable_of_dicts items"
  unfolding normalize_items_def
  by (rule loop_returns) (rule generic_item_doc_returns)



lemma normalize_items_list_length:
  "normalize_items L now f rid (JArr xs) = Inr docs \<Longrightarrow> length docs = length xs"
  by (simp add: normalize_items_def map_raising_length)

text \<open>The exceptions.\<close>

lemma py_get_error: "py_get v key dflt = Inl e \<Longrightarrow> e = AttributeError"
  by (cases v) simp_all

lemma py_iter_error: "py_iter v = Inl e \<Longrightarrow> e = TypeError"
  by (cases v) simp_all

lemma py_len_error: "py_len v = Inl e \<Longrightarrow> e = TypeError"
  by (cases v) simp_all

lemma py_in_error: "py_in key v = Inl e \<Longrightarrow> e = TypeError"
  by (cases v) simp_all

lemma organic_result_doc_error:
  "organic_result_doc L now f rid q loc p = Inl e \<Longrightarrow> e = AttributeError"
  by (cases p; cases "snd p") (simp_all add: organic_result_doc_def)

lemma related_question_doc_error:
  "related_question_doc L now f rid q loc p = Inl e \<Longrightarrow> e = AttributeError"
  by (cases p; cases "snd p") (simp_all add: related_question_doc_def)

lemma related_search_doc_error:
  "related_search_doc L now f rid q loc p = Inl e \<Longrightarrow> e = AttributeError"
  by (cases p; cases "snd p") (simp_all add: related_search_doc_def)

lemma telegram_message_doc_error:
  "telegram_message_doc L F now f rid sq cs p = Inl e \<Longrightarrow> e = AttributeError"
  by (cases p; cases "snd p") (simp_all add: telegram_message_doc_def)

lemma generic_item_doc_error:
  "generic_item_doc L now f rid p = Inl e \<Longrightarrow> e = TypeError \<or> e = AttributeError"
  by (cases p; cases "snd p") (auto simp add: generic_item_doc_def split: if_splits)

lemma normalize_items_error:
  assumes "normalize_items L now f rid items = Inl e"
  shows "e = TypeError \<or> e = AttributeError"
proof (cases "py_iter items")
  case (Inl e')
  with assms show ?thesis
    by (simp add: normalize_items_def py_iter_error)
next
  case (Inr l)
  with assms have "map_raising (generic_item_doc L now f rid) (enumerate_from 0 l) = Inl e"
    by (simp add: normalize_items_def)
  then have "\<exists>p\<in>set (enumerate_from 0 l). generic_item_doc L now f rid p = Inl e"
    by (rule map_raising_eq_Inl)
  then obtain p where "generic_item_doc L now f rid p = Inl e" by blast
  then show ?thesis by (rule generic_item_doc_error)
qed

lemma map_raising_error:
  assumes "map_raising g xs = Inl e"
    and "\<And>p e'. g p = Inl e' \<Longrightarrow> e' \<in> S"
  shows "e \<in> S"
proof -
  from assms(1) have "\<exists>p\<in>set xs. g p = Inl e" by (rule map_raising_eq_Inl)
  then obtain p where "g p = Inl e" by blast
  then show ?thesis by (rule assms(2))
qed

lemma normalize_serp_api_data_error:
  assumes "normalize_serp_api_data L now d f rid = Inl e"
  shows "e \<in> {TypeError, AttributeError}"
  using assms unfolding normalize_serp_api_data_def
  by (elim bind_error map_raising_error)
     (auto dest: py_get_error py_iter_error organic_result_doc_error
        related_question_doc_error related_search_doc_error)

lemma normalize_telegram_osint_data_error:
  assumes "normalize_telegram_osint_data L F now d f rid = Inl e"
  shows "e \<in> {TypeError, AttributeError}"
proof (cases "py_truthy (dict_get d (py ''messages'') (JArr []))")
  case True
  with assms show ?thesis
    unfolding normalize_telegram_osint_data_def Let_def
    by (elim bind_error map_raising_error)
       (auto dest: py_iter_error telegram_message_doc_error)
next
  case False
  with assms show ?thesis
    unfolding normalize_telegram_osint_data_def Let_def
    by (elim bind_error map_raising_error)
       (auto simp add: bind_eq_Inl
          dest: py_iter_error py_len_error telegram_message_doc_error)
qed

text \<open>\<open>normalize_document\<close>.\<close>

lemma normalize_document_returns:
  "(\<exists>docs. normalize_document L F now raw f ts rid = Inr docs) = normalizes raw"
proof (cases raw)
  case (JObj d)
  have generic:
    "(\<exists>docs. bind (wrapped_items d) (normalize_items L now f rid) = Inr docs)
     = (\<exists>items. wrapped_items d = Inr items \<and> iterable_of_dicts items)"
    by (simp add: bind_returns normalize_items_returns)
  show ?thesis
    unfolding JObj normalize_document_def normalizes_def json.case
    using normalize_comprehensive_report_doc [of L F now d f rid]
    by (auto simp add: normalize_serp_api_data_returns normalize_telegram_osint_data_returns
        generic wrapped_items_returns simp del: not_None_eq)
next
  case (JArr xs)
  then show ?thesis
    by (simp add: normalize_document_def normalizes_def normalize_items_returns
        iterable_of_dicts_def)
qed (simp_all add: normalize_document_def normalizes_def)

lemma normalize_document_error:
  assumes "normalize_document L F now raw f ts rid = Inl e"
  shows "e \<in> {TypeError, AttributeError}"
proof (cases raw)
  case (JObj d)
  have generic: "e' \<in> {TypeError, AttributeError}"
    if "bind (wrapped_items d) (normalize_items L now f rid) = Inl e'" for e'
    using that
    by (rule bind_error) (auto dest: wrapped_items_error normalize_items_error)
  from assms show ?thesis
    unfolding JObj normalize_document_def json.case
    by (auto split: if_splits
        dest: normalize_serp_api_data_error normalize_telegram_osint_data_error generic
        simp add: normalize_comprehensive_report_def)
next
  case (JArr xs)
  with assms show ?thesis
    using normalize_items_error [of L now f rid raw e]
    by (simp add: normalize_document_def)
qed (use assms in \<open>simp_all add: normalize_document_def\<close>)






text \<open>
  C2 (\<open>normalize_document\<close>), as the claim states it: the JSON text \<open>[1]\<close> is well
  formed, and so is \<open>{"articles": null}\<close>; on both \<open>normalize_document\<close> raises
  \<open>TypeError\<close>, at \<open>"source" in item\<close> and at \<open>"results" in raw_doc["articles"]\<close>.  On
  \<open>["abc"]\<close> it raises \<open>AttributeError\<close> at \<open>item.get\<close>.
\<close>

theorem normalize_document_raises_counterexample:
  "normalize_document ascii_lib plain_fmt (\<lambda>k. []) (JArr [JInt 1]) (py ''a.json'') [] []
     = Inl TypeError
   \<and> normalize_document ascii_lib plain_fmt (\<lambda>k. []) (JObj [(py ''articles'', JNull)])
       (py ''a.json'') [] [] = Inl TypeError
   \<and> normalize_document ascii_lib plain_fmt (\<lambda>k. []) (JArr [JStr (py ''abc'')])
       (py ''a.json'') [] [] = Inl AttributeError"
  by (simp add: normalize_document_def normalize_items_def wrapped_items_def
      generic_item_doc_def enumerate_from_def dict_has_def py_def str_contains_def sublist_code)

text \<open>
  C2, amended.  \<open>normalize_document\<close> returns a list of documents exactly on the
  payloads of the shapes that \<open>normalizes\<close> describes: every scalar (the empty list),
  every list of objects (one document for each), every object that matches none of the
  three formats and has no \<open>"articles"\<close> member, and the objects of a format whose
  members have the types the normalizer of the format expects.  On every other payload
  it raises \<open>TypeError\<close> or \<open>AttributeError\<close>, and nothing else.  The \<open>try\<close> block of
  \<open>ingest_directory\<close> catches the exception: the file is logged as failed and gives no
  action.
\<close>

theorem normalize_document_returns_or_raises:
  "(if normalizes raw
    then \<exists>docs. normalize_document L F now raw f ts rid = Inr docs
    else normalize_document L F now raw f ts rid = Inl TypeError
         \<or> normalize_document L F now raw f ts rid = Inl AttributeError)
   \<and> normalize_document L F now JNull f ts rid = Inr []
   \<and> normalize_document L F now (JBool b) f ts rid = Inr []
   \<and> normalize_document L F now (JInt n) f ts rid = Inr []
   \<and> normalize_document L F now (JFloat r) f ts rid = Inr []
   \<and> normalize_document L F now (JStr s) f ts rid = Inr []
   \<and> (list_all is_dict xs
      \<longrightarrow> (\<exists>docs. normalize_document L F now (JArr xs) f ts rid = Inr docs
                  \<and> length docs = length xs))
   \<and> (json_load W f = Inr raw
        \<and> normalize_document L F (fs_clock W f) raw f ts rid = Inl err
      \<longrightarrow> process_file L F W f index_name ts rid
          = ([], [LogProcessing f, LogFailedToProcess f (Raised err)]))"
proof (intro conjI impI)
  show "if normalizes raw
    then \<exists>docs. normalize_document L F now raw f ts rid = Inr docs
    else normalize_document L F now raw f ts rid = Inl TypeError
         \<or> normalize_document L F now raw f ts rid = Inl AttributeError"
  proof (cases "normalizes raw")
    case True
    then show ?thesis using normalize_document_returns [of L F now raw f ts rid] by simp
  next
    case False
    then have "\<nexists>docs. normalize_document L F now raw f ts rid = Inr docs"
      using normalize_document_returns [of L F now raw f ts rid] by simp
    then obtain e where e: "normalize_document L F now raw f ts rid = Inl e"
      by (cases "normalize_document L F now raw f ts rid") auto
    from normalize_document_error [OF e] e False show ?thesis by auto
  qed
next
  assume xs: "list_all is_dict xs"
  then have "normalizes (JArr xs)" by (simp add: normalizes_def)
  then obtain docs where docs: "normalize_document L F now (JArr xs) f ts rid = Inr docs"
    using normalize_document_returns by blast
  then have "length docs = length xs"
    by (simp add: normalize_document_def normalize_items_list_length)
  with docs show "\<exists>docs. normalize_document L F now (JArr xs) f ts rid = Inr docs
                  \<and> length docs = length xs" by blast
next
  assume "json_load W f = Inr raw
        \<and> normalize_document L F (fs_clock W f) raw f ts rid = Inl err"
  then show "process_file L F W f index_name ts rid
          = ([], [LogProcessing f, LogFailedToProcess f (Raised err)])"
    by (simp add: process_file_def)
qed (simp_all add: normalize_document_def)

theorem normalize_document_returns_or_raises_witness:
  "normalizes (JArr [JObj []])
   \<and> (\<exists>docs. normalize_document ascii_lib plain_fmt (\<lambda>k. []) (JArr [JObj []]) (py ''a.json'')
         [] [] = Inr docs \<and> length docs = length [JObj []])
   \<and> \<not> normalizes (JArr [JInt 1])
   \<and> list_all is_dict [JObj []]
   \<and> json_load list_of_one_file (py ''a.json'') = Inr (JArr [JInt 1])
   \<and> normalize_document ascii_lib plain_fmt (fs_clock list_of_one_file (py ''a.json''))
       (JArr [JInt 1]) (py ''a.json'') [] [] = Inl TypeError
   \<and> process_file ascii_lib plain_fmt list_of_one_file (py ''a.json'') (py ''osint_x'') [] []
       = ([], [LogProcessing (py ''a.json''), LogFailedToProcess (py ''a.json'') (Raised TypeError)])"
proof -
  have 1: "normalizes (JArr [JObj []])" "\<not> normalizes (JArr [JInt 1])"
    "list_all is_dict [JObj []]"
    by (simp_all add: normalizes_def is_dict_def)
  have 2: "json_load list_of_one_file (py ''a.json'') = Inr (JArr [JInt 1])"
    by (simp add: list_of_one_file_def)
  have 3: "normalize_document ascii_lib plain_fmt (fs_clock list_of_one_file (py ''a.json''))
       (JArr [JInt 1]) (py ''a.json'') [] [] = Inl TypeError"
    using normalize_document_returns_or_raises
      [where raw = "JArr [JInt 1]" and L = ascii_lib and F = plain_fmt
         and now = "fs_clock list_of_one_file (py ''a.json'')" and f = "py ''a.json''"
         and ts = "[]" and rid = "[]"]
      1
    by (simp add: normalize_document_def normalize_items_def generic_item_doc_def
        enumerate_from_def)
  show ?thesis
    using normalize_document_returns_or_raises
      [where raw = "JArr [JInt 1]" and L = ascii_lib and F = plain_fmt
         and now = "\<lambda>k. []" and f = "py ''a.json''" and ts = "[]" and rid = "[]"
         and xs = "[JObj []]" and W = list_of_one_file and err = TypeError
         and index_name = "py ''osint_x''"]
      1 2 3
    by simp
qed

section \<open>Ingestion: a failed creation of an index\<close>

lemma bulk_requests_Nil [simp]: "bulk_requests [] = []"
  by (simp add: bulk_requests_def)

lemma bulk_requests_append [simp]:
  "bulk_requests (xs @ ys) = bulk_requests xs @ bulk_requests ys"
  by (simp add: bulk_requests_def)

lemma is_bulk_simps [simp]:
  "\<not> is_bulk (IndicesExists n)" "\<not> is_bulk (IndicesCreate n)" "is_bulk (Bulk actions)"
  by (simp_all add: is_bulk_def)

lemma bulk_requests_Cons [simp]:
  "bulk_requests (r # rs) = (if is_bulk r then r # bulk_requests rs else bulk_requests rs)"
  by (simp add: bulk_requests_def)

lemma es_requests_send [simp]: "es_requests (send r st) = es_requests st @ [r]"
  by (simp add: send_def)

lemma es_requests_log [simp]: "es_requests (log rs st) = es_requests st"
  by (simp add: log_def)

lemma es_logs_send [simp]: "es_logs (send r st) = es_logs st"
  by (simp add: send_def)

lemma es_logs_log [simp]: "es_logs (log rs st) = es_logs st @ rs"
  by (simp add: log_def)

lemma ensure_index_exists_raises:
  "(fst (ensure_index_exists es n st) = Inl e) = (indices_exists es n = Inl e)"
  by (simp add: ensure_index_exists_def split: sum.splits)

lemma ensure_index_exists_no_bulk:
  "bulk_requests (es_requests (snd (ensure_index_exists es n st)))
   = bulk_requests (es_requests st)"
  by (simp add: ensure_index_exists_def split: sum.splits)

lemma ensure_index_exists_create_fails:
  assumes "indices_exists es n = Inr False" and "indices_create es n = Inl e"
  shows "ensure_index_exists es n st =
           (Inr False,
            log [LogFailedToCreateIndex n e] (send (IndicesCreate n) (send (IndicesExists n) st)))"
  using assms by (simp add: ensure_index_exists_def)

lemma ensure_indices_no_bulk:
  "bulk_requests (es_requests (snd (ensure_indices es ns st))) = bulk_requests (es_requests st)"
proof (induction ns arbitrary: st)
  case Nil
  show ?case by simp
next
  case (Cons n ns)
  obtain r st' where r: "ensure_index_exists es n st = (r, st')"
    by (cases "ensure_index_exists es n st")
  with ensure_index_exists_no_bulk [of es n st]
  have st': "bulk_requests (es_requests st') = bulk_requests (es_requests st)" by simp
  show ?case
    using r st' Cons.IH [of st'] by (cases r) simp_all
qed

lemma ensure_indices_returns:
  "(fst (ensure_indices es ns st) = None) = (\<forall>n\<in>set ns. \<forall>e. indices_exists es n \<noteq> Inl e)"
proof (induction ns arbitrary: st)
  case Nil
  show ?case by simp
next
  case (Cons n ns)
  obtain r st' where r: "ensure_index_exists es n st = (r, st')"
    by (cases "ensure_index_exists es n st")
  show ?case
  proof (cases r)
    case (Inl e)
    with r ensure_index_exists_raises [of es n st e] show ?thesis by auto
  next
    case (Inr created)
    with r ensure_index_exists_raises [of es n st] have "\<forall>e. indices_exists es n \<noteq> Inl e"
      by auto
    with r Inr Cons.IH [of st'] show ?thesis by simp
  qed
qed

lemma ensure_indices_raises:
  "fst (ensure_indices es ns st) = Some e \<Longrightarrow> \<exists>n\<in>set ns. indices_exists es n = Inl e"
proof (induction ns arbitrary: st)
  case Nil
  then show ?case by simp
next
  case (Cons n ns)
  obtain r st' where r: "ensure_index_exists es n st = (r, st')"
    by (cases "ensure_index_exists es n st")
  show ?case
  proof (cases r)
    case (Inl e')
    with r Cons.prems have "e' = e" by simp
    with Inl r ensure_index_exists_raises [of es n st e] show ?thesis by simp
  next
    case (Inr created)
    with r Cons.prems have "fst (ensure_indices es ns st') = Some e" by simp
    with Cons.IH show ?thesis by auto
  qed
qed

lemma bulk_ingest_requests:
  "es_requests (bulk_ingest es docs k st)
   = es_requests st @ (if docs \<noteq> [] then [Bulk docs] else [])"
  by (simp add: bulk_ingest_def Let_def split: sum.splits prod.splits option.splits)

lemma create_and_ingest_returns:
  assumes "\<forall>n\<in>set (set_order L indices). \<forall>e. indices_exists es n \<noteq> Inl e"
  shows "fst (create_and_ingest L es indices docs st) = None
         \<and> bulk_requests (es_requests (snd (create_and_ingest L es indices docs st)))
           = bulk_requests (es_requests st) @ (if docs \<noteq> [] then [Bulk docs] else [])"
proof -
  obtain r st' where r: "ensure_indices es (set_order L indices) st = (r, st')"
    by (cases "ensure_indices es (set_order L indices) st")
  with assms ensure_indices_returns [of es "set_order L indices" st] have none: "r = None"
    by simp
  from r ensure_indices_no_bulk [of es "set_order L indices" st]
  have "bulk_requests (es_requests st') = bulk_requests (es_requests st)" by simp
  with r none show ?thesis
    by (simp add: create_and_ingest_def bulk_ingest_requests)
qed

lemma create_and_ingest_raises:
  assumes "fst (create_and_ingest L es indices docs st) = Some e"
  shows "(\<exists>n\<in>set (set_order L indices). indices_exists es n = Inl e)
         \<and> bulk_requests (es_requests (snd (create_and_ingest L es indices docs st)))
           = bulk_requests (es_requests st)"
proof -
  obtain r st' where r: "ensure_indices es (set_order L indices) st = (r, st')"
    by (cases "ensure_indices es (set_order L indices) st")
  with assms have some: "r = Some e"
    by (cases r) (simp_all add: create_and_ingest_def)
  from r ensure_indices_no_bulk [of es "set_order L indices" st]
  have "bulk_requests (es_requests st') = bulk_requests (es_requests st)" by simp
  moreover from r some ensure_indices_raises [of es "set_order L indices" st e]
  have "\<exists>n\<in>set (set_order L indices). indices_exists es n = Inl e" by simp
  ultimately show ?thesis using r some by (simp add: create_and_ingest_def)
qed

text \<open>
  C9 (\<open>ensure_index_exists\<close>, \<open>ingest_directory\<close>), as the claim states it.
  Elasticsearch has no index and refuses to create one.  \<open>ensure_index_exists\<close> logs the
  failure and returns; the bulk request is sent all the same, with an action for that
  very index, and no exception leaves \<open>ingest_directory\<close>, so \<open>main\<close> logs no fatal error.
\<close>

theorem index_creation_failure_is_fatal_counterexample:
  "indices_create failing_create (a_index example_action) = Inl mapping_rejected
   \<and> create_and_ingest ascii_lib failing_create [a_index example_action] [example_action]
       empty_state
     = (None,
        \<lparr> es_requests = [IndicesExists (a_index example_action),
                          IndicesCreate (a_index example_action),
                          Bulk [example_action]],
          es_logs = [LogFailedToCreateIndex (a_index example_action) mapping_rejected,
                     LogIngesting 1 1, LogIngestionComplete 1] \<rparr>)"
  by (simp add: create_and_ingest_def ensure_index_exists_def bulk_ingest_def failing_create_def
      ascii_lib_def empty_state_def send_def log_def)

text \<open>
  C9, amended.  A failure of \<open>es.indices.create\<close> is caught by \<open>ensure_index_exists\<close>,
  which logs an error and returns \<open>False\<close>; the caller does not look at the value.  If
  no call of \<open>es.indices.exists\<close> raises, \<open>ingest_directory\<close> returns normally whatever the
  creations did, and it has sent the bulk request with all the collected documents if
  there is one, and none otherwise.  Only an exception of \<open>es.indices.exists\<close> leaves
  \<open>ingest_directory\<close>: then no bulk request has been sent, and \<open>main\<close> logs it as a fatal
  error.
\<close>

theorem index_creation_failure_is_logged_and_run_continues:
  "(indices_exists es n = Inr False \<and> indices_create es n = Inl e
      \<longrightarrow> ensure_index_exists es n st =
            (Inr False,
             log [LogFailedToCreateIndex n e]
               (send (IndicesCreate n) (send (IndicesExists n) st))))
   \<and> ((\<forall>n\<in>set (set_order L indices). \<forall>e. indices_exists es n \<noteq> Inl e)
      \<longrightarrow> fst (create_and_ingest L es indices docs st) = None
          \<and> bulk_requests (es_requests (snd (create_and_ingest L es indices docs st)))
            = bulk_requests (es_requests st) @ (if docs \<noteq> [] then [Bulk docs] else []))
   \<and> (fst (create_and_ingest L es indices docs st) = Some e'
      \<longrightarrow> (\<exists>n\<in>set (set_order L indices). indices_exists es n = Inl e')
          \<and> bulk_requests (es_requests (snd (create_and_ingest L es indices docs st)))
            = bulk_requests (es_requests st))
   \<and> (es_ping es = Inr True
      \<longrightarrow> main L F W es (Some dir) index_prefix
          = (case ingest_directory L F W es dir index_prefix of
               (Some e, st') \<Rightarrow> log [LogFatalError (Failed e)] st'
             | (None, st') \<Rightarrow> st'))"
proof (intro conjI impI)
  assume "indices_exists es n = Inr False \<and> indices_create es n = Inl e"
  then show "ensure_index_exists es n st =
            (Inr False,
             log [LogFailedToCreateIndex n e]
               (send (IndicesCreate n) (send (IndicesExists n) st)))"
    by (simp add: ensure_index_exists_create_fails)
next
  assume a: "\<forall>n\<in>set (set_order L indices). \<forall>e. indices_exists es n \<noteq> Inl e"
  from create_and_ingest_returns [OF a]
  show "fst (create_and_ingest L es indices docs st) = None"
    and "bulk_requests (es_requests (snd (create_and_ingest L es indices docs st)))
            = bulk_requests (es_requests st) @ (if docs \<noteq> [] then [Bulk docs] else [])"
    by simp_all
next
  assume a: "fst (create_and_ingest L es indices docs st) = Some e'"
  from create_and_ingest_raises [OF a]
  show "\<exists>n\<in>set (set_order L indices). indices_exists es n = Inl e'"
    and "bulk_requests (es_requests (snd (create_and_ingest L es indices docs st)))
            = bulk_requests (es_requests st)"
    by simp_all
next
  assume "es_ping es = Inr True"
  then show "main L F W es (Some dir) index_prefix
          = (case ingest_directory L F W es dir index_prefix of
               (Some e, st') \<Rightarrow> log [LogFatalError (Failed e)] st'
             | (None, st') \<Rightarrow> st')"
    by (simp add: main_def)
qed

theorem index_creation_failure_is_logged_and_run_continues_witness:
  "indices_exists failing_create (a_index example_action) = Inr False
   \<and> indices_create failing_create (a_index example_action) = Inl mapping_rejected
   \<and> ensure_index_exists failing_create (a_index example_action) empty_state =
       (Inr False,
        log [LogFailedToCreateIndex (a_index example_action) mapping_rejected]
          (send (IndicesCreate (a_index example_action))
             (send (IndicesExists (a_index example_action)) empty_state)))
   \<and> (\<forall>n e. indices_exists failing_create n \<noteq> Inl e)
   \<and> fst (create_and_ingest ascii_lib failing_create [a_index example_action] [example_action]
            empty_state) = None
   \<and> bulk_requests (es_requests (snd (create_and_ingest ascii_lib failing_create
        [a_index example_action] [example_action] empty_state))) = [Bulk [example_action]]
   \<and> fst (create_and_ingest ascii_lib unreachable [a_index example_action] [example_action]
            empty_state) = Some connection_lost
   \<and> bulk_requests (es_requests (snd (create_and_ingest ascii_lib unreachable
        [a_index example_action] [example_action] empty_state))) = []
   \<and> es_ping unreachable = Inr True
   \<and> main ascii_lib plain_fmt list_of_one_file unreachable (Some (py ''reports'')) (py ''osint_'')
       = (case ingest_directory ascii_lib plain_fmt list_of_one_file unreachable (py ''reports'')
                 (py ''osint_'') of
            (Some e, st') \<Rightarrow> log [LogFatalError (Failed e)] st'
          | (None, st') \<Rightarrow> st')"
proof -
  have 1: "indices_exists failing_create (a_index example_action) = Inr False"
    "indices_create failing_create (a_index example_action) = Inl mapping_rejected"
    "\<forall>n e. indices_exists failing_create n \<noteq> Inl e"
    "es_ping unreachable = Inr True"
    by (simp_all add: failing_create_def unreachable_def)
  have 2: "fst (create_and_ingest ascii_lib unreachable [a_index example_action]
                  [example_action] empty_state) = Some connection_lost"
    by (simp add: create_and_ingest_def ensure_index_exists_def unreachable_def ascii_lib_def)
  show ?thesis
    using index_creation_failure_is_logged_and_run_continues
      [where es = failing_create and n = "a_index example_action" and e = mapping_rejected
         and st = empty_state and L = ascii_lib and indices = "[a_index example_action]"
         and docs = "[example_action]"]
      index_creation_failure_is_logged_and_run_continues
      [where es = unreachable and st = empty_state and L = ascii_lib
         and indices = "[a_index example_action]" and docs = "[example_action]"
         and e' = connection_lost and F = plain_fmt and W = list_of_one_file
         and dir = "py ''reports''" and index_prefix = "py ''osint_''"]
      1 2
    by (simp add: empty_state_def)
qed

end
